theory Spec2Isabelle
  imports Main "HOL-Library.Word" "HOL-Library.Sublist"
begin

unbundle bit_operations_syntax

section \<open>Values of the plugin framework\<close>

text \<open>
  The resource reads its plan through the framework's value types. A \<open>types.String\<close>
  is null, unknown or a known Go string; \<open>ValueString\<close> gives the raw string (empty for
  null and unknown). The elements of the three address lists are \<open>attr.Value\<close>s whose
  dynamic type is the framework's string value (the schema fixes
  \<open>ElementType: types.StringType\<close>).
\<close>

datatype types_String = StringNull | StringUnknown | StringValue string

type_synonym attr_Value = types_String

fun ValueString :: "types_String \<Rightarrow> string" where
  "ValueString (StringValue s) = s"
| "ValueString StringNull = []"
| "ValueString StringUnknown = []"

datatype types_Bool = BoolNull | BoolUnknown | BoolValue bool

fun ValueBool :: "types_Bool \<Rightarrow> bool" where
  "ValueBool (BoolValue b) = b"
| "ValueBool BoolNull = False"
| "ValueBool BoolUnknown = False"

text \<open>A \<open>types.List\<close>; \<open>Elements\<close> of a null or unknown list is the empty slice.\<close>

datatype types_List = ListNull | ListUnknown | ListValue "attr_Value list"

fun Elements :: "types_List \<Rightarrow> attr_Value list" where
  "Elements (ListValue vs) = vs"
| "Elements ListNull = []"
| "Elements ListUnknown = []"

section \<open>The recipient normalizer\<close>

text \<open>
  \<open>uniqueAttrValue\<close> walks the slice once with a Go map \<open>occurred\<close> from values to
  booleans (a missing key reads as \<open>false\<close>) and appends to \<open>result\<close> every value not
  seen before. The map is a function into \<open>bool\<close> that starts everywhere false; the
  comparison of two keys is Go's \<open>==\<close> on the interface values, which for two string
  values is equality of state and of the string, that is equality of the datatype.
\<close>

fun uniqueAttrValue_loop :: "'a list \<Rightarrow> ('a \<Rightarrow> bool) \<Rightarrow> 'a list \<Rightarrow> 'a list" where
  "uniqueAttrValue_loop [] occurred result = result"
| "uniqueAttrValue_loop (e # arr) occurred result =
     (if \<not> occurred e
      then uniqueAttrValue_loop arr (occurred(e := True)) (result @ [e])
      else uniqueAttrValue_loop arr occurred result)"

definition uniqueAttrValue :: "'a list \<Rightarrow> 'a list" where
  "uniqueAttrValue arr = uniqueAttrValue_loop arr (\<lambda>_. False) []"

text \<open>
  The contract in the specification's words: keep exactly the positions of the input at
  which the value has not occurred at an earlier position, in the input's order.
\<close>

definition first_occurrences :: "'a list \<Rightarrow> 'a list" where
  "first_occurrences xs = [xs ! i. i \<leftarrow> [0..<length xs], xs ! i \<notin> set (take i xs)]"

text \<open>The same, told apart by a set of values already seen.\<close>

fun unseen :: "'a set \<Rightarrow> 'a list \<Rightarrow> 'a list" where
  "unseen S [] = []"
| "unseen S (x # xs) = (if x \<in> S then unseen S xs else x # unseen (insert x S) xs)"

section \<open>Rendering of values and the message text\<close>

abbreviation CR :: char where "CR \<equiv> CHR 0x0D"
abbreviation LF :: char where "LF \<equiv> CHR 0x0A"
abbreviation DQ :: char where "DQ \<equiv> CHR 0x22"
abbreviation BSL :: char where "BSL \<equiv> CHR 0x5C"

definition lowerhex :: string where
  "lowerhex = ''0123456789abcdef''"

text \<open>
  \<open>asStringList\<close> and the RCPT loop render an element with the method \<open>String()\<close> of
  \<open>attr.Value\<close>, not with \<open>ValueString()\<close> as subject, body and from are read. The
  method belongs to the plugin framework (\<open>basetypes.StringValue.String\<close>), whose
  documentation calls it the human-readable representation for logging and error
  reporting and points to \<open>ValueString\<close> for the raw string. It gives \<open><null>\<close>,
  \<open><unknown>\<close>, or the known string formatted with \<open>%q\<close>, which is \<open>strconv.Quote\<close>.

  \<open>strconv.Quote\<close> puts the string in double quotes and walks it rune by rune: a byte
  that does not start a valid UTF-8 encoding is written \<open>\xhh\<close>; \<open>"\<close> and the backslash
  get a backslash; a printable rune is copied; the other runes are written
  \<open>\a \b \f \n \r \t \v\<close>, \<open>\xhh\<close> (control characters), \<open>\uhhhh\<close> or \<open>\Uhhhhhhhh\<close>.
  Which runes are printable is \<open>strconv.IsPrint\<close>: up to U+00FF it is the test written
  out below (space to \<open>~\<close>, and U+00A1 to U+00FF but the soft hyphen); beyond, it is
  read from tables of the Go library, which are a parameter \<open>tab\<close> of the rendering and
  of everything that renders.
\<close>

type_synonym rune = nat

type_synonym print_table = "rune \<Rightarrow> bool"

definition RuneError :: rune where
  "RuneError = 0xFFFD"

fun utf8_DecodeRuneInString :: "nat list \<Rightarrow> rune \<times> nat" where
  "utf8_DecodeRuneInString [] = (RuneError, 0)"
| "utf8_DecodeRuneInString (s0 # rest) =
     (if s0 < 0x80 then (s0, 1)
      else if s0 < 0xC2 \<or> 0xF4 < s0 then (RuneError, 1)
      else
        let sz = (if s0 < 0xE0 then 2 else if s0 < 0xF0 then 3 else 4 :: nat);
            lo = (if s0 = 0xE0 then 0xA0 else if s0 = 0xF0 then 0x90 else 0x80);
            hi = (if s0 = 0xED then 0x9F else if s0 = 0xF4 then 0x8F else 0xBF)
        in
        if length (s0 # rest) < sz then (RuneError, 1)
        else if rest ! 0 < lo \<or> hi < rest ! 0 then (RuneError, 1)
        else if sz \<le> 2 then ((s0 mod 32) * 64 + rest ! 0 mod 64, 2)
        else if rest ! 1 < 0x80 \<or> 0xBF < rest ! 1 then (RuneError, 1)
        else if sz \<le> 3
          then ((s0 mod 16) * 4096 + (rest ! 0 mod 64) * 64 + rest ! 1 mod 64, 3)
        else if rest ! 2 < 0x80 \<or> 0xBF < rest ! 2 then (RuneError, 1)
        else ((s0 mod 8) * 262144 + (rest ! 0 mod 64) * 4096 + (rest ! 1 mod 64) * 64
                + rest ! 2 mod 64, 4))"

definition utf8_ValidRune :: "rune \<Rightarrow> bool" where
  "utf8_ValidRune r \<longleftrightarrow> r < 0xD800 \<or> (0xDFFF < r \<and> r \<le> 0x10FFFF)"

definition utf8_AppendRune :: "rune \<Rightarrow> nat list" where
  "utf8_AppendRune r =
     (if r \<le> 0x7F then [r]
      else if r \<le> 0x7FF then [0xC0 + r div 64, 0x80 + r mod 64]
      else if \<not> utf8_ValidRune r then [0xEF, 0xBF, 0xBD]
      else if r \<le> 0xFFFF then [0xE0 + r div 4096, 0x80 + (r div 64) mod 64, 0x80 + r mod 64]
      else [0xF0 + r div 262144, 0x80 + (r div 4096) mod 64, 0x80 + (r div 64) mod 64,
            0x80 + r mod 64])"

definition strconv_IsPrint :: "print_table \<Rightarrow> rune \<Rightarrow> bool" where
  "strconv_IsPrint tab r =
     (if r \<le> 0xFF then (0x20 \<le> r \<and> r \<le> 0x7E) \<or> (0xA1 \<le> r \<and> r \<noteq> 0xAD)
      else tab r)"

definition hex_digits :: "nat list \<Rightarrow> rune \<Rightarrow> string" where
  "hex_digits shifts r = map (\<lambda>s. lowerhex ! ((r div 2 ^ s) mod 16)) shifts"

definition appendEscapedRune :: "print_table \<Rightarrow> rune \<Rightarrow> string" where
  "appendEscapedRune tab r =
     (if r = 0x22 \<or> r = 0x5C then [BSL, char_of r]
      else if strconv_IsPrint tab r then map char_of (utf8_AppendRune r)
      else if r = 7 then [BSL, CHR ''a'']
      else if r = 8 then [BSL, CHR ''b'']
      else if r = 12 then [BSL, CHR ''f'']
      else if r = 10 then [BSL, CHR ''n'']
      else if r = 13 then [BSL, CHR ''r'']
      else if r = 9 then [BSL, CHR ''t'']
      else if r = 11 then [BSL, CHR ''v'']
      else if r < 0x20 \<or> r = 0x7F then [BSL, CHR ''x''] @ hex_digits [4, 0] r
      else if \<not> utf8_ValidRune r then [BSL, CHR ''u''] @ hex_digits [12, 8, 4, 0] RuneError
      else if r < 0x10000 then [BSL, CHR ''u''] @ hex_digits [12, 8, 4, 0] r
      else [BSL, CHR ''U''] @ hex_digits [28, 24, 20, 16, 12, 8, 4, 0] r)"

fun appendQuotedWith :: "print_table \<Rightarrow> string \<Rightarrow> string" where
  "appendQuotedWith tab [] = []"
| "appendQuotedWith tab (c # s) =
     (case (if (0x80 :: nat) \<le> of_char c then utf8_DecodeRuneInString (map of_char (c # s))
            else (of_char c, 1)) of
        (r, width) \<Rightarrow>
          (if width = 1 \<and> r = RuneError then [BSL, CHR ''x''] @ hex_digits [4, 0] (of_char c)
           else appendEscapedRune tab r)
          @ appendQuotedWith tab (drop (width - 1) s))"

definition strconv_Quote :: "print_table \<Rightarrow> string \<Rightarrow> string" where
  "strconv_Quote tab s = [DQ] @ appendQuotedWith tab s @ [DQ]"

fun attr_String :: "print_table \<Rightarrow> attr_Value \<Rightarrow> string" where
  "attr_String tab StringUnknown = ''<unknown>''"
| "attr_String tab StringNull = ''<null>''"
| "attr_String tab (StringValue s) = strconv_Quote tab s"

text \<open>\<open>asStringList\<close>: the loop that appends \<open>i.String()\<close> for every element.\<close>

fun asStringList_loop :: "print_table \<Rightarrow> attr_Value list \<Rightarrow> string list \<Rightarrow> string list" where
  "asStringList_loop tab [] result = result"
| "asStringList_loop tab (i # arr) result =
     asStringList_loop tab arr (result @ [attr_String tab i])"

definition asStringList :: "print_table \<Rightarrow> attr_Value list \<Rightarrow> string list" where
  "asStringList tab arr = asStringList_loop tab arr []"

fun strings_Join :: "string list \<Rightarrow> string \<Rightarrow> string" where
  "strings_Join [] sep = []"
| "strings_Join [e] sep = e"
| "strings_Join (e # e' # elems) sep = e @ sep @ strings_Join (e' # elems) sep"

section \<open>The identifier: MD5 and its hexadecimal form\<close>

text \<open>
  \<open>md5.Sum\<close> of the standard library (RFC 1321): the data is padded with \<open>0x80\<close>,
  zeros and its length in bits to a multiple of 64 bytes, and every block of sixteen
  little-endian words is mixed into four 32-bit words in 64 steps. \<open>Sprintf_x\<close> is
  \<open>fmt.Sprintf("%x", ...)\<close> on the sixteen bytes: two lower-case hexadecimal digits for
  each byte.
\<close>

type_synonym byte = "8 word"
type_synonym uint32 = "32 word"

definition bytes_of_string :: "string \<Rightarrow> byte list" where
  "bytes_of_string s = map of_char s"

definition md5_shifts :: "nat list" where
  "md5_shifts =
    [7, 12, 17, 22, 7, 12, 17, 22, 7, 12, 17, 22, 7, 12, 17, 22,
     5, 9, 14, 20, 5, 9, 14, 20, 5, 9, 14, 20, 5, 9, 14, 20,
     4, 11, 16, 23, 4, 11, 16, 23, 4, 11, 16, 23, 4, 11, 16, 23,
     6, 10, 15, 21, 6, 10, 15, 21, 6, 10, 15, 21, 6, 10, 15, 21]"

definition md5_table :: "uint32 list" where
  "md5_table =
    [0xd76aa478, 0xe8c7b756, 0x242070db, 0xc1bdceee, 0xf57c0faf, 0x4787c62a, 0xa8304613, 0xfd469501,
     0x698098d8, 0x8b44f7af, 0xffff5bb1, 0x895cd7be, 0x6b901122, 0xfd987193, 0xa679438e, 0x49b40821,
     0xf61e2562, 0xc040b340, 0x265e5a51, 0xe9b6c7aa, 0xd62f105d, 0x02441453, 0xd8a1e681, 0xe7d3fbc8,
     0x21e1cde6, 0xc33707d6, 0xf4d50d87, 0x455a14ed, 0xa9e3e905, 0xfcefa3f8, 0x676f02d9, 0x8d2a4c8a,
     0xfffa3942, 0x8771f681, 0x6d9d6122, 0xfde5380c, 0xa4beea44, 0x4bdecfa9, 0xf6bb4b60, 0xbebfbc70,
     0x289b7ec6, 0xeaa127fa, 0xd4ef3085, 0x04881d05, 0xd9d4d039, 0xe6db99e5, 0x1fa27cf8, 0xc4ac5665,
     0xf4292244, 0x432aff97, 0xab9423a7, 0xfc93a039, 0x655b59c3, 0x8f0ccc92, 0xffeff47d, 0x85845dd1,
     0x6fa87e4f, 0xfe2ce6e0, 0xa3014314, 0x4e0811a1, 0xf7537e82, 0xbd3af235, 0x2ad7d2bb, 0xeb86d391]"

definition le_uint32 :: "byte list \<Rightarrow> uint32" where
  "le_uint32 bs = ucast (bs ! 0) OR push_bit 8 (ucast (bs ! 1))
     OR push_bit 16 (ucast (bs ! 2)) OR push_bit 24 (ucast (bs ! 3))"

definition put_uint32 :: "uint32 \<Rightarrow> byte list" where
  "put_uint32 w = [ucast w, ucast (drop_bit 8 w), ucast (drop_bit 16 w), ucast (drop_bit 24 w)]"

definition put_uint64 :: "64 word \<Rightarrow> byte list" where
  "put_uint64 w = map (\<lambda>i. ucast (drop_bit (8 * i) w)) [0..<8]"

definition md5_pad :: "byte list \<Rightarrow> byte list" where
  "md5_pad p = p @ [0x80] @ replicate ((119 - length p mod 64) mod 64) 0
     @ put_uint64 (of_nat (8 * length p))"

type_synonym md5_state = "uint32 \<times> uint32 \<times> uint32 \<times> uint32"

definition md5_step :: "uint32 list \<Rightarrow> nat \<Rightarrow> md5_state \<Rightarrow> md5_state" where
  "md5_step M i = (\<lambda>(a, b, c, d).
     let (f, g) =
       (if i < 16 then ((b AND c) OR (NOT b AND d), i)
        else if i < 32 then ((d AND b) OR (NOT d AND c), (5 * i + 1) mod 16)
        else if i < 48 then (b XOR c XOR d, (3 * i + 5) mod 16)
        else (c XOR (b OR NOT d), (7 * i) mod 16))
     in (d, b + word_rotl (md5_shifts ! i) (f + a + md5_table ! i + M ! g), b, c))"

definition md5_block :: "md5_state \<Rightarrow> byte list \<Rightarrow> md5_state" where
  "md5_block s chunk = (case s of (a0, b0, c0, d0) \<Rightarrow>
     let M = map (\<lambda>j. le_uint32 (take 4 (drop (4 * j) chunk))) [0..<16]
     in case fold (md5_step M) [0..<64] s of
          (a, b, c, d) \<Rightarrow> (a0 + a, b0 + b, c0 + c, d0 + d))"

fun md5_blocks :: "nat \<Rightarrow> md5_state \<Rightarrow> byte list \<Rightarrow> md5_state" where
  "md5_blocks 0 s p = s"
| "md5_blocks (Suc n) s p = md5_blocks n (md5_block s (take 64 p)) (drop 64 p)"

definition md5_Sum :: "byte list \<Rightarrow> byte list" where
  "md5_Sum data = (let p = md5_pad data in
     case md5_blocks (length p div 64) (0x67452301, 0xefcdab89, 0x98badcfe, 0x10325476) p of
       (a, b, c, d) \<Rightarrow> put_uint32 a @ put_uint32 b @ put_uint32 c @ put_uint32 d)"

definition Sprintf_x :: "byte list \<Rightarrow> string" where
  "Sprintf_x bs = concat (map (\<lambda>b. [lowerhex ! (unat b div 16), lowerhex ! (unat b mod 16)]) bs)"

section \<open>The plan, the client and the SMTP connection\<close>

record sendMailModel =
  ID :: types_String
  From :: types_String
  To :: types_List
  Cc :: types_List
  Bcc :: types_List
  Subject :: types_String
  Body :: types_String
  RenderHtml :: types_Bool

text \<open>
  The client the provider configures. \<open>auth\<close> is \<open>smtp.Auth(nil)\<close> when
  authentication is switched off and \<open>smtp.PlainAuth("", username, password, host)\<close>
  otherwise. The resource holds a pointer to the client, which is nil until
  \<open>Configure\<close> has stored one.
\<close>

datatype smtp_Auth = PlainAuth string string string string

record client =
  auth :: "smtp_Auth option"
  host :: string
  username :: string
  port :: string

record sendMailResource =
  client :: "client option"

text \<open>
  The connection is a test double: every method of the SMTP client that the resource
  calls is a \<open>call\<close>, and the transport answers a call in a state of the remote end
  with an error text or success and the next state. What the server accepts is
  therefore a parameter of every theorem. \<open>Auth\<close> carries an authentication that is
  not nil: \<open>conn.Auth\<close> of the standard library calls the method \<open>Start\<close> of its
  argument before it writes anything to the connection, so with the nil interface value
  it panics and the server sees no call.
\<close>

record tls_Config =
  ServerName :: string
  InsecureSkipVerify :: bool

datatype call =
    Dial string
  | StartTLS tls_Config
  | Auth smtp_Auth
  | Mail string
  | Rcpt string
  | Data
  | Write string
  | Close

type_synonym 's transport = "call \<Rightarrow> 's \<Rightarrow> string option \<times> 's"

datatype severity = SeverityError | SeverityWarning

datatype diagnostic = Diagnostic severity string string

fun is_error :: "diagnostic \<Rightarrow> bool" where
  "is_error (Diagnostic sev summary detail) = (sev = SeverityError)"

definition HasError :: "diagnostic list \<Rightarrow> bool" where
  "HasError ds = list_ex is_error ds"

datatype exit = Returned | Panicked

text \<open>
  What one invocation leaves behind: the diagnostics of the response, the state it
  wrote (\<open>None\<close> when \<open>resp.State.Set\<close> was not reached), the calls made on the
  connection with their results, in order, the state of the remote end, and whether the
  method returned or panicked (on a nil client, or in \<open>conn.Auth\<close> on a nil
  authentication).
\<close>

record 's outcome =
  Diagnostics :: "diagnostic list"
  State :: "sendMailModel option"
  calls :: "(call \<times> string option) list"
  remote :: "'s"
  exit :: exit

definition AddError :: "string \<Rightarrow> string \<Rightarrow> 's outcome \<Rightarrow> 's outcome" where
  "AddError summary detail resp =
     resp\<lparr>Diagnostics := Diagnostics resp @ [Diagnostic SeverityError summary detail]\<rparr>"

definition invoke :: "'s transport \<Rightarrow> call \<Rightarrow> 's outcome \<Rightarrow> string option \<times> 's outcome" where
  "invoke tr c resp =
     (case tr c (remote resp) of
        (err, s') \<Rightarrow> (err, resp\<lparr>calls := calls resp @ [(c, err)], remote := s'\<rparr>))"

section \<open>Create and Update\<close>

text \<open>
  The values both methods compute between authentication and \<open>conn.Mail\<close>, by the same
  text in both: \<open>from\<close>, \<open>mime\<close>, \<open>receivers\<close> and \<open>msg\<close>. The expression of \<open>msg\<close>
  is cut after the Subject line so that the header lines have a name.
\<close>

definition plan_from :: "client \<Rightarrow> sendMailModel \<Rightarrow> string" where
  "plan_from cl plan =
     (if ValueString (From plan) = [] then username cl else ValueString (From plan))"

definition plan_mime :: "sendMailModel \<Rightarrow> string" where
  "plan_mime plan =
     (if ValueBool (RenderHtml plan)
      then ''MIME-version: 1.0;'' @ [LF] @ ''Content-Type: text/html; charset='' @ [DQ]
           @ ''UTF-8'' @ [DQ] @ '';'' @ [LF, LF]
      else [])"

definition plan_receivers :: "sendMailModel \<Rightarrow> attr_Value list" where
  "plan_receivers plan =
     uniqueAttrValue ((Elements (To plan) @ Elements (Cc plan)) @ Elements (Bcc plan))"

definition plan_header :: "print_table \<Rightarrow> sendMailModel \<Rightarrow> string" where
  "plan_header tab plan =
     ''To: '' @ strings_Join (asStringList tab (Elements (To plan))) '', '' @ [CR, LF] @
     ''Cc: '' @ strings_Join (asStringList tab (Elements (Cc plan))) '', '' @ [CR, LF] @
     ''Subject: '' @ ValueString (Subject plan) @ [CR, LF]"

definition plan_msg :: "print_table \<Rightarrow> sendMailModel \<Rightarrow> string" where
  "plan_msg tab plan =
     plan_header tab plan @ plan_mime plan @ [CR, LF] @ ValueString (Body plan) @ [CR, LF]"

text \<open>The loop over \<open>receivers\<close>: \<open>conn.Rcpt(addr.String())\<close>, left at the first error.\<close>

fun Rcpt_loop ::
    "print_table \<Rightarrow> 's transport \<Rightarrow> attr_Value list \<Rightarrow> 's outcome
       \<Rightarrow> string option \<times> 's outcome" where
  "Rcpt_loop tab tr [] resp = (None, resp)"
| "Rcpt_loop tab tr (addr # receivers) resp =
     (case invoke tr (Rcpt (attr_String tab addr)) resp of
        (Some err, resp') \<Rightarrow> (Some err, resp')
      | (None, resp') \<Rightarrow> Rcpt_loop tab tr receivers resp')"

text \<open>
  Every step of both methods has the shape
  \<open>err = step; if err != nil { resp.Diagnostics.AddError(summary, err.Error()); return }\<close>;
  \<open>if_err\<close> is that shape, with the rest of the method as its last argument.
\<close>

definition if_err ::
    "string option \<times> 's outcome \<Rightarrow> string \<Rightarrow> ('s outcome \<Rightarrow> 's outcome) \<Rightarrow> 's outcome" where
  "if_err res summary rest =
     (case res of
        (Some err, resp) \<Rightarrow> AddError summary err resp
      | (None, resp) \<Rightarrow> rest resp)"

text \<open>
  \<open>Create\<close>. The request is what \<open>req.Plan.Get\<close> gives: its diagnostics and the plan.
  \<open>resp.State.Set\<close> is taken to store the plan without diagnostics of its own. The
  upgrade to TLS and the authentication are made only when \<open>r.client.auth != nil\<close>.
\<close>

definition Create ::
    "print_table \<Rightarrow> sendMailResource \<Rightarrow> 's transport \<Rightarrow> 's
       \<Rightarrow> diagnostic list \<times> sendMailModel \<Rightarrow> 's outcome" where
  "Create tab r tr s0 req =
    (case req of (diags, plan) \<Rightarrow>
     let resp = \<lparr>Diagnostics = diags, State = None, calls = [], remote = s0, exit = Returned\<rparr> in
     if HasError (Diagnostics resp) then resp else
     (case client r of None \<Rightarrow> resp\<lparr>exit := Panicked\<rparr> | Some cl \<Rightarrow>
     let host_port = host cl @ '':'' @ port cl in
     if_err (invoke tr (Dial host_port) resp)
       ''Error connecting to SMTP server:'' (\<lambda>resp.
     if_err (if auth cl \<noteq> None
             then invoke tr (StartTLS \<lparr>ServerName = host_port, InsecureSkipVerify = True\<rparr>) resp
             else (None, resp))
       ''Error upgrading connection to TLS:'' (\<lambda>resp.
     if_err (case auth cl of None \<Rightarrow> (None, resp) | Some a \<Rightarrow> invoke tr (Auth a) resp)
       ''Error authenticating with SMTP server:'' (\<lambda>resp.
     let sender = plan_from cl plan;
         receivers = plan_receivers plan;
         msg = plan_msg tab plan in
     if_err (invoke tr (Mail sender) resp)
       ''Error setting sender address:'' (\<lambda>resp.
     if_err (Rcpt_loop tab tr receivers resp)
       ''Error setting recipient address:'' (\<lambda>resp.
     if_err (invoke tr Data resp)
       ''Error setting email message:'' (\<lambda>resp.
     if_err (invoke tr (Write msg) resp)
       ''Error setting email message:'' (\<lambda>resp.
     if_err (invoke tr Close resp)
       ''Error sending email:'' (\<lambda>resp.
     resp\<lparr>State :=
       Some (plan\<lparr>ID := StringValue (Sprintf_x (md5_Sum (bytes_of_string msg)))\<rparr>)\<rparr>))))))))))"

text \<open>
  \<open>Update\<close>: the same text as \<open>Create\<close>, but for the two steps after the dial:
  \<open>conn.StartTLS\<close> and \<open>conn.Auth(r.client.auth)\<close> are called without the test
  \<open>r.client.auth != nil\<close>. When the authentication is nil and the upgrade was accepted,
  \<open>conn.Auth\<close> panics: nothing more is called, no diagnostic is added and no state is
  written. A state of \<open>None\<close> means that the method left the state as the framework
  handed it over.
\<close>

definition Update ::
    "print_table \<Rightarrow> sendMailResource \<Rightarrow> 's transport \<Rightarrow> 's
       \<Rightarrow> diagnostic list \<times> sendMailModel \<Rightarrow> 's outcome" where
  "Update tab r tr s0 req =
    (case req of (diags, plan) \<Rightarrow>
     let resp = \<lparr>Diagnostics = diags, State = None, calls = [], remote = s0, exit = Returned\<rparr> in
     if HasError (Diagnostics resp) then resp else
     (case client r of None \<Rightarrow> resp\<lparr>exit := Panicked\<rparr> | Some cl \<Rightarrow>
     let host_port = host cl @ '':'' @ port cl in
     if_err (invoke tr (Dial host_port) resp)
       ''Error connecting to SMTP server:'' (\<lambda>resp.
     if_err (invoke tr (StartTLS \<lparr>ServerName = host_port, InsecureSkipVerify = True\<rparr>) resp)
       ''Error upgrading connection to TLS:'' (\<lambda>resp.
     (case auth cl of None \<Rightarrow> resp\<lparr>exit := Panicked\<rparr> | Some a \<Rightarrow>
     if_err (invoke tr (Auth a) resp)
       ''Error authenticating with SMTP server:'' (\<lambda>resp.
     let sender = plan_from cl plan;
         receivers = plan_receivers plan;
         msg = plan_msg tab plan in
     if_err (invoke tr (Mail sender) resp)
       ''Error setting sender address:'' (\<lambda>resp.
     if_err (Rcpt_loop tab tr receivers resp)
       ''Error setting recipient address:'' (\<lambda>resp.
     if_err (invoke tr Data resp)
       ''Error setting email message:'' (\<lambda>resp.
     if_err (invoke tr (Write msg) resp)
       ''Error setting email message:'' (\<lambda>resp.
     if_err (invoke tr Close resp)
       ''Error sending email:'' (\<lambda>resp.
     resp\<lparr>State :=
       Some (plan\<lparr>ID := StringValue (Sprintf_x (md5_Sum (bytes_of_string msg)))\<rparr>)\<rparr>)))))))))))"

text \<open>\<open>Read\<close> and \<open>Delete\<close> have empty bodies: no call, no diagnostic, no state.\<close>

definition Read :: "sendMailResource \<Rightarrow> 's transport \<Rightarrow> 's \<Rightarrow> 's outcome" where
  "Read r tr s0 =
     \<lparr>Diagnostics = [], State = None, calls = [], remote = s0, exit = Returned\<rparr>"

definition Delete :: "sendMailResource \<Rightarrow> 's transport \<Rightarrow> 's \<Rightarrow> 's outcome" where
  "Delete r tr s0 =
     \<lparr>Diagnostics = [], State = None, calls = [], remote = s0, exit = Returned\<rparr>"

section \<open>The calls of a send, as a list\<close>

text \<open>
  What a server does with a list of calls made in order until the first refusal:
  \<open>served\<close> is the calls made with their answers, \<open>final\<close> the state of the server
  after them, \<open>refusal\<close> the refused call of such a trace, if there is one.
\<close>

fun served :: "'s transport \<Rightarrow> 's \<Rightarrow> call list \<Rightarrow> (call \<times> string option) list" where
  "served tr s [] = []"
| "served tr s (c # cs) =
     (case tr c s of
        (None, s') \<Rightarrow> (c, None) # served tr s' cs
      | (Some err, s') \<Rightarrow> [(c, Some err)])"

fun final :: "'s transport \<Rightarrow> 's \<Rightarrow> call list \<Rightarrow> 's" where
  "final tr s [] = s"
| "final tr s (c # cs) =
     (case tr c s of
        (None, s') \<Rightarrow> final tr s' cs
      | (Some err, s') \<Rightarrow> s')"

fun refusal :: "(call \<times> string option) list \<Rightarrow> (call \<times> string) option" where
  "refusal [] = None"
| "refusal ((c, None) # evs) = refusal evs"
| "refusal ((c, Some err) # evs) = Some (c, err)"

text \<open>
  The calls each method makes, read off its text, and the diagnostic summary the
  method gives to a refusal of each call. That the methods make exactly these calls,
  in this order, until the first refusal is proved below (\<open>Create_runs_script\<close>,
  \<open>Update_runs_script\<close>, \<open>Create_served\<close>, \<open>Update_served\<close>).
\<close>

fun summary_of :: "call \<Rightarrow> string" where
  "summary_of (Dial a) = ''Error connecting to SMTP server:''"
| "summary_of (StartTLS cfg) = ''Error upgrading connection to TLS:''"
| "summary_of (Auth a) = ''Error authenticating with SMTP server:''"
| "summary_of (Mail a) = ''Error setting sender address:''"
| "summary_of (Rcpt a) = ''Error setting recipient address:''"
| "summary_of Data = ''Error setting email message:''"
| "summary_of (Write m) = ''Error setting email message:''"
| "summary_of Close = ''Error sending email:''"

definition envelope_script :: "print_table \<Rightarrow> client \<Rightarrow> sendMailModel \<Rightarrow> call list" where
  "envelope_script tab cl plan =
     Mail (plan_from cl plan)
     # map (\<lambda>addr. Rcpt (attr_String tab addr)) (plan_receivers plan)
     @ [Data, Write (plan_msg tab plan), Close]"

definition Create_script :: "print_table \<Rightarrow> client \<Rightarrow> sendMailModel \<Rightarrow> call list" where
  "Create_script tab cl plan =
     Dial (host cl @ '':'' @ port cl)
     # (case auth cl of
          None \<Rightarrow> []
        | Some a \<Rightarrow>
            [StartTLS \<lparr>ServerName = host cl @ '':'' @ port cl, InsecureSkipVerify = True\<rparr>,
             Auth a])
     @ envelope_script tab cl plan"

text \<open>Without an authentication \<open>Update\<close> gets as far as the upgrade to TLS.\<close>

definition Update_script :: "print_table \<Rightarrow> client \<Rightarrow> sendMailModel \<Rightarrow> call list" where
  "Update_script tab cl plan =
     [Dial (host cl @ '':'' @ port cl),
      StartTLS \<lparr>ServerName = host cl @ '':'' @ port cl, InsecureSkipVerify = True\<rparr>]
     @ (case auth cl of
          None \<Rightarrow> []
        | Some a \<Rightarrow> Auth a # envelope_script tab cl plan)"

text \<open>The same as a run on the outcome, for the proofs.\<close>

fun run_script ::
    "'s transport \<Rightarrow> call list \<Rightarrow> 's outcome \<Rightarrow> (call \<times> string) option \<times> 's outcome" where
  "run_script tr [] resp = (None, resp)"
| "run_script tr (c # cs) resp =
     (case invoke tr c resp of
        (Some err, resp') \<Rightarrow> (Some (c, err), resp')
      | (None, resp') \<Rightarrow> run_script tr cs resp')"

definition or_else ::
    "(call \<times> string) option \<times> 's outcome \<Rightarrow> ('s outcome \<Rightarrow> 's outcome) \<Rightarrow> 's outcome" where
  "or_else res rest =
     (case res of
        (Some (c, err), resp) \<Rightarrow> AddError (summary_of c) err resp
      | (None, resp) \<Rightarrow> rest resp)"

definition message_id :: "string \<Rightarrow> string" where
  "message_id msg = Sprintf_x (md5_Sum (bytes_of_string msg))"

definition start :: "diagnostic list \<Rightarrow> 's \<Rightarrow> 's outcome" where
  "start diags s0 =
     \<lparr>Diagnostics = diags, State = None, calls = [], remote = s0, exit = Returned\<rparr>"

definition store :: "print_table \<Rightarrow> sendMailModel \<Rightarrow> 's outcome \<Rightarrow> 's outcome" where
  "store tab plan resp =
     resp\<lparr>State := Some (plan\<lparr>ID := StringValue (message_id (plan_msg tab plan))\<rparr>)\<rparr>"

definition after_update ::
    "print_table \<Rightarrow> client \<Rightarrow> sendMailModel \<Rightarrow> 's outcome \<Rightarrow> 's outcome" where
  "after_update tab cl plan resp =
     (case auth cl of None \<Rightarrow> resp\<lparr>exit := Panicked\<rparr> | Some a \<Rightarrow> store tab plan resp)"

text \<open>
  The ways a run of a list of calls can end: every call was made and accepted, the plan
  is stored with its identifier and no diagnostic is added; or the call at position
  \<open>m\<close> was refused with \<open>err\<close>, after \<open>m\<close> accepted calls, and the run ends there with
  that one error and no state; or every call was accepted and the method panicked.
\<close>

definition completed ::
    "print_table \<Rightarrow> call list \<Rightarrow> diagnostic list \<Rightarrow> sendMailModel \<Rightarrow> 's outcome \<Rightarrow> bool" where
  "completed tab sc diags plan out \<longleftrightarrow>
     calls out = map (\<lambda>c. (c, None)) sc
   \<and> State out = Some (plan\<lparr>ID := StringValue (message_id (plan_msg tab plan))\<rparr>)
   \<and> Diagnostics out = diags \<and> exit out = Returned"

definition aborted_at :: "nat \<Rightarrow> string \<Rightarrow> call list \<Rightarrow> diagnostic list \<Rightarrow> 's outcome \<Rightarrow> bool" where
  "aborted_at m err sc diags out \<longleftrightarrow>
     m < length sc
   \<and> calls out = map (\<lambda>c. (c, None)) (take m sc) @ [(sc ! m, Some err)]
   \<and> State out = None
   \<and> Diagnostics out = diags @ [Diagnostic SeverityError (summary_of (sc ! m)) err]
   \<and> exit out = Returned"

definition panicked :: "call list \<Rightarrow> diagnostic list \<Rightarrow> 's outcome \<Rightarrow> bool" where
  "panicked sc diags out \<longleftrightarrow>
     calls out = map (\<lambda>c. (c, None)) sc
   \<and> State out = None \<and> Diagnostics out = diags \<and> exit out = Panicked"

fun is_Rcpt :: "call \<Rightarrow> bool" where
  "is_Rcpt (Rcpt a) = True"
| "is_Rcpt c = False"

fun is_Mail :: "call \<Rightarrow> bool" where
  "is_Mail (Mail a) = True"
| "is_Mail c = False"

fun is_data_phase :: "call \<Rightarrow> bool" where
  "is_data_phase Data = True"
| "is_data_phase (Write m) = True"
| "is_data_phase Close = True"
| "is_data_phase c = False"

section \<open>Concrete plans, clients and servers\<close>

text \<open>
  The request of the specification's example; a request whose to and cc lists share an
  address; a request with blind copies, one of them also a direct recipient. The two
  clients are those of the provider's example configuration: one without
  authentication, one with user name and password.
\<close>

definition example_plan :: sendMailModel where
  "example_plan =
     \<lparr>ID = StringUnknown, From = StringNull, To = ListValue [StringValue ''a@x''],
      Cc = ListValue [], Bcc = ListNull, Subject = StringValue ''Hi'',
      Body = StringValue ''Hello'', RenderHtml = BoolValue False\<rparr>"

definition three_plan :: sendMailModel where
  "three_plan =
     \<lparr>ID = StringUnknown, From = StringValue ''me@x'',
      To = ListValue [StringValue ''a@x'', StringValue ''b@x''],
      Cc = ListValue [StringValue ''b@x'', StringValue ''c@x''], Bcc = ListNull,
      Subject = StringValue ''Hi'', Body = StringValue ''Hello'',
      RenderHtml = BoolValue False\<rparr>"

definition blind_plan :: sendMailModel where
  "blind_plan =
     \<lparr>ID = StringUnknown, From = StringNull, To = ListValue [StringValue ''a@x''],
      Cc = ListNull, Bcc = ListValue [StringValue ''a@x'', StringValue ''d@x''],
      Subject = StringValue ''Hi'', Body = StringValue ''Hello'',
      RenderHtml = BoolValue False\<rparr>"

definition open_relay :: client where
  "open_relay = \<lparr>auth = None, host = ''smtp.example.com'', username = [], port = ''25''\<rparr>"

definition submission :: client where
  "submission =
     \<lparr>auth = Some (PlainAuth [] ''test'' ''test123'' ''smtp.example.com''),
      host = ''smtp.example.com'', username = ''test'', port = ''587''\<rparr>"

text \<open>
  A table of the printable runes beyond U+00FF for the evaluations: it holds none. The
  texts evaluated below are ASCII, where \<open>strconv.IsPrint\<close> does not consult its tables.
\<close>

definition plain_table :: print_table where
  "plain_table r = False"

text \<open>Servers: one that accepts every call, one that refuses one given call, and one
  that does not offer STARTTLS.\<close>

definition accept :: "unit transport" where
  "accept = (\<lambda>c s. (None, s))"

definition refuse :: "call \<Rightarrow> unit transport" where
  "refuse c0 = (\<lambda>c s. (if c = c0 then Some ''550 refused'' else None, s))"

definition no_starttls :: "unit transport" where
  "no_starttls =
     (\<lambda>c s. (case c of StartTLS cfg \<Rightarrow> Some ''smtp: server does not support STARTTLS''
                 | _ \<Rightarrow> None, s))"

section \<open>Properties of the recipient normalizer\<close>

lemma uniqueAttrValue_loop_unseen:
  "uniqueAttrValue_loop arr occurred result = result @ unseen {x. occurred x} arr"
proof (induction arr arbitrary: occurred result)
  case Nil
  show ?case by simp
next
  case (Cons e arr)
  have ins: "{x. (occurred(e := True)) x} = insert e {x. occurred x}"
    by auto
  show ?case
  proof (cases "occurred e")
    case True
    then show ?thesis by (simp add: Cons.IH)
  next
    case False
    have "uniqueAttrValue_loop (e # arr) occurred result
        = (result @ [e]) @ unseen {x. (occurred(e := True)) x} arr"
      using False by (simp only: uniqueAttrValue_loop.simps Cons.IH if_True not_False_eq_True)
    also have "\<dots> = result @ unseen {x. occurred x} (e # arr)"
      using False by (simp only: ins) simp
    finally show ?thesis .
  qed
qed

lemma uniqueAttrValue_unseen: "uniqueAttrValue arr = unseen {} arr"
  by (simp add: uniqueAttrValue_def uniqueAttrValue_loop_unseen)

lemma set_unseen: "set (unseen S xs) = set xs - S"
  by (induction xs arbitrary: S) auto

lemma distinct_unseen: "distinct (unseen S xs)"
  by (induction xs arbitrary: S) (auto simp: set_unseen)

lemma unseen_positions:
  "unseen S xs = [xs ! i. i \<leftarrow> [0..<length xs], xs ! i \<notin> S \<union> set (take i xs)]"
proof (induction xs arbitrary: S)
  case Nil
  show ?case by simp
next
  case (Cons x xs)
  have upt: "[0..<length (x # xs)] = 0 # map Suc [0..<length xs]"
    by (simp add: upt_conv_Cons map_Suc_upt del: upt_Suc)
  have tl: "concat (map (\<lambda>i. if (x # xs) ! i \<notin> S \<union> set (take i (x # xs)) then [(x # xs) ! i] else [])
        (map Suc [0..<length xs]))
      = concat (map (\<lambda>i. if xs ! i \<notin> insert x S \<union> set (take i xs) then [xs ! i] else [])
        [0..<length xs])"
    unfolding map_map o_def
    by (rule arg_cong [where f = concat], rule map_cong) auto
  have hd: "(x # xs) ! 0 \<notin> S \<union> set (take 0 (x # xs)) \<longleftrightarrow> x \<notin> S"
    by simp
  show ?case
  proof (cases "x \<in> S")
    case True
    then have "insert x S = S" by auto
    with True show ?thesis
      unfolding upt by (simp only: list.map concat.simps hd tl unseen.simps Cons.IH) simp
  next
    case False
    then show ?thesis
      unfolding upt by (simp only: list.map concat.simps hd tl unseen.simps Cons.IH) simp
  qed
qed

lemma unseen_first_occurrences: "unseen {} xs = first_occurrences xs"
  by (simp add: unseen_positions first_occurrences_def)

lemma unseen_map_inj:
  "inj f \<Longrightarrow> unseen (f ` S) (map f xs) = map f (unseen S xs)"
proof (induction xs arbitrary: S)
  case Nil
  show ?case by simp
next
  case (Cons x xs)
  from Cons.prems have mem: "f x \<in> f ` S \<longleftrightarrow> x \<in> S"
    by (simp add: inj_image_mem_iff)
  have "unseen (insert (f x) (f ` S)) (map f xs) = map f (unseen (insert x S) xs)"
    using Cons.IH [OF Cons.prems, of "insert x S"] by simp
  then show ?case
    by (simp add: mem Cons.IH [OF Cons.prems])
qed

text \<open>
  C2. On the concatenation of the elements of to, cc and bcc (as Create and Update build
  it), the normalizer returns every value of the concatenation, each exactly once, in the
  order of first occurrence; values are compared exactly, so on known strings the result
  is the first occurrences of the strings themselves, with no folding of case.
\<close>

theorem uniqueAttrValue_first_seen:
  "set (uniqueAttrValue (Elements to @ Elements cc @ Elements bcc))
     = set (Elements to @ Elements cc @ Elements bcc)
   \<and> distinct (uniqueAttrValue (Elements to @ Elements cc @ Elements bcc))
   \<and> uniqueAttrValue (Elements to @ Elements cc @ Elements bcc)
     = first_occurrences (Elements to @ Elements cc @ Elements bcc)
   \<and> uniqueAttrValue (map StringValue (ts @ cs @ bs))
     = map StringValue (first_occurrences (ts @ cs @ bs))
   \<and> uniqueAttrValue [StringValue ''A@x'', StringValue ''a@x'', StringValue ''A@x'']
     = [StringValue ''A@x'', StringValue ''a@x'']"
proof -
  have inj: "inj StringValue"
    by (simp add: inj_def)
  have str: "uniqueAttrValue (map StringValue (ts @ cs @ bs))
      = map StringValue (first_occurrences (ts @ cs @ bs))"
    using unseen_map_inj [OF inj, of "{}" "ts @ cs @ bs"]
    by (simp only: uniqueAttrValue_unseen unseen_first_occurrences image_empty)
  have ex: "uniqueAttrValue [StringValue ''A@x'', StringValue ''a@x'', StringValue ''A@x'']
      = [StringValue ''A@x'', StringValue ''a@x'']"
    by (simp add: uniqueAttrValue_def)
  have st: "set (uniqueAttrValue (Elements to @ Elements cc @ Elements bcc))
      = set (Elements to @ Elements cc @ Elements bcc)"
    by (simp only: uniqueAttrValue_unseen set_unseen Diff_empty)
  have di: "distinct (uniqueAttrValue (Elements to @ Elements cc @ Elements bcc))"
    by (simp only: uniqueAttrValue_unseen distinct_unseen)
  have fo: "uniqueAttrValue (Elements to @ Elements cc @ Elements bcc)
      = first_occurrences (Elements to @ Elements cc @ Elements bcc)"
    by (simp only: uniqueAttrValue_unseen unseen_first_occurrences)
  from st di fo str ex show ?thesis
    by (intro conjI)
qed

section \<open>Properties of the rendering\<close>

lemma appendQuotedWith_plain:
  assumes "\<forall>c\<in>set s. (0x20 :: nat) \<le> of_char c \<and> of_char c \<le> (0x7E :: nat) \<and> c \<noteq> DQ \<and> c \<noteq> BSL"
  shows "appendQuotedWith tab s = s"
  using assms
proof (induction s)
  case Nil
  show ?case by simp
next
  case (Cons c s)
  then have c: "(0x20 :: nat) \<le> of_char c" "of_char c \<le> (0x7E :: nat)" "c \<noteq> DQ" "c \<noteq> BSL"
    by simp_all
  have "of_char c \<noteq> (of_char DQ :: nat)" "of_char c \<noteq> (of_char BSL :: nat)"
    using c(3,4) by (simp_all only: of_char_eq_iff not_False_eq_True)
  then have ne: "of_char c \<noteq> (0x22 :: nat)" "of_char c \<noteq> (0x5C :: nat)"
    by simp_all
  from c have "appendEscapedRune tab (of_char c) = [c]"
    by (simp add: appendEscapedRune_def strconv_IsPrint_def utf8_AppendRune_def ne)
  with c Cons show ?case
    by (simp add: RuneError_def)
qed

lemma quoted_addresses:
  "attr_String tab (StringValue ''a@x'') = [DQ] @ ''a@x'' @ [DQ]"
  "attr_String tab (StringValue ''b@x'') = [DQ] @ ''b@x'' @ [DQ]"
  "attr_String tab (StringValue ''c@x'') = [DQ] @ ''c@x'' @ [DQ]"
  "attr_String tab (StringValue ''d@x'') = [DQ] @ ''d@x'' @ [DQ]"
  by (simp_all add: strconv_Quote_def appendQuotedWith_plain del: appendQuotedWith.simps)

text \<open>Beyond ASCII: a no-break space, a byte that is no UTF-8, a printable letter, a line
  separator the tables do not hold printable.\<close>

lemma Quote_beyond_ascii:
  "strconv_Quote tab [CHR 0xC2, CHR 0xA0] = [DQ, BSL] @ ''u00a0'' @ [DQ]"
  "strconv_Quote tab [CHR 0xFF, CHR ''a''] = [DQ, BSL] @ ''xffa'' @ [DQ]"
  "strconv_Quote tab [CHR 0xC3, CHR 0xA9] = [DQ, CHR 0xC3, CHR 0xA9, DQ]"
  "strconv_Quote (\<lambda>r. False) [CHR 0xE2, CHR 0x80, CHR 0xA8] = [DQ, BSL] @ ''u2028'' @ [DQ]"
  by (simp_all add: strconv_Quote_def appendEscapedRune_def strconv_IsPrint_def
        utf8_AppendRune_def utf8_ValidRune_def RuneError_def hex_digits_def lowerhex_def
        char_of_eq_iff)

lemma asStringList_loop_map:
  "asStringList_loop tab arr result = result @ map (attr_String tab) arr"
  by (induction arr arbitrary: result) simp_all

lemma asStringList_map: "asStringList tab arr = map (attr_String tab) arr"
  by (simp add: asStringList_def asStringList_loop_map)

section \<open>The methods run their lists of calls\<close>

lemma if_err_None: "if_err (None, resp) summary rest = rest resp"
  by (simp add: if_err_def)

lemma or_else_Nil: "or_else (run_script tr [] resp) rest = rest resp"
  by (simp add: or_else_def)

lemma or_else_Cons:
  "or_else (run_script tr (c # cs) resp) rest
     = if_err (invoke tr c resp) (summary_of c) (\<lambda>resp'. or_else (run_script tr cs resp') rest)"
  by (simp add: or_else_def if_err_def split: prod.splits option.splits)

lemma or_else_Rcpt:
  "or_else (run_script tr (map (\<lambda>addr. Rcpt (attr_String tab addr)) rs @ cs) resp) rest
     = if_err (Rcpt_loop tab tr rs resp) ''Error setting recipient address:''
         (\<lambda>resp'. or_else (run_script tr cs resp') rest)"
proof (induction rs arbitrary: resp)
  case Nil
  show ?case by (simp add: if_err_def del: run_script.simps)
next
  case (Cons a rs)
  show ?case
    by (simp add: or_else_Cons Cons.IH if_err_def del: run_script.simps
          split: prod.splits option.splits)
qed

lemma Create_runs_script:
  "\<not> HasError diags \<Longrightarrow>
   Create tab \<lparr>client = Some cl\<rparr> tr s0 (diags, plan)
     = or_else (run_script tr (Create_script tab cl plan) (start diags s0)) (store tab plan)"
  by (cases "auth cl")
     (simp_all add: Create_def Create_script_def envelope_script_def or_else_Cons
        or_else_Rcpt or_else_Nil if_err_None start_def store_def message_id_def Let_def
        del: run_script.simps)

lemma Update_runs_script:
  "\<not> HasError diags \<Longrightarrow>
   Update tab \<lparr>client = Some cl\<rparr> tr s0 (diags, plan)
     = or_else (run_script tr (Update_script tab cl plan) (start diags s0))
         (after_update tab cl plan)"
  by (cases "auth cl")
     (simp_all add: Update_def Update_script_def envelope_script_def or_else_Cons
        or_else_Rcpt or_else_Nil if_err_None start_def store_def after_update_def
        message_id_def Let_def del: run_script.simps)

lemma Update_script_with_auth:
  "auth cl = Some a \<Longrightarrow> Update_script tab cl plan = Create_script tab cl plan"
  by (simp add: Update_script_def Create_script_def)

section \<open>What the server sees\<close>

lemma run_script_served:
  "run_script tr cs resp
     = (refusal (served tr (remote resp) cs),
        resp\<lparr>calls := calls resp @ served tr (remote resp) cs,
             remote := final tr (remote resp) cs\<rparr>)"
proof (induction cs arbitrary: resp)
  case Nil
  show ?case by simp
next
  case (Cons c cs)
  obtain e s' where t: "tr c (remote resp) = (e, s')"
    by (cases "tr c (remote resp)")
  show ?case
  proof (cases e)
    case None
    with t show ?thesis
      by (simp add: invoke_def Cons.IH)
  next
    case (Some err)
    with t show ?thesis
      by (simp add: invoke_def)
  qed
qed

lemma refusal_accepted: "refusal (map (\<lambda>c. (c, None)) cs) = None"
  by (induction cs) simp_all

lemma refusal_accepted_append: "refusal (map (\<lambda>c. (c, None)) cs @ evs) = refusal evs"
  by (induction cs) simp_all

lemma served_accepted_append:
  "served tr s xs = map (\<lambda>c. (c, None)) xs \<Longrightarrow>
   served tr s (xs @ ys) = map (\<lambda>c. (c, None)) xs @ served tr (final tr s xs) ys"
proof (induction xs arbitrary: s)
  case Nil
  show ?case by simp
next
  case (Cons x xs)
  obtain e s' where t: "tr x s = (e, s')"
    by (cases "tr x s")
  with Cons.prems have e: "e = None" and rest: "served tr s' xs = map (\<lambda>c. (c, None)) xs"
    by (cases e; simp)+
  from Cons.IH [OF rest] t e show ?case
    by simp
qed

lemma served_refused_append:
  "refusal (served tr s xs) = Some x \<Longrightarrow> served tr s (xs @ ys) = served tr s xs"
proof (induction xs arbitrary: s)
  case Nil
  then show ?case by simp
next
  case (Cons c xs)
  obtain e s' where t: "tr c s = (e, s')"
    by (cases "tr c s")
  show ?case
  proof (cases e)
    case None
    with t Cons.prems have "refusal (served tr s' xs) = Some x"
      by simp
    from Cons.IH [OF this] t None show ?thesis
      by simp
  next
    case (Some err)
    with t show ?thesis
      by simp
  qed
qed

lemma served_no_refusal:
  "refusal (served tr s cs) = None \<Longrightarrow> served tr s cs = map (\<lambda>c. (c, None)) cs"
proof (induction cs arbitrary: s)
  case Nil
  show ?case by simp
next
  case (Cons c cs)
  obtain e s' where t: "tr c s = (e, s')"
    by (cases "tr c s")
  with Cons.prems have e: "e = None" and "refusal (served tr s' cs) = None"
    by (cases e; simp)+
  with Cons.IH [of s'] t show ?case
    by simp
qed

lemma served_refusal:
  "refusal (served tr s cs) = Some (c, err) \<Longrightarrow>
   \<exists>m. m < length cs \<and> c = cs ! m
     \<and> served tr s cs = map (\<lambda>c. (c, None)) (take m cs) @ [(c, Some err)]"
proof (induction cs arbitrary: s)
  case Nil
  then show ?case by simp
next
  case (Cons x cs)
  obtain e s' where t: "tr x s = (e, s')"
    by (cases "tr x s")
  show ?case
  proof (cases e)
    case None
    with t Cons.prems have "refusal (served tr s' cs) = Some (c, err)"
      by simp
    from Cons.IH [OF this] obtain m where "m < length cs" and "c = cs ! m"
      and "served tr s' cs = map (\<lambda>c. (c, None)) (take m cs) @ [(c, Some err)]"
      by blast
    with t None have "Suc m < length (x # cs) \<and> c = (x # cs) ! Suc m
      \<and> served tr s (x # cs) = map (\<lambda>c. (c, None)) (take (Suc m) (x # cs)) @ [(c, Some err)]"
      by simp
    then show ?thesis
      by blast
  next
    case (Some err')
    with t Cons.prems have "0 < length (x # cs) \<and> c = (x # cs) ! 0
      \<and> served tr s (x # cs) = map (\<lambda>c. (c, None)) (take 0 (x # cs)) @ [(c, Some err)]"
      by simp
    then show ?thesis
      by blast
  qed
qed

section \<open>How a run ends\<close>

lemma or_else_run:
  "or_else (run_script tr cs (start diags s0)) rest
     = (case refusal (served tr s0 cs) of
          None \<Rightarrow> rest ((start diags s0)\<lparr>calls := served tr s0 cs, remote := final tr s0 cs\<rparr>)
        | Some (c, err) \<Rightarrow>
            AddError (summary_of c) err
              ((start diags s0)\<lparr>calls := served tr s0 cs, remote := final tr s0 cs\<rparr>))"
  by (simp add: run_script_served or_else_def start_def split: option.splits)

lemma Create_served:
  assumes "\<not> HasError diags"
  shows "calls (Create tab \<lparr>client = Some cl\<rparr> tr s0 (diags, plan))
       = served tr s0 (Create_script tab cl plan)"
    and "State (Create tab \<lparr>client = Some cl\<rparr> tr s0 (diags, plan))
       = (case refusal (served tr s0 (Create_script tab cl plan)) of
            None \<Rightarrow> Some (plan\<lparr>ID := StringValue (message_id (plan_msg tab plan))\<rparr>)
          | Some x \<Rightarrow> None)"
    and "Diagnostics (Create tab \<lparr>client = Some cl\<rparr> tr s0 (diags, plan))
       = diags @ (case refusal (served tr s0 (Create_script tab cl plan)) of
                    None \<Rightarrow> []
                  | Some (c, err) \<Rightarrow> [Diagnostic SeverityError (summary_of c) err])"
    and "exit (Create tab \<lparr>client = Some cl\<rparr> tr s0 (diags, plan)) = Returned"
  unfolding Create_runs_script [OF assms] or_else_run
  by (simp_all add: store_def start_def AddError_def split: option.splits)

lemma Update_served:
  assumes "\<not> HasError diags"
  shows "calls (Update tab \<lparr>client = Some cl\<rparr> tr s0 (diags, plan))
       = served tr s0 (Update_script tab cl plan)"
    and "State (Update tab \<lparr>client = Some cl\<rparr> tr s0 (diags, plan))
       = (case refusal (served tr s0 (Update_script tab cl plan)) of
            None \<Rightarrow>
              (case auth cl of
                 None \<Rightarrow> None
               | Some a \<Rightarrow> Some (plan\<lparr>ID := StringValue (message_id (plan_msg tab plan))\<rparr>))
          | Some x \<Rightarrow> None)"
    and "Diagnostics (Update tab \<lparr>client = Some cl\<rparr> tr s0 (diags, plan))
       = diags @ (case refusal (served tr s0 (Update_script tab cl plan)) of
                    None \<Rightarrow> []
                  | Some (c, err) \<Rightarrow> [Diagnostic SeverityError (summary_of c) err])"
    and "exit (Update tab \<lparr>client = Some cl\<rparr> tr s0 (diags, plan))
       = (case refusal (served tr s0 (Update_script tab cl plan)) of
            None \<Rightarrow> (case auth cl of None \<Rightarrow> Panicked | Some a \<Rightarrow> Returned)
          | Some x \<Rightarrow> Returned)"
  unfolding Update_runs_script [OF assms] or_else_run
  by (simp_all add: store_def start_def AddError_def after_update_def split: option.splits)

lemma no_send:
  assumes "HasError diags \<or> client r = None"
  shows "calls (Create tab r tr s0 (diags, plan)) = []
    \<and> State (Create tab r tr s0 (diags, plan)) = None
    \<and> Diagnostics (Create tab r tr s0 (diags, plan)) = diags
    \<and> calls (Update tab r tr s0 (diags, plan)) = []
    \<and> State (Update tab r tr s0 (diags, plan)) = None
    \<and> Diagnostics (Update tab r tr s0 (diags, plan)) = diags"
  using assms by (auto simp: Create_def Update_def Let_def)

lemma Create_outcome:
  assumes "client r = Some cl" and "\<not> HasError diags"
  shows "completed tab (Create_script tab cl plan) diags plan (Create tab r tr s0 (diags, plan))
     \<or> (\<exists>m err. aborted_at m err (Create_script tab cl plan) diags
           (Create tab r tr s0 (diags, plan)))"
proof -
  from assms(1) have r: "r = \<lparr>client = Some cl\<rparr>"
    by (cases r) simp
  note s = Create_served [OF assms(2), of tab cl tr s0 plan]
  show ?thesis
  proof (cases "refusal (served tr s0 (Create_script tab cl plan))")
    case None
    from served_no_refusal [OF None] None s
    have "completed tab (Create_script tab cl plan) diags plan
        (Create tab \<lparr>client = Some cl\<rparr> tr s0 (diags, plan))"
      by (simp add: completed_def)
    then show ?thesis
      unfolding r ..
  next
    case (Some x)
    obtain c err where x: "x = (c, err)"
      by (cases x)
    from served_refusal [OF Some [unfolded x]] obtain m where
      "m < length (Create_script tab cl plan)" and "c = Create_script tab cl plan ! m"
      and "served tr s0 (Create_script tab cl plan)
         = map (\<lambda>c. (c, None)) (take m (Create_script tab cl plan)) @ [(c, Some err)]"
      by blast
    with s Some x
    have "aborted_at m err (Create_script tab cl plan) diags
        (Create tab \<lparr>client = Some cl\<rparr> tr s0 (diags, plan))"
      by (simp add: aborted_at_def)
    then show ?thesis
      unfolding r by blast
  qed
qed

lemma Update_outcome:
  assumes "client r = Some cl" and "\<not> HasError diags"
  shows "(auth cl \<noteq> None
        \<and> completed tab (Update_script tab cl plan) diags plan (Update tab r tr s0 (diags, plan)))
     \<or> (auth cl = None
        \<and> panicked (Update_script tab cl plan) diags (Update tab r tr s0 (diags, plan)))
     \<or> (\<exists>m err. aborted_at m err (Update_script tab cl plan) diags
           (Update tab r tr s0 (diags, plan)))"
proof -
  from assms(1) have r: "r = \<lparr>client = Some cl\<rparr>"
    by (cases r) simp
  note s = Update_served [OF assms(2), of tab cl tr s0 plan]
  show ?thesis
  proof (cases "refusal (served tr s0 (Update_script tab cl plan))")
    case None
    note sv = served_no_refusal [OF None]
    show ?thesis
    proof (cases "auth cl")
      case no: None
      with sv None s
      have "panicked (Update_script tab cl plan) diags
          (Update tab \<lparr>client = Some cl\<rparr> tr s0 (diags, plan))"
        by (simp add: panicked_def)
      with no show ?thesis
        unfolding r by blast
    next
      case (Some a)
      with sv None s
      have "completed tab (Update_script tab cl plan) diags plan
          (Update tab \<lparr>client = Some cl\<rparr> tr s0 (diags, plan))"
        by (simp add: completed_def)
      with Some show ?thesis
        unfolding r by blast
    qed
  next
    case (Some x)
    obtain c err where x: "x = (c, err)"
      by (cases x)
    from served_refusal [OF Some [unfolded x]] obtain m where
      "m < length (Update_script tab cl plan)" and "c = Update_script tab cl plan ! m"
      and "served tr s0 (Update_script tab cl plan)
         = map (\<lambda>c. (c, None)) (take m (Update_script tab cl plan)) @ [(c, Some err)]"
      by blast
    with s Some x
    have "aborted_at m err (Update_script tab cl plan) diags
        (Update tab \<lparr>client = Some cl\<rparr> tr s0 (diags, plan))"
      by (simp add: aborted_at_def)
    then show ?thesis
      unfolding r by blast
  qed
qed

lemma outcome_calls_take:
  assumes "calls out = map (\<lambda>c. (c, None)) sc \<or> (\<exists>m err. aborted_at m err sc diags out)"
  shows "map fst (calls out) = take (length (calls out)) sc"
  using assms
  by (auto simp: aborted_at_def o_def take_Suc_conv_app_nth)

lemma outcome_failed_call:
  assumes "calls out = map (\<lambda>c. (c, None)) sc \<or> (\<exists>m err. aborted_at m err sc diags out)"
    and "(c, Some e) \<in> set (calls out)"
  shows "\<exists>m. aborted_at m e sc diags out \<and> sc ! m = c"
  using assms by (auto simp: aborted_at_def)

lemma nth_in_middle:
  assumes m: "m < length (pre @ R @ post)" and P: "P ((pre @ R @ post) ! m)"
    and pre: "\<forall>c\<in>set pre. \<not> P c" and post: "\<forall>c\<in>set post. \<not> P c"
  shows "length pre \<le> m \<and> m - length pre < length R
    \<and> (pre @ R @ post) ! m = R ! (m - length pre)
    \<and> take m (pre @ R @ post) = pre @ take (m - length pre) R"
proof -
  have 1: "length pre \<le> m"
  proof (rule ccontr)
    assume "\<not> length pre \<le> m"
    then have "m < length pre" by simp
    then have "(pre @ R @ post) ! m = pre ! m" "pre ! m \<in> set pre"
      by (simp_all add: nth_append)
    with P pre show False by auto
  qed
  have 2: "m - length pre < length R"
  proof (rule ccontr)
    assume n: "\<not> m - length pre < length R"
    with 1 m have "(pre @ R @ post) ! m = post ! (m - length pre - length R)"
      and "m - length pre - length R < length post"
      by (simp_all add: nth_append)
    then have "(pre @ R @ post) ! m \<in> set post"
      by simp
    with P post show False by auto
  qed
  from 1 2 show ?thesis
    by (simp add: nth_append)
qed

lemma filter_take_middle:
  assumes pre: "\<forall>c\<in>set pre. \<not> P c" and post: "\<forall>c\<in>set post. \<not> P c"
    and R: "\<forall>c\<in>set R. P c"
  shows "filter P (take n (pre @ R @ post)) = take (n - length pre) R"
proof -
  have a: "filter P (take n pre) = []"
    using pre by (auto simp: filter_empty_conv dest: in_set_takeD)
  have b: "filter P (take k post) = []" for k
    using post by (auto simp: filter_empty_conv dest: in_set_takeD)
  have c: "filter P (take (n - length pre) R) = take (n - length pre) R"
    using R by (auto simp: filter_id_conv dest: in_set_takeD)
  show ?thesis
    by (simp add: a b c)
qed

lemma rcpt_order_generic:
  assumes shape: "sc = pre @ map (\<lambda>x. Rcpt (attr_String tab x)) rs @ post"
    and pre: "\<forall>c\<in>set pre. \<not> is_Rcpt c" and post: "\<forall>c\<in>set post. \<not> is_Rcpt c"
    and out: "calls out = map (\<lambda>c. (c, None)) sc \<or> (\<exists>m err. aborted_at m err sc diags out)"
  shows "prefix (map fst (filter (\<lambda>e. is_Rcpt (fst e)) (calls out)))
           (map (\<lambda>x. Rcpt (attr_String tab x)) rs)"
proof -
  have "map fst (filter (\<lambda>e. is_Rcpt (fst e)) (calls out)) = filter is_Rcpt (map fst (calls out))"
    by (simp add: filter_map o_def)
  also have "\<dots> = filter is_Rcpt (take (length (calls out)) sc)"
    by (simp only: outcome_calls_take [OF out])
  also have "\<dots> = take (length (calls out) - length pre) (map (\<lambda>x. Rcpt (attr_String tab x)) rs)"
    unfolding shape by (rule filter_take_middle [OF pre post]) simp
  finally show ?thesis
    by (simp only: take_is_prefix)
qed

lemma rcpt_failure_generic:
  assumes shape: "sc = pre @ map (\<lambda>x. Rcpt (attr_String tab x)) rs @ post"
    and pre: "\<forall>c\<in>set pre. \<not> is_Rcpt c \<and> \<not> is_data_phase c"
    and post: "\<forall>c\<in>set post. \<not> is_Rcpt c"
    and out: "calls out = map (\<lambda>c. (c, None)) sc \<or> (\<exists>m err. aborted_at m err sc diags out)"
    and failed: "(Rcpt a, Some err) \<in> set (calls out)"
  shows "\<exists>j < length rs. a = attr_String tab (rs ! j)
     \<and> calls out = map (\<lambda>c. (c, None)) pre
         @ map (\<lambda>x. (Rcpt (attr_String tab x), None)) (take j rs) @ [(Rcpt a, Some err)]
     \<and> State out = None
     \<and> Diagnostics out = diags @ [Diagnostic SeverityError ''Error setting recipient address:'' err]"
proof -
  from outcome_failed_call [OF out failed]
  obtain m where ab: "aborted_at m err sc diags out" and m: "sc ! m = Rcpt a"
    by blast
  let ?R = "map (\<lambda>x. Rcpt (attr_String tab x)) rs"
  from ab have lt: "m < length (pre @ ?R @ post)"
    by (simp add: aborted_at_def shape)
  from m have P: "is_Rcpt ((pre @ ?R @ post) ! m)"
    by (simp add: shape)
  from pre have pre': "\<forall>c\<in>set pre. \<not> is_Rcpt c"
    by simp
  note mid = nth_in_middle [OF lt P pre' post]
  define j where "j = m - length pre"
  from mid have "m - length pre < length ?R"
    and "(pre @ ?R @ post) ! m = ?R ! (m - length pre)"
    and "take m (pre @ ?R @ post) = pre @ take (m - length pre) ?R"
    by blast+
  then have j: "j < length rs" and nth: "sc ! m = ?R ! j"
    and tk: "take m sc = pre @ take j ?R"
    unfolding j_def shape by simp_all
  from nth m j have a: "a = attr_String tab (rs ! j)"
    by simp
  from ab tk m have c: "calls out = map (\<lambda>c. (c, None)) pre
         @ map (\<lambda>x. (Rcpt (attr_String tab x), None)) (take j rs) @ [(Rcpt a, Some err)]"
    by (simp add: aborted_at_def take_map o_def)
  from ab m have "State out = None"
    and "Diagnostics out = diags @ [Diagnostic SeverityError ''Error setting recipient address:'' err]"
    by (simp_all add: aborted_at_def)
  with j a c show ?thesis
    by blast
qed

lemma rcpt_calls_of_abort:
  assumes c: "cs = map (\<lambda>c. (c, None)) pre
         @ map (\<lambda>x. (Rcpt (attr_String tab x), None)) (take j rs) @ [(Rcpt a, Some err)]"
    and pre: "\<forall>c\<in>set pre. \<not> is_Rcpt c \<and> \<not> is_data_phase c"
    and j: "j < length rs"
  shows "filter (\<lambda>e. is_Rcpt (fst e)) cs
       = map (\<lambda>x. (Rcpt (attr_String tab x), None)) (take j rs) @ [(Rcpt a, Some err)]"
    and "length (filter (\<lambda>e. is_Rcpt (fst e)) cs) = Suc j"
    and "length (filter (\<lambda>e. is_Rcpt (fst e) \<and> snd e = None) cs) = j"
    and "filter (\<lambda>e. is_data_phase (fst e)) cs = []"
    and "last cs = (Rcpt a, Some err)"
proof -
  have p1: "filter (\<lambda>e. is_Rcpt (fst e)) (map (\<lambda>c. (c, None)) pre) = []"
    using pre by (simp add: filter_empty_conv)
  have p2: "filter (\<lambda>e. is_Rcpt (fst e) \<and> snd e = None) (map (\<lambda>c. (c, None)) pre) = []"
    using pre by (simp add: filter_empty_conv)
  have p3: "filter (\<lambda>e. is_data_phase (fst e)) (map (\<lambda>c. (c, None)) pre) = []"
    using pre by (simp add: filter_empty_conv)
  have r1: "filter (\<lambda>e. is_Rcpt (fst e)) (map (\<lambda>x. (Rcpt (attr_String tab x), None)) xs)
      = map (\<lambda>x. (Rcpt (attr_String tab x), None)) xs" for xs :: "attr_Value list"
    by (induction xs) simp_all
  have r2: "filter (\<lambda>e. is_Rcpt (fst e) \<and> snd e = None)
        (map (\<lambda>x. (Rcpt (attr_String tab x), None :: string option)) xs)
      = map (\<lambda>x. (Rcpt (attr_String tab x), None)) xs" for xs :: "attr_Value list"
    by (induction xs) simp_all
  have r3: "filter (\<lambda>e. is_data_phase (fst e))
        (map (\<lambda>x. (Rcpt (attr_String tab x), None :: string option)) xs) = []"
    for xs :: "attr_Value list"
    by (induction xs) simp_all
  show "filter (\<lambda>e. is_Rcpt (fst e)) cs
       = map (\<lambda>x. (Rcpt (attr_String tab x), None)) (take j rs) @ [(Rcpt a, Some err)]"
    unfolding c by (simp add: p1 r1)
  show "length (filter (\<lambda>e. is_Rcpt (fst e)) cs) = Suc j"
    unfolding c using j by (simp add: p1 r1)
  show "length (filter (\<lambda>e. is_Rcpt (fst e) \<and> snd e = None) cs) = j"
    unfolding c using j by (simp add: p2 r2)
  show "filter (\<lambda>e. is_data_phase (fst e)) cs = []"
    unfolding c by (simp add: p3 r3)
  show "last cs = (Rcpt a, Some err)"
    unfolding c by simp
qed

lemma outcome_calls_in_script:
  assumes "calls out = map (\<lambda>c. (c, None)) sc \<or> (\<exists>m err. aborted_at m err sc diags out)"
    and "(c, res) \<in> set (calls out)"
  shows "c \<in> set sc"
proof -
  from assms(2) have "c \<in> set (map fst (calls out))"
    by force
  then have "c \<in> set (take (length (calls out)) sc)"
    by (simp only: outcome_calls_take [OF assms(1)])
  then show ?thesis
    by (rule in_set_takeD)
qed

lemma Create_script_shape:
  "\<exists>pre. Create_script tab cl plan
           = pre @ map (\<lambda>x. Rcpt (attr_String tab x)) (plan_receivers plan)
               @ [Data, Write (plan_msg tab plan), Close]
     \<and> (\<forall>c\<in>set pre. \<not> is_Rcpt c \<and> \<not> is_data_phase c
           \<and> (\<forall>f. c = Mail f \<longrightarrow> f = plan_from cl plan))"
proof -
  let ?tls = "StartTLS \<lparr>ServerName = host cl @ '':'' @ port cl, InsecureSkipVerify = True\<rparr>"
  let ?dial = "Dial (host cl @ '':'' @ port cl)"
  let ?mail = "Mail (plan_from cl plan)"
  let ?rest = "map (\<lambda>x. Rcpt (attr_String tab x)) (plan_receivers plan)
                 @ [Data, Write (plan_msg tab plan), Close]"
  show ?thesis
  proof (cases "auth cl")
    case None
    then have plain: "Create_script tab cl plan = [?dial, ?mail] @ ?rest"
      by (simp add: Create_script_def envelope_script_def)
    show ?thesis
      by (rule exI [of _ "[?dial, ?mail]"]) (simp add: plain)
  next
    case (Some a)
    then have secure: "Create_script tab cl plan = [?dial, ?tls, Auth a, ?mail] @ ?rest"
      by (simp add: Create_script_def envelope_script_def)
    show ?thesis
      by (rule exI [of _ "[?dial, ?tls, Auth a, ?mail]"]) (simp add: secure)
  qed
qed

text \<open>
  Every invocation ends in one of three ways: without a call (the plan could not be
  read, or there is no client); as a run of the calls of \<open>Create\<close>, completed or
  left at a refusal; or, in \<open>Update\<close> without an authentication, as a run of the dial
  and the upgrade, left at a refusal or in the panic of \<open>conn.Auth\<close>.
\<close>

lemma op_outcome:
  assumes "op = Create tab \<or> op = Update tab"
  shows "(calls (op r tr s0 (diags, plan)) = [] \<and> State (op r tr s0 (diags, plan)) = None
          \<and> Diagnostics (op r tr s0 (diags, plan)) = diags)
     \<or> (\<exists>cl. client r = Some cl \<and> \<not> HasError diags
           \<and> (completed tab (Create_script tab cl plan) diags plan (op r tr s0 (diags, plan))
               \<or> (\<exists>m err. aborted_at m err (Create_script tab cl plan) diags
                     (op r tr s0 (diags, plan)))))
     \<or> (\<exists>cl. client r = Some cl \<and> \<not> HasError diags \<and> auth cl = None \<and> op = Update tab
           \<and> (panicked
                 [Dial (host cl @ '':'' @ port cl),
                  StartTLS \<lparr>ServerName = host cl @ '':'' @ port cl, InsecureSkipVerify = True\<rparr>]
                 diags (op r tr s0 (diags, plan))
               \<or> (\<exists>m err. aborted_at m err
                     [Dial (host cl @ '':'' @ port cl),
                      StartTLS \<lparr>ServerName = host cl @ '':'' @ port cl, InsecureSkipVerify = True\<rparr>]
                     diags (op r tr s0 (diags, plan)))))"
proof (cases "HasError diags \<or> client r = None")
  case True
  from no_send [OF True, of tab tr s0 plan] assms show ?thesis
    by auto
next
  case False
  then obtain cl where cl: "client r = Some cl" and ok: "\<not> HasError diags"
    by auto
  from assms show ?thesis
  proof (elim disjE)
    assume "op = Create tab"
    with Create_outcome [OF cl ok, of tab plan tr s0] cl ok show ?thesis
      by blast
  next
    assume op: "op = Update tab"
    show ?thesis
    proof (cases "auth cl")
      case None
      then have sc: "Update_script tab cl plan
          = [Dial (host cl @ '':'' @ port cl),
             StartTLS \<lparr>ServerName = host cl @ '':'' @ port cl, InsecureSkipVerify = True\<rparr>]"
        by (simp add: Update_script_def)
      from Update_outcome [OF cl ok, of tab plan tr s0] None cl ok op show ?thesis
        unfolding sc by blast
    next
      case (Some a)
      note sc = Update_script_with_auth [OF Some, of tab plan]
      from Update_outcome [OF cl ok, of tab plan tr s0] Some cl ok op show ?thesis
        unfolding sc by auto
    qed
  qed
qed

lemma short_run:
  assumes "panicked [c1, c2] diags out \<or> (\<exists>m err. aborted_at m err [c1, c2] diags out)"
  shows "State out = None"
    and "(c, res) \<in> set (calls out) \<Longrightarrow> c = c1 \<or> c = c2"
    and "(c, Some err) \<in> set (calls out) \<Longrightarrow>
         Diagnostics out = diags @ [Diagnostic SeverityError (summary_of c) err]
         \<and> last (calls out) = (c, Some err) \<and> exit out = Returned"
    and "exit out = Panicked \<Longrightarrow> Diagnostics out = diags"
proof -
  from assms
  have H: "calls out = map (\<lambda>c. (c, None)) [c1, c2] \<or> (\<exists>m err. aborted_at m err [c1, c2] diags out)"
    by (auto simp: panicked_def)
  from assms show "State out = None"
    by (auto simp: panicked_def aborted_at_def)
  show "c = c1 \<or> c = c2" if "(c, res) \<in> set (calls out)"
    using outcome_calls_in_script [OF H that] by simp
  show "Diagnostics out = diags @ [Diagnostic SeverityError (summary_of c) err]
         \<and> last (calls out) = (c, Some err) \<and> exit out = Returned"
    if "(c, Some err) \<in> set (calls out)"
  proof -
    from outcome_failed_call [OF H that] obtain m where
      "aborted_at m err [c1, c2] diags out" and "[c1, c2] ! m = c"
      by blast
    then show ?thesis
      by (simp add: aborted_at_def)
  qed
  from assms show "Diagnostics out = diags" if "exit out = Panicked"
    using that by (auto simp: panicked_def aborted_at_def)
qed

lemma Create_script_parts:
  "Create_script tab cl plan
     = (Dial (host cl @ '':'' @ port cl)
        # (case auth cl of
             None \<Rightarrow> []
           | Some a \<Rightarrow>
               [StartTLS \<lparr>ServerName = host cl @ '':'' @ port cl, InsecureSkipVerify = True\<rparr>,
                Auth a]))
       @ Mail (plan_from cl plan)
       # map (\<lambda>x. Rcpt (attr_String tab x)) (plan_receivers plan)
       @ [Data, Write (plan_msg tab plan), Close]"
  by (simp add: Create_script_def envelope_script_def)

lemma op_served:
  assumes op: "op = Create tab \<or> op = Update tab"
    and r: "client r = Some cl" and ok: "\<not> HasError diags"
    and sends: "op = Create tab \<or> auth cl \<noteq> None"
  shows "calls (op r tr s0 (diags, plan)) = served tr s0 (Create_script tab cl plan)"
    and "State (op r tr s0 (diags, plan))
       = (case refusal (served tr s0 (Create_script tab cl plan)) of
            None \<Rightarrow> Some (plan\<lparr>ID := StringValue (message_id (plan_msg tab plan))\<rparr>)
          | Some x \<Rightarrow> None)"
    and "Diagnostics (op r tr s0 (diags, plan))
       = diags @ (case refusal (served tr s0 (Create_script tab cl plan)) of
                    None \<Rightarrow> []
                  | Some (c, err) \<Rightarrow> [Diagnostic SeverityError (summary_of c) err])"
    and "exit (op r tr s0 (diags, plan)) = Returned"
proof -
  from r have r': "r = \<lparr>client = Some cl\<rparr>"
    by (cases r) simp
  have "op = Create tab \<or> (op = Update tab \<and> auth cl \<noteq> None)"
    using op sends by blast
  then have all: "calls (op r tr s0 (diags, plan)) = served tr s0 (Create_script tab cl plan)
    \<and> State (op r tr s0 (diags, plan))
       = (case refusal (served tr s0 (Create_script tab cl plan)) of
            None \<Rightarrow> Some (plan\<lparr>ID := StringValue (message_id (plan_msg tab plan))\<rparr>)
          | Some x \<Rightarrow> None)
    \<and> Diagnostics (op r tr s0 (diags, plan))
       = diags @ (case refusal (served tr s0 (Create_script tab cl plan)) of
                    None \<Rightarrow> []
                  | Some (c, err) \<Rightarrow> [Diagnostic SeverityError (summary_of c) err])
    \<and> exit (op r tr s0 (diags, plan)) = Returned"
  proof (elim disjE conjE)
    assume "op = Create tab"
    then show ?thesis
      unfolding r' by (simp add: Create_served [OF ok])
  next
    assume u: "op = Update tab" and "auth cl \<noteq> None"
    then obtain a where a: "auth cl = Some a"
      by auto
    show ?thesis
      unfolding r' u
      by (simp add: Update_served [OF ok] Update_script_with_auth [OF a] a split: option.splits)
  qed
  from all show "calls (op r tr s0 (diags, plan)) = served tr s0 (Create_script tab cl plan)"
    by blast
  from all show "State (op r tr s0 (diags, plan))
       = (case refusal (served tr s0 (Create_script tab cl plan)) of
            None \<Rightarrow> Some (plan\<lparr>ID := StringValue (message_id (plan_msg tab plan))\<rparr>)
          | Some x \<Rightarrow> None)"
    by blast
  from all show "Diagnostics (op r tr s0 (diags, plan))
       = diags @ (case refusal (served tr s0 (Create_script tab cl plan)) of
                    None \<Rightarrow> []
                  | Some (c, err) \<Rightarrow> [Diagnostic SeverityError (summary_of c) err])"
    by blast
  from all show "exit (op r tr s0 (diags, plan)) = Returned"
    by blast
qed

lemma served_Cons_first: "\<exists>e evs. served tr s (c # cs) = (c, e) # evs"
proof -
  obtain e s' where t: "tr c s = (e, s')"
    by (cases "tr c s")
  then show ?thesis
    by (cases e) simp_all
qed

lemma served_accepted_final:
  "served tr s xs = map (\<lambda>c. (c, None)) xs \<Longrightarrow> refusal (served tr s xs) = None"
  by (simp add: refusal_accepted)

lemma long_run:
  assumes run: "completed tab sc diags plan out \<or> (\<exists>m err. aborted_at m err sc diags out)"
    and shape: "sc = pre @ [Data, Write msg, Close]"
  shows "(c, Some err) \<in> set (calls out) \<Longrightarrow>
           State out = None
         \<and> Diagnostics out = diags @ [Diagnostic SeverityError (summary_of c) err]
         \<and> last (calls out) = (c, Some err) \<and> exit out = Returned"
    and "State out \<noteq> None \<Longrightarrow>
           list_all (\<lambda>e. snd e = None) (calls out)
         \<and> last (calls out) = (Close, None)
         \<and> Diagnostics out = diags
         \<and> State out = Some (plan\<lparr>ID := StringValue (message_id (plan_msg tab plan))\<rparr>)"
    and "exit out = Returned"
proof -
  from run have H: "calls out = map (\<lambda>c. (c, None)) sc \<or> (\<exists>m err. aborted_at m err sc diags out)"
    by (auto simp: completed_def)
  show "State out = None
         \<and> Diagnostics out = diags @ [Diagnostic SeverityError (summary_of c) err]
         \<and> last (calls out) = (c, Some err) \<and> exit out = Returned"
    if "(c, Some err) \<in> set (calls out)"
  proof -
    from outcome_failed_call [OF H that]
    obtain m where "aborted_at m err sc diags out" and "sc ! m = c"
      by blast
    then show ?thesis
      by (simp add: aborted_at_def)
  qed
  show "list_all (\<lambda>e. snd e = None) (calls out)
         \<and> last (calls out) = (Close, None)
         \<and> Diagnostics out = diags
         \<and> State out = Some (plan\<lparr>ID := StringValue (message_id (plan_msg tab plan))\<rparr>)"
    if "State out \<noteq> None"
  proof -
    from run that have co: "completed tab sc diags plan out"
      by (auto simp: aborted_at_def)
    have "last (map (\<lambda>c. (c, None :: string option)) sc) = (Close, None)"
      unfolding shape by (simp add: last_map)
    with co show ?thesis
      by (simp add: completed_def list_all_iff)
  qed
  from run show "exit out = Returned"
    by (auto simp: completed_def aborted_at_def)
qed

lemma short_run_accepted:
  assumes "panicked [c1, c2] diags out \<or> (\<exists>m err. aborted_at m err [c1, c2] diags out)"
    and "exit out = Panicked"
  shows "list_all (\<lambda>e. snd e = None) (calls out)"
  using assms by (auto simp: panicked_def aborted_at_def)

lemma run_general:
  assumes op: "op = Create tab \<or> op = Update tab"
  shows "((c, Some err) \<in> set (calls (op r tr s0 (diags, plan))) \<longrightarrow>
           State (op r tr s0 (diags, plan)) = None
         \<and> Diagnostics (op r tr s0 (diags, plan))
             = diags @ [Diagnostic SeverityError (summary_of c) err]
         \<and> last (calls (op r tr s0 (diags, plan))) = (c, Some err)
         \<and> exit (op r tr s0 (diags, plan)) = Returned)
       \<and> (State (op r tr s0 (diags, plan)) \<noteq> None \<longrightarrow>
           list_all (\<lambda>e. snd e = None) (calls (op r tr s0 (diags, plan)))
         \<and> last (calls (op r tr s0 (diags, plan))) = (Close, None)
         \<and> Diagnostics (op r tr s0 (diags, plan)) = diags
         \<and> State (op r tr s0 (diags, plan))
             = Some (plan\<lparr>ID := StringValue (Sprintf_x (md5_Sum (bytes_of_string (plan_msg tab plan))))\<rparr>))
       \<and> (exit (op r tr s0 (diags, plan)) = Panicked \<longrightarrow>
           State (op r tr s0 (diags, plan)) = None
         \<and> Diagnostics (op r tr s0 (diags, plan)) = diags
         \<and> list_all (\<lambda>e. snd e = None) (calls (op r tr s0 (diags, plan))))"
proof -
  define out where "out = op r tr s0 (diags, plan)"
  have "((c, Some err) \<in> set (calls out) \<longrightarrow>
           State out = None
         \<and> Diagnostics out = diags @ [Diagnostic SeverityError (summary_of c) err]
         \<and> last (calls out) = (c, Some err)
         \<and> exit out = Returned)
       \<and> (State out \<noteq> None \<longrightarrow>
           list_all (\<lambda>e. snd e = None) (calls out)
         \<and> last (calls out) = (Close, None)
         \<and> Diagnostics out = diags
         \<and> State out
             = Some (plan\<lparr>ID := StringValue (Sprintf_x (md5_Sum (bytes_of_string (plan_msg tab plan))))\<rparr>))
       \<and> (exit out = Panicked \<longrightarrow>
           State out = None \<and> Diagnostics out = diags
         \<and> list_all (\<lambda>e. snd e = None) (calls out))"
    using op_outcome [OF op, of r tr s0 diags plan, folded out_def]
  proof (elim disjE)
    assume "calls out = [] \<and> State out = None \<and> Diagnostics out = diags"
    then show ?thesis by simp
  next
    assume "\<exists>cl. client r = Some cl \<and> \<not> HasError diags
           \<and> (completed tab (Create_script tab cl plan) diags plan out
               \<or> (\<exists>m err. aborted_at m err (Create_script tab cl plan) diags out))"
    then obtain cl where run: "completed tab (Create_script tab cl plan) diags plan out
               \<or> (\<exists>m err. aborted_at m err (Create_script tab cl plan) diags out)"
      by blast
    obtain pre where shape: "Create_script tab cl plan
        = (pre @ map (\<lambda>x. Rcpt (attr_String tab x)) (plan_receivers plan))
            @ [Data, Write (plan_msg tab plan), Close]"
      using Create_script_shape [of tab cl plan] by auto
    note l = long_run [OF run shape, unfolded message_id_def]
    from l(3) have "exit out \<noteq> Panicked"
      by simp
    with l(1) [of c err] l(2) show ?thesis
      by blast
  next
    assume "\<exists>cl. client r = Some cl \<and> \<not> HasError diags \<and> auth cl = None \<and> op = Update tab
           \<and> (panicked
                 [Dial (host cl @ '':'' @ port cl),
                  StartTLS \<lparr>ServerName = host cl @ '':'' @ port cl, InsecureSkipVerify = True\<rparr>]
                 diags out
               \<or> (\<exists>m err. aborted_at m err
                     [Dial (host cl @ '':'' @ port cl),
                      StartTLS \<lparr>ServerName = host cl @ '':'' @ port cl, InsecureSkipVerify = True\<rparr>]
                     diags out))"
    then obtain cl where "client r = Some cl \<and> \<not> HasError diags \<and> auth cl = None \<and> op = Update tab
           \<and> (panicked
                 [Dial (host cl @ '':'' @ port cl),
                  StartTLS \<lparr>ServerName = host cl @ '':'' @ port cl, InsecureSkipVerify = True\<rparr>]
                 diags out
               \<or> (\<exists>m err. aborted_at m err
                     [Dial (host cl @ '':'' @ port cl),
                      StartTLS \<lparr>ServerName = host cl @ '':'' @ port cl, InsecureSkipVerify = True\<rparr>]
                     diags out))"
      ..
    then have run: "panicked
                 [Dial (host cl @ '':'' @ port cl),
                  StartTLS \<lparr>ServerName = host cl @ '':'' @ port cl, InsecureSkipVerify = True\<rparr>]
                 diags out
               \<or> (\<exists>m err. aborted_at m err
                     [Dial (host cl @ '':'' @ port cl),
                      StartTLS \<lparr>ServerName = host cl @ '':'' @ port cl, InsecureSkipVerify = True\<rparr>]
                     diags out)"
      by simp
    note s = short_run [OF run] short_run_accepted [OF run]
    from s(1) s(3) [of c err] s(4) s(5) show ?thesis
      by blast
  qed
  then show ?thesis
    unfolding out_def .
qed

lemma run_exact:
  assumes r: "client r = Some cl" and ok: "\<not> HasError diags"
  shows "calls (Create tab r tr s0 (diags, plan)) = served tr s0 (Create_script tab cl plan)
         \<and> calls (Update tab r tr s0 (diags, plan)) = served tr s0 (Update_script tab cl plan)
         \<and> State (Create tab r tr s0 (diags, plan))
             = (case refusal (served tr s0 (Create_script tab cl plan)) of
                  None \<Rightarrow>
                    Some (plan\<lparr>ID := StringValue (Sprintf_x (md5_Sum (bytes_of_string (plan_msg tab plan))))\<rparr>)
                | Some x \<Rightarrow> None)
         \<and> State (Update tab r tr s0 (diags, plan))
             = (case refusal (served tr s0 (Update_script tab cl plan)) of
                  None \<Rightarrow>
                    (case auth cl of
                       None \<Rightarrow> None
                     | Some a \<Rightarrow>
                         Some (plan\<lparr>ID := StringValue (Sprintf_x (md5_Sum (bytes_of_string (plan_msg tab plan))))\<rparr>))
                | Some x \<Rightarrow> None)
         \<and> Diagnostics (Create tab r tr s0 (diags, plan))
             = diags @ (case refusal (served tr s0 (Create_script tab cl plan)) of
                          None \<Rightarrow> []
                        | Some (c, err) \<Rightarrow> [Diagnostic SeverityError (summary_of c) err])
         \<and> Diagnostics (Update tab r tr s0 (diags, plan))
             = diags @ (case refusal (served tr s0 (Update_script tab cl plan)) of
                          None \<Rightarrow> []
                        | Some (c, err) \<Rightarrow> [Diagnostic SeverityError (summary_of c) err])
         \<and> exit (Create tab r tr s0 (diags, plan)) = Returned
         \<and> exit (Update tab r tr s0 (diags, plan))
             = (case refusal (served tr s0 (Update_script tab cl plan)) of
                  None \<Rightarrow> (case auth cl of None \<Rightarrow> Panicked | Some a \<Rightarrow> Returned)
                | Some x \<Rightarrow> Returned)"
proof -
  from r have r': "r = \<lparr>client = Some cl\<rparr>"
    by (cases r) simp
  show ?thesis
    unfolding r'
    by (simp only: Create_served [OF ok] Update_served [OF ok] message_id_def simp_thms)
qed

section \<open>Runs against the concrete servers\<close>

lemma no_diagnostics: "\<not> HasError []"
  by (simp add: HasError_def)

lemma served_accept: "served accept s cs = map (\<lambda>c. (c, None)) cs"
  by (induction cs) (simp_all add: accept_def)

lemma example_receivers: "plan_receivers example_plan = [StringValue ''a@x'']"
  by (simp add: plan_receivers_def example_plan_def uniqueAttrValue_def)

lemma three_receivers:
  "plan_receivers three_plan = [StringValue ''a@x'', StringValue ''b@x'', StringValue ''c@x'']"
  by (simp add: plan_receivers_def three_plan_def uniqueAttrValue_def)

lemma blind_receivers:
  "plan_receivers blind_plan = [StringValue ''a@x'', StringValue ''d@x'']"
  by (simp add: plan_receivers_def blind_plan_def uniqueAttrValue_def)

lemma senders:
  "plan_from open_relay example_plan = []"
  "plan_from submission example_plan = ''test''"
  "plan_from open_relay three_plan = ''me@x''"
  "plan_from submission three_plan = ''me@x''"
  "plan_from open_relay blind_plan = []"
  by (simp_all add: plan_from_def open_relay_def submission_def example_plan_def
        three_plan_def blind_plan_def)

lemma clients:
  "auth open_relay = None"
  "host open_relay = ''smtp.example.com''"
  "port open_relay = ''25''"
  "auth submission = Some (PlainAuth [] ''test'' ''test123'' ''smtp.example.com'')"
  "host submission = ''smtp.example.com''"
  "port submission = ''587''"
  by (simp_all add: open_relay_def submission_def)

lemma scripts:
  "Create_script tab open_relay example_plan
     = [Dial ''smtp.example.com:25'', Mail [], Rcpt ([DQ] @ ''a@x'' @ [DQ]), Data,
        Write (plan_msg tab example_plan), Close]"
  "Create_script tab submission example_plan
     = [Dial ''smtp.example.com:587'',
        StartTLS \<lparr>ServerName = ''smtp.example.com:587'', InsecureSkipVerify = True\<rparr>,
        Auth (PlainAuth [] ''test'' ''test123'' ''smtp.example.com''),
        Mail ''test'', Rcpt ([DQ] @ ''a@x'' @ [DQ]), Data,
        Write (plan_msg tab example_plan), Close]"
  "Create_script tab open_relay three_plan
     = [Dial ''smtp.example.com:25'', Mail ''me@x'', Rcpt ([DQ] @ ''a@x'' @ [DQ]),
        Rcpt ([DQ] @ ''b@x'' @ [DQ]), Rcpt ([DQ] @ ''c@x'' @ [DQ]), Data,
        Write (plan_msg tab three_plan), Close]"
  "Create_script tab submission three_plan
     = [Dial ''smtp.example.com:587'',
        StartTLS \<lparr>ServerName = ''smtp.example.com:587'', InsecureSkipVerify = True\<rparr>,
        Auth (PlainAuth [] ''test'' ''test123'' ''smtp.example.com''),
        Mail ''me@x'', Rcpt ([DQ] @ ''a@x'' @ [DQ]),
        Rcpt ([DQ] @ ''b@x'' @ [DQ]), Rcpt ([DQ] @ ''c@x'' @ [DQ]), Data,
        Write (plan_msg tab three_plan), Close]"
  "Create_script tab open_relay blind_plan
     = [Dial ''smtp.example.com:25'', Mail [], Rcpt ([DQ] @ ''a@x'' @ [DQ]),
        Rcpt ([DQ] @ ''d@x'' @ [DQ]), Data, Write (plan_msg tab blind_plan), Close]"
  "Update_script tab open_relay plan
     = [Dial ''smtp.example.com:25'',
        StartTLS \<lparr>ServerName = ''smtp.example.com:25'', InsecureSkipVerify = True\<rparr>]"
  "Update_script tab submission plan = Create_script tab submission plan"
  by (simp_all add: Create_script_def Update_script_def envelope_script_def clients senders
        example_receivers three_receivers blind_receivers quoted_addresses
        del: attr_String.simps)

lemma served_calls_take: "map fst (served tr s cs) = take (length (served tr s cs)) cs"
proof (induction cs arbitrary: s)
  case Nil
  show ?case by simp
next
  case (Cons x xs)
  obtain e s' where "tr x s = (e, s')"
    by (cases "tr x s")
  with Cons show ?case
    by (cases e) simp_all
qed

section \<open>The recipient loop stops at the first refusal\<close>

text \<open>
  C6. In Create and in Update the RCPT calls are made for the deduplicated receivers in
  their order. If a RCPT call is refused, it is the last call of the invocation: with
  \<open>k\<close> RCPT calls made, the first \<open>k - 1\<close> went to the first \<open>k - 1\<close> receivers and were
  accepted, the \<open>k\<close>-th went to the \<open>k\<close>-th receiver and was refused, no later receiver
  was tried, no call of the DATA phase (Data, Write, Close) was made, the state is not
  written and the one diagnostic added is the recipient error.

  The calls are made: with a client, no earlier error and, for Update, an
  authentication, the calls of the invocation are exactly what the server answers, up to
  its first refusal, to the dial, the upgrade and the authentication where there is one,
  MAIL, one RCPT for each receiver in order, Data, Write and Close. So on a server that
  accepts the calls before the receivers and the first \<open>j\<close> RCPT and refuses the next
  one, the invocation makes exactly these calls and ends with the refused RCPT, without
  state and with the recipient error; and on a server that accepts them all, every
  receiver gets its accepted RCPT, in order, and the DATA phase is attempted.
\<close>

theorem rcpt_first_failure_aborts:
  assumes op: "op = Create tab \<or> op = Update tab"
  shows "prefix (map fst (filter (\<lambda>e. is_Rcpt (fst e)) (calls (op r tr s0 (diags, plan)))))
           (map (\<lambda>x. Rcpt (attr_String tab x)) (plan_receivers plan))
    \<and> ((Rcpt a, Some err) \<in> set (calls (op r tr s0 (diags, plan))) \<longrightarrow>
         0 < length (filter (\<lambda>e. is_Rcpt (fst e)) (calls (op r tr s0 (diags, plan))))
       \<and> length (filter (\<lambda>e. is_Rcpt (fst e)) (calls (op r tr s0 (diags, plan))))
           \<le> length (plan_receivers plan)
       \<and> filter (\<lambda>e. is_Rcpt (fst e)) (calls (op r tr s0 (diags, plan)))
           = map (\<lambda>x. (Rcpt (attr_String tab x), None))
               (take (length (filter (\<lambda>e. is_Rcpt (fst e)) (calls (op r tr s0 (diags, plan)))) - 1)
                  (plan_receivers plan))
             @ [(Rcpt a, Some err)]
       \<and> a = attr_String tab (plan_receivers plan
               ! (length (filter (\<lambda>e. is_Rcpt (fst e)) (calls (op r tr s0 (diags, plan)))) - 1))
       \<and> length (filter (\<lambda>e. is_Rcpt (fst e) \<and> snd e = None) (calls (op r tr s0 (diags, plan))))
           = length (filter (\<lambda>e. is_Rcpt (fst e)) (calls (op r tr s0 (diags, plan)))) - 1
       \<and> last (calls (op r tr s0 (diags, plan))) = (Rcpt a, Some err)
       \<and> filter (\<lambda>e. is_data_phase (fst e)) (calls (op r tr s0 (diags, plan))) = []
       \<and> State (op r tr s0 (diags, plan)) = None
       \<and> Diagnostics (op r tr s0 (diags, plan))
           = diags @ [Diagnostic SeverityError ''Error setting recipient address:'' err])
    \<and> (client r = Some cl \<and> \<not> HasError diags \<and> (op = Create tab \<or> auth cl \<noteq> None) \<longrightarrow>
         calls (op r tr s0 (diags, plan))
           = served tr s0
               ((Dial (host cl @ '':'' @ port cl)
                 # (case auth cl of
                      None \<Rightarrow> []
                    | Some au \<Rightarrow>
                        [StartTLS \<lparr>ServerName = host cl @ '':'' @ port cl, InsecureSkipVerify = True\<rparr>,
                         Auth au])
                 @ [Mail (plan_from cl plan)])
                @ map (\<lambda>x. Rcpt (attr_String tab x)) (plan_receivers plan)
                @ [Data, Write (plan_msg tab plan), Close])
       \<and> (j < length (plan_receivers plan)
          \<and> served tr s0
               ((Dial (host cl @ '':'' @ port cl)
                 # (case auth cl of
                      None \<Rightarrow> []
                    | Some au \<Rightarrow>
                        [StartTLS \<lparr>ServerName = host cl @ '':'' @ port cl, InsecureSkipVerify = True\<rparr>,
                         Auth au])
                 @ [Mail (plan_from cl plan)])
                @ map (\<lambda>x. Rcpt (attr_String tab x)) (take (Suc j) (plan_receivers plan)))
              = map (\<lambda>c. (c, None))
                  ((Dial (host cl @ '':'' @ port cl)
                    # (case auth cl of
                         None \<Rightarrow> []
                       | Some au \<Rightarrow>
                           [StartTLS \<lparr>ServerName = host cl @ '':'' @ port cl, InsecureSkipVerify = True\<rparr>,
                            Auth au])
                    @ [Mail (plan_from cl plan)])
                   @ map (\<lambda>x. Rcpt (attr_String tab x)) (take j (plan_receivers plan)))
                @ [(Rcpt (attr_String tab (plan_receivers plan ! j)), Some err')]
          \<longrightarrow>
            calls (op r tr s0 (diags, plan))
              = map (\<lambda>c. (c, None))
                  ((Dial (host cl @ '':'' @ port cl)
                    # (case auth cl of
                         None \<Rightarrow> []
                       | Some au \<Rightarrow>
                           [StartTLS \<lparr>ServerName = host cl @ '':'' @ port cl, InsecureSkipVerify = True\<rparr>,
                            Auth au])
                    @ [Mail (plan_from cl plan)])
                   @ map (\<lambda>x. Rcpt (attr_String tab x)) (take j (plan_receivers plan)))
                @ [(Rcpt (attr_String tab (plan_receivers plan ! j)), Some err')]
          \<and> State (op r tr s0 (diags, plan)) = None
          \<and> Diagnostics (op r tr s0 (diags, plan))
              = diags @ [Diagnostic SeverityError ''Error setting recipient address:'' err']
          \<and> exit (op r tr s0 (diags, plan)) = Returned)
       \<and> (served tr s0
               ((Dial (host cl @ '':'' @ port cl)
                 # (case auth cl of
                      None \<Rightarrow> []
                    | Some au \<Rightarrow>
                        [StartTLS \<lparr>ServerName = host cl @ '':'' @ port cl, InsecureSkipVerify = True\<rparr>,
                         Auth au])
                 @ [Mail (plan_from cl plan)])
                @ map (\<lambda>x. Rcpt (attr_String tab x)) (plan_receivers plan))
              = map (\<lambda>c. (c, None))
                  ((Dial (host cl @ '':'' @ port cl)
                    # (case auth cl of
                         None \<Rightarrow> []
                       | Some au \<Rightarrow>
                           [StartTLS \<lparr>ServerName = host cl @ '':'' @ port cl, InsecureSkipVerify = True\<rparr>,
                            Auth au])
                    @ [Mail (plan_from cl plan)])
                   @ map (\<lambda>x. Rcpt (attr_String tab x)) (plan_receivers plan))
          \<longrightarrow>
            map fst (filter (\<lambda>e. is_Rcpt (fst e)) (calls (op r tr s0 (diags, plan))))
              = map (\<lambda>x. Rcpt (attr_String tab x)) (plan_receivers plan)
          \<and> list_all (\<lambda>e. snd e = None)
              (filter (\<lambda>e. is_Rcpt (fst e)) (calls (op r tr s0 (diags, plan))))
          \<and> (\<exists>res. (Data, res) \<in> set (calls (op r tr s0 (diags, plan))))))"
proof -
  define out where "out = op r tr s0 (diags, plan)"
  define rs where "rs = plan_receivers plan"
  define R where "R = (\<lambda>x. Rcpt (attr_String tab x))"
  define post where "post = [Data, Write (plan_msg tab plan), Close]"
  define pre where "pre = (Dial (host cl @ '':'' @ port cl)
                 # (case auth cl of
                      None \<Rightarrow> []
                    | Some au \<Rightarrow>
                        [StartTLS \<lparr>ServerName = host cl @ '':'' @ port cl, InsecureSkipVerify = True\<rparr>,
                         Auth au])
                 @ [Mail (plan_from cl plan)])"
  have trace: "prefix (map fst (filter (\<lambda>e. is_Rcpt (fst e)) (calls out))) (map R rs)
    \<and> ((Rcpt a, Some err) \<in> set (calls out) \<longrightarrow>
         0 < length (filter (\<lambda>e. is_Rcpt (fst e)) (calls out))
       \<and> length (filter (\<lambda>e. is_Rcpt (fst e)) (calls out)) \<le> length rs
       \<and> filter (\<lambda>e. is_Rcpt (fst e)) (calls out)
           = map (\<lambda>x. (Rcpt (attr_String tab x), None))
               (take (length (filter (\<lambda>e. is_Rcpt (fst e)) (calls out)) - 1) rs)
             @ [(Rcpt a, Some err)]
       \<and> a = attr_String tab (rs ! (length (filter (\<lambda>e. is_Rcpt (fst e)) (calls out)) - 1))
       \<and> length (filter (\<lambda>e. is_Rcpt (fst e) \<and> snd e = None) (calls out))
           = length (filter (\<lambda>e. is_Rcpt (fst e)) (calls out)) - 1
       \<and> last (calls out) = (Rcpt a, Some err)
       \<and> filter (\<lambda>e. is_data_phase (fst e)) (calls out) = []
       \<and> State out = None
       \<and> Diagnostics out
           = diags @ [Diagnostic SeverityError ''Error setting recipient address:'' err])"
    using op_outcome [OF op, of r tr s0 diags plan, folded out_def]
  proof (elim disjE)
    assume "calls out = [] \<and> State out = None \<and> Diagnostics out = diags"
    then show ?thesis by simp
  next
    assume "\<exists>cl. client r = Some cl \<and> \<not> HasError diags
           \<and> (completed tab (Create_script tab cl plan) diags plan out
               \<or> (\<exists>m err. aborted_at m err (Create_script tab cl plan) diags out))"
    then obtain cl' where "completed tab (Create_script tab cl' plan) diags plan out
               \<or> (\<exists>m err. aborted_at m err (Create_script tab cl' plan) diags out)"
      by blast
    then have run: "calls out = map (\<lambda>c. (c, None)) (Create_script tab cl' plan)
               \<or> (\<exists>m err. aborted_at m err (Create_script tab cl' plan) diags out)"
      by (auto simp: completed_def)
    from Create_script_shape [of tab cl' plan] obtain pre' where
      shape: "Create_script tab cl' plan
         = pre' @ map (\<lambda>x. Rcpt (attr_String tab x)) rs @ [Data, Write (plan_msg tab plan), Close]"
      and pre: "\<forall>c\<in>set pre'. \<not> is_Rcpt c \<and> \<not> is_data_phase c"
      unfolding rs_def by blast
    from pre have pre': "\<forall>c\<in>set pre'. \<not> is_Rcpt c"
      by simp
    have post: "\<forall>c\<in>set [Data, Write (plan_msg tab plan), Close]. \<not> is_Rcpt c"
      by simp
    have order: "prefix (map fst (filter (\<lambda>e. is_Rcpt (fst e)) (calls out))) (map R rs)"
      unfolding R_def by (rule rcpt_order_generic [OF shape pre' post run])
    show ?thesis
    proof (intro conjI impI)
      show "prefix (map fst (filter (\<lambda>e. is_Rcpt (fst e)) (calls out))) (map R rs)"
        by (rule order)
    next
      assume failed: "(Rcpt a, Some err) \<in> set (calls out)"
      from rcpt_failure_generic [OF shape pre post run failed]
      obtain j where j: "j < length rs" and a: "a = attr_String tab (rs ! j)"
        and c: "calls out = map (\<lambda>c. (c, None)) pre'
           @ map (\<lambda>x. (Rcpt (attr_String tab x), None)) (take j rs) @ [(Rcpt a, Some err)]"
        and st: "State out = None"
        and di: "Diagnostics out
           = diags @ [Diagnostic SeverityError ''Error setting recipient address:'' err]"
        by blast
      note f = rcpt_calls_of_abort [OF c pre j]
      have k: "length (filter (\<lambda>e. is_Rcpt (fst e)) (calls out)) - 1 = j"
        by (simp add: f(2))
      show "0 < length (filter (\<lambda>e. is_Rcpt (fst e)) (calls out))"
        by (simp add: f(2))
      show "length (filter (\<lambda>e. is_Rcpt (fst e)) (calls out)) \<le> length rs"
        using j by (simp add: f(2))
      show "filter (\<lambda>e. is_Rcpt (fst e)) (calls out)
           = map (\<lambda>x. (Rcpt (attr_String tab x), None))
               (take (length (filter (\<lambda>e. is_Rcpt (fst e)) (calls out)) - 1) rs)
             @ [(Rcpt a, Some err)]"
        unfolding k by (rule f(1))
      show "a = attr_String tab (rs ! (length (filter (\<lambda>e. is_Rcpt (fst e)) (calls out)) - 1))"
        unfolding k by (rule a)
      show "length (filter (\<lambda>e. is_Rcpt (fst e) \<and> snd e = None) (calls out))
           = length (filter (\<lambda>e. is_Rcpt (fst e)) (calls out)) - 1"
        unfolding k by (rule f(3))
      show "last (calls out) = (Rcpt a, Some err)"
        by (rule f(5))
      show "filter (\<lambda>e. is_data_phase (fst e)) (calls out) = []"
        by (rule f(4))
      show "State out = None"
        by (rule st)
      show "Diagnostics out
           = diags @ [Diagnostic SeverityError ''Error setting recipient address:'' err]"
        by (rule di)
    qed
  next
    assume "\<exists>cl. client r = Some cl \<and> \<not> HasError diags \<and> auth cl = None \<and> op = Update tab
           \<and> (panicked
                 [Dial (host cl @ '':'' @ port cl),
                  StartTLS \<lparr>ServerName = host cl @ '':'' @ port cl, InsecureSkipVerify = True\<rparr>]
                 diags out
               \<or> (\<exists>m err. aborted_at m err
                     [Dial (host cl @ '':'' @ port cl),
                      StartTLS \<lparr>ServerName = host cl @ '':'' @ port cl, InsecureSkipVerify = True\<rparr>]
                     diags out))"
    then obtain cl' where "client r = Some cl' \<and> \<not> HasError diags \<and> auth cl' = None \<and> op = Update tab
           \<and> (panicked
                 [Dial (host cl' @ '':'' @ port cl'),
                  StartTLS \<lparr>ServerName = host cl' @ '':'' @ port cl', InsecureSkipVerify = True\<rparr>]
                 diags out
               \<or> (\<exists>m err. aborted_at m err
                     [Dial (host cl' @ '':'' @ port cl'),
                      StartTLS \<lparr>ServerName = host cl' @ '':'' @ port cl', InsecureSkipVerify = True\<rparr>]
                     diags out))"
      ..
    then have run: "panicked
                 [Dial (host cl' @ '':'' @ port cl'),
                  StartTLS \<lparr>ServerName = host cl' @ '':'' @ port cl', InsecureSkipVerify = True\<rparr>]
                 diags out
               \<or> (\<exists>m err. aborted_at m err
                     [Dial (host cl' @ '':'' @ port cl'),
                      StartTLS \<lparr>ServerName = host cl' @ '':'' @ port cl', InsecureSkipVerify = True\<rparr>]
                     diags out)"
      by simp
    note s = short_run(2) [OF run]
    have none: "\<not> is_Rcpt (fst e)" if "e \<in> set (calls out)" for e
    proof -
      obtain c res where e: "e = (c, res)"
        by (cases e)
      from s [of c res] that e show ?thesis
        by auto
    qed
    then have "filter (\<lambda>e. is_Rcpt (fst e)) (calls out) = []"
      by (simp add: filter_empty_conv)
    moreover have "(Rcpt a, Some err) \<notin> set (calls out)"
      using none [of "(Rcpt a, Some err)"] by auto
    ultimately show ?thesis
      by simp
  qed
  have exact: "client r = Some cl \<and> \<not> HasError diags \<and> (op = Create tab \<or> auth cl \<noteq> None) \<longrightarrow>
         calls out = served tr s0 (pre @ map R rs @ post)
       \<and> (j < length rs
          \<and> served tr s0 (pre @ map R (take (Suc j) rs))
              = map (\<lambda>c. (c, None)) (pre @ map R (take j rs)) @ [(R (rs ! j), Some err')]
          \<longrightarrow>
            calls out = map (\<lambda>c. (c, None)) (pre @ map R (take j rs)) @ [(R (rs ! j), Some err')]
          \<and> State out = None
          \<and> Diagnostics out
              = diags @ [Diagnostic SeverityError ''Error setting recipient address:'' err']
          \<and> exit out = Returned)
       \<and> (served tr s0 (pre @ map R rs) = map (\<lambda>c. (c, None)) (pre @ map R rs)
          \<longrightarrow>
            map fst (filter (\<lambda>e. is_Rcpt (fst e)) (calls out)) = map R rs
          \<and> list_all (\<lambda>e. snd e = None) (filter (\<lambda>e. is_Rcpt (fst e)) (calls out))
          \<and> (\<exists>res. (Data, res) \<in> set (calls out)))"
  proof (intro impI)
    assume "client r = Some cl \<and> \<not> HasError diags \<and> (op = Create tab \<or> auth cl \<noteq> None)"
    then have r: "client r = Some cl" and ok: "\<not> HasError diags"
      and sends: "op = Create tab \<or> auth cl \<noteq> None"
      by simp_all
    note s = op_served [OF op r ok sends, of tr s0 plan, folded out_def]
    have sc: "Create_script tab cl plan = pre @ map R rs @ post"
      by (simp add: Create_script_parts pre_def R_def rs_def post_def)
    have c: "calls out = served tr s0 (pre @ map R rs @ post)"
      using s(1) by (simp only: sc)
    have refused: "calls out = map (\<lambda>c. (c, None)) (pre @ map R (take j rs)) @ [(R (rs ! j), Some err')]
          \<and> State out = None
          \<and> Diagnostics out
              = diags @ [Diagnostic SeverityError ''Error setting recipient address:'' err']
          \<and> exit out = Returned"
      if j: "j < length rs"
        and sv: "served tr s0 (pre @ map R (take (Suc j) rs))
              = map (\<lambda>c. (c, None)) (pre @ map R (take j rs)) @ [(R (rs ! j), Some err')]"
    proof -
      have "map R rs = map R (take (Suc j) rs) @ map R (drop (Suc j) rs)"
        by (simp only: map_append [symmetric] append_take_drop_id)
      then have split: "pre @ map R rs @ post
          = (pre @ map R (take (Suc j) rs)) @ (map R (drop (Suc j) rs) @ post)"
        by simp
      have ref: "refusal (served tr s0 (pre @ map R (take (Suc j) rs))) = Some (R (rs ! j), err')"
        unfolding sv by (simp only: refusal_accepted_append refusal.simps)
      have whole: "served tr s0 (Create_script tab cl plan)
          = map (\<lambda>c. (c, None)) (pre @ map R (take j rs)) @ [(R (rs ! j), Some err')]"
        unfolding sc split served_refused_append [OF ref] by (rule sv)
      have ref': "refusal (served tr s0 (Create_script tab cl plan)) = Some (R (rs ! j), err')"
        unfolding whole by (simp only: refusal_accepted_append refusal.simps)
      from s show ?thesis
        unfolding ref' unfolding whole by (simp add: R_def)
    qed
    have complete: "map fst (filter (\<lambda>e. is_Rcpt (fst e)) (calls out)) = map R rs
          \<and> list_all (\<lambda>e. snd e = None) (filter (\<lambda>e. is_Rcpt (fst e)) (calls out))
          \<and> (\<exists>res. (Data, res) \<in> set (calls out))"
      if sv: "served tr s0 (pre @ map R rs) = map (\<lambda>c. (c, None)) (pre @ map R rs)"
    proof -
      have "pre @ map R rs @ post = (pre @ map R rs) @ post"
        by simp
      then have c': "calls out = map (\<lambda>c. (c, None)) (pre @ map R rs)
          @ served tr (final tr s0 (pre @ map R rs)) post"
        unfolding c by (simp only: served_accepted_append [OF sv])
      from served_Cons_first [of tr "final tr s0 (pre @ map R rs)" Data
          "[Write (plan_msg tab plan), Close]"]
      obtain e evs where d: "served tr (final tr s0 (pre @ map R rs)) post = (Data, e) # evs"
        unfolding post_def by blast
      have evs: "filter (\<lambda>e. is_Rcpt (fst e)) ((Data, e) # evs) = []"
      proof -
        from served_calls_take [of tr "final tr s0 (pre @ map R rs)" post]
        have "set (map fst ((Data, e) # evs)) \<subseteq> set post"
          unfolding d [symmetric] by (metis set_take_subset)
        then have "\<forall>x\<in>set ((Data, e) # evs). \<not> is_Rcpt (fst x)"
          unfolding post_def by auto
        then show ?thesis
          by (simp only: filter_empty_conv)
      qed
      have p: "filter (\<lambda>e. is_Rcpt (fst e)) (map (\<lambda>c. (c, None :: string option)) pre) = []"
        by (cases "auth cl") (simp_all add: pre_def)
      have m: "filter (\<lambda>e. is_Rcpt (fst e)) (map (\<lambda>c. (c, None :: string option)) (map R xs))
          = map (\<lambda>c. (c, None)) (map R xs)" for xs
        by (induction xs) (simp_all add: R_def)
      have f: "filter (\<lambda>e. is_Rcpt (fst e)) (calls out) = map (\<lambda>c. (c, None)) (map R rs)"
        unfolding c' d by (simp only: filter_append map_append p m evs append_Nil append_Nil2)
      have "(Data, e) \<in> set (calls out)"
        unfolding c' d by simp
      then have "\<exists>res. (Data, res) \<in> set (calls out)" ..
      with f show ?thesis
        by (simp add: o_def list_all_iff)
    qed
    from refused have refused': "j < length rs
          \<and> served tr s0 (pre @ map R (take (Suc j) rs))
              = map (\<lambda>c. (c, None)) (pre @ map R (take j rs)) @ [(R (rs ! j), Some err')]
          \<longrightarrow>
            calls out = map (\<lambda>c. (c, None)) (pre @ map R (take j rs)) @ [(R (rs ! j), Some err')]
          \<and> State out = None
          \<and> Diagnostics out
              = diags @ [Diagnostic SeverityError ''Error setting recipient address:'' err']
          \<and> exit out = Returned"
      by (intro impI) (elim conjE)
    from complete have complete': "served tr s0 (pre @ map R rs) = map (\<lambda>c. (c, None)) (pre @ map R rs)
          \<longrightarrow>
            map fst (filter (\<lambda>e. is_Rcpt (fst e)) (calls out)) = map R rs
          \<and> list_all (\<lambda>e. snd e = None) (filter (\<lambda>e. is_Rcpt (fst e)) (calls out))
          \<and> (\<exists>res. (Data, res) \<in> set (calls out))"
      by (intro impI)
    show "calls out = served tr s0 (pre @ map R rs @ post)
       \<and> (j < length rs
          \<and> served tr s0 (pre @ map R (take (Suc j) rs))
              = map (\<lambda>c. (c, None)) (pre @ map R (take j rs)) @ [(R (rs ! j), Some err')]
          \<longrightarrow>
            calls out = map (\<lambda>c. (c, None)) (pre @ map R (take j rs)) @ [(R (rs ! j), Some err')]
          \<and> State out = None
          \<and> Diagnostics out
              = diags @ [Diagnostic SeverityError ''Error setting recipient address:'' err']
          \<and> exit out = Returned)
       \<and> (served tr s0 (pre @ map R rs) = map (\<lambda>c. (c, None)) (pre @ map R rs)
          \<longrightarrow>
            map fst (filter (\<lambda>e. is_Rcpt (fst e)) (calls out)) = map R rs
          \<and> list_all (\<lambda>e. snd e = None) (filter (\<lambda>e. is_Rcpt (fst e)) (calls out))
          \<and> (\<exists>res. (Data, res) \<in> set (calls out)))"
      by (intro conjI) (rule c, rule refused', rule complete')
  qed
  note t1 = conjunct1 [OF trace] and t2 = conjunct2 [OF trace]
  have "prefix (map fst (filter (\<lambda>e. is_Rcpt (fst e)) (calls out))) (map R rs)
    \<and> ((Rcpt a, Some err) \<in> set (calls out) \<longrightarrow>
         0 < length (filter (\<lambda>e. is_Rcpt (fst e)) (calls out))
       \<and> length (filter (\<lambda>e. is_Rcpt (fst e)) (calls out)) \<le> length rs
       \<and> filter (\<lambda>e. is_Rcpt (fst e)) (calls out)
           = map (\<lambda>x. (Rcpt (attr_String tab x), None))
               (take (length (filter (\<lambda>e. is_Rcpt (fst e)) (calls out)) - 1) rs)
             @ [(Rcpt a, Some err)]
       \<and> a = attr_String tab (rs ! (length (filter (\<lambda>e. is_Rcpt (fst e)) (calls out)) - 1))
       \<and> length (filter (\<lambda>e. is_Rcpt (fst e) \<and> snd e = None) (calls out))
           = length (filter (\<lambda>e. is_Rcpt (fst e)) (calls out)) - 1
       \<and> last (calls out) = (Rcpt a, Some err)
       \<and> filter (\<lambda>e. is_data_phase (fst e)) (calls out) = []
       \<and> State out = None
       \<and> Diagnostics out
           = diags @ [Diagnostic SeverityError ''Error setting recipient address:'' err])
    \<and> (client r = Some cl \<and> \<not> HasError diags \<and> (op = Create tab \<or> auth cl \<noteq> None) \<longrightarrow>
         calls out = served tr s0 (pre @ map R rs @ post)
       \<and> (j < length rs
          \<and> served tr s0 (pre @ map R (take (Suc j) rs))
              = map (\<lambda>c. (c, None)) (pre @ map R (take j rs)) @ [(R (rs ! j), Some err')]
          \<longrightarrow>
            calls out = map (\<lambda>c. (c, None)) (pre @ map R (take j rs)) @ [(R (rs ! j), Some err')]
          \<and> State out = None
          \<and> Diagnostics out
              = diags @ [Diagnostic SeverityError ''Error setting recipient address:'' err']
          \<and> exit out = Returned)
       \<and> (served tr s0 (pre @ map R rs) = map (\<lambda>c. (c, None)) (pre @ map R rs)
          \<longrightarrow>
            map fst (filter (\<lambda>e. is_Rcpt (fst e)) (calls out)) = map R rs
          \<and> list_all (\<lambda>e. snd e = None) (filter (\<lambda>e. is_Rcpt (fst e)) (calls out))
          \<and> (\<exists>res. (Data, res) \<in> set (calls out))))"
    by (intro conjI) (rule t1, rule t2, rule exact)
  then show ?thesis
    unfolding out_def rs_def R_def post_def pre_def .
qed

theorem rcpt_first_failure_aborts_witness:
  "calls (Create plain_table \<lparr>client = Some open_relay\<rparr>
            (refuse (Rcpt ([DQ] @ ''b@x'' @ [DQ]))) () ([], three_plan))
     = [(Dial ''smtp.example.com:25'', None), (Mail ''me@x'', None),
        (Rcpt ([DQ] @ ''a@x'' @ [DQ]), None),
        (Rcpt ([DQ] @ ''b@x'' @ [DQ]), Some ''550 refused'')]
   \<and> State (Create plain_table \<lparr>client = Some open_relay\<rparr>
            (refuse (Rcpt ([DQ] @ ''b@x'' @ [DQ]))) () ([], three_plan)) = None
   \<and> Diagnostics (Create plain_table \<lparr>client = Some open_relay\<rparr>
            (refuse (Rcpt ([DQ] @ ''b@x'' @ [DQ]))) () ([], three_plan))
       = [Diagnostic SeverityError ''Error setting recipient address:'' ''550 refused'']
   \<and> length (filter (\<lambda>e. is_Rcpt (fst e) \<and> snd e = None)
        (calls (Create plain_table \<lparr>client = Some open_relay\<rparr>
            (refuse (Rcpt ([DQ] @ ''b@x'' @ [DQ]))) () ([], three_plan)))) = 1
   \<and> filter (\<lambda>e. is_data_phase (fst e))
        (calls (Create plain_table \<lparr>client = Some open_relay\<rparr>
            (refuse (Rcpt ([DQ] @ ''b@x'' @ [DQ]))) () ([], three_plan))) = []
   \<and> calls (Update plain_table \<lparr>client = Some submission\<rparr>
            (refuse (Rcpt ([DQ] @ ''b@x'' @ [DQ]))) () ([], three_plan))
     = [(Dial ''smtp.example.com:587'', None),
        (StartTLS \<lparr>ServerName = ''smtp.example.com:587'', InsecureSkipVerify = True\<rparr>, None),
        (Auth (PlainAuth [] ''test'' ''test123'' ''smtp.example.com''), None),
        (Mail ''me@x'', None),
        (Rcpt ([DQ] @ ''a@x'' @ [DQ]), None),
        (Rcpt ([DQ] @ ''b@x'' @ [DQ]), Some ''550 refused'')]
   \<and> State (Update plain_table \<lparr>client = Some submission\<rparr>
            (refuse (Rcpt ([DQ] @ ''b@x'' @ [DQ]))) () ([], three_plan)) = None
   \<and> Diagnostics (Update plain_table \<lparr>client = Some submission\<rparr>
            (refuse (Rcpt ([DQ] @ ''b@x'' @ [DQ]))) () ([], three_plan))
       = [Diagnostic SeverityError ''Error setting recipient address:'' ''550 refused'']
   \<and> map fst (filter (\<lambda>e. is_Rcpt (fst e))
        (calls (Create plain_table \<lparr>client = Some open_relay\<rparr> accept () ([], three_plan))))
      = [Rcpt ([DQ] @ ''a@x'' @ [DQ]), Rcpt ([DQ] @ ''b@x'' @ [DQ]), Rcpt ([DQ] @ ''c@x'' @ [DQ])]"
proof -
  let ?tr = "refuse (Rcpt ([DQ] @ ''b@x'' @ [DQ]))"
  let ?R = "\<lambda>x. Rcpt (attr_String plain_table x)"
  let ?rs = "plan_receivers three_plan"
  let ?pre = "\<lambda>cl. (Dial (host cl @ '':'' @ port cl)
                 # (case auth cl of
                      None \<Rightarrow> []
                    | Some au \<Rightarrow>
                        [StartTLS \<lparr>ServerName = host cl @ '':'' @ port cl, InsecureSkipVerify = True\<rparr>,
                         Auth au])
                 @ [Mail (plan_from cl three_plan)])"
  let ?C = "Create plain_table \<lparr>client = Some open_relay\<rparr> ?tr () ([], three_plan)"
  let ?U = "Update plain_table \<lparr>client = Some submission\<rparr> ?tr () ([], three_plan)"
  let ?A = "Create plain_table \<lparr>client = Some open_relay\<rparr> accept () ([], three_plan)"
  note facts = three_receivers clients senders quoted_addresses refuse_def
  have c: "Create plain_table = Create plain_table \<or> Create plain_table = Update plain_table"
    by simp
  have u: "Update plain_table = Create plain_table \<or> Update plain_table = Update plain_table"
    by simp
  (* Create, the second recipient refused *)
  note TC = rcpt_first_failure_aborts [OF c, of "\<lparr>client = Some open_relay\<rparr>" ?tr "()" "[]"
      three_plan "[DQ] @ ''b@x'' @ [DQ]" "''550 refused''" open_relay 1 "''550 refused''"]
  have hc1: "client \<lparr>client = Some open_relay\<rparr> = Some open_relay \<and> \<not> HasError []
      \<and> (Create plain_table = Create plain_table \<or> auth open_relay \<noteq> None)"
    by (simp add: no_diagnostics)
  have hc2: "1 < length ?rs
      \<and> served ?tr () (?pre open_relay @ map ?R (take (Suc 1) ?rs))
          = map (\<lambda>c. (c, None)) (?pre open_relay @ map ?R (take 1 ?rs))
            @ [(Rcpt (attr_String plain_table (?rs ! 1)), Some ''550 refused'')]"
    by (simp add: facts del: attr_String.simps)
  note EC = mp [OF conjunct2 [OF conjunct2 [OF TC]] hc1]
  note DC = mp [OF conjunct1 [OF conjunct2 [OF EC]] hc2]
  have rc: "map (\<lambda>c. (c, None)) (?pre open_relay @ map ?R (take 1 ?rs))
            @ [(Rcpt (attr_String plain_table (?rs ! 1)), Some ''550 refused'')]
      = [(Dial ''smtp.example.com:25'', None), (Mail ''me@x'', None),
         (Rcpt ([DQ] @ ''a@x'' @ [DQ]), None),
         (Rcpt ([DQ] @ ''b@x'' @ [DQ]), Some ''550 refused'')]"
    by (simp add: facts del: attr_String.simps)
  from DC have "calls ?C = map (\<lambda>c. (c, None)) (?pre open_relay @ map ?R (take 1 ?rs))
            @ [(Rcpt (attr_String plain_table (?rs ! 1)), Some ''550 refused'')]"
    by (rule conjunct1)
  then have c1: "calls ?C = [(Dial ''smtp.example.com:25'', None), (Mail ''me@x'', None),
         (Rcpt ([DQ] @ ''a@x'' @ [DQ]), None),
         (Rcpt ([DQ] @ ''b@x'' @ [DQ]), Some ''550 refused'')]"
    by (simp only: rc)
  from DC have c2: "State ?C = None"
    by blast
  from DC have "Diagnostics ?C
      = [] @ [Diagnostic SeverityError ''Error setting recipient address:'' ''550 refused'']"
    by blast
  then have c3: "Diagnostics ?C
      = [Diagnostic SeverityError ''Error setting recipient address:'' ''550 refused'']"
    by (simp only: append_Nil)
  have mem: "(Rcpt ([DQ] @ ''b@x'' @ [DQ]), Some ''550 refused'') \<in> set (calls ?C)"
    unfolding c1 by simp
  have n: "length (filter (\<lambda>e. is_Rcpt (fst e)) (calls ?C)) = 2"
    unfolding c1 by simp
  note FC = mp [OF conjunct1 [OF conjunct2 [OF TC]] mem]
  from FC have "length (filter (\<lambda>e. is_Rcpt (fst e) \<and> snd e = None) (calls ?C))
      = length (filter (\<lambda>e. is_Rcpt (fst e)) (calls ?C)) - 1"
    by blast
  then have c4: "length (filter (\<lambda>e. is_Rcpt (fst e) \<and> snd e = None) (calls ?C)) = 1"
    unfolding n by simp
  from FC have c5: "filter (\<lambda>e. is_data_phase (fst e)) (calls ?C) = []"
    by blast
  (* Update, the second recipient refused *)
  note TU = rcpt_first_failure_aborts [OF u, of "\<lparr>client = Some submission\<rparr>" ?tr "()" "[]"
      three_plan "[DQ] @ ''b@x'' @ [DQ]" "''550 refused''" submission 1 "''550 refused''"]
  have hu1: "client \<lparr>client = Some submission\<rparr> = Some submission \<and> \<not> HasError []
      \<and> (Update plain_table = Create plain_table \<or> auth submission \<noteq> None)"
    by (simp add: no_diagnostics clients)
  have hu2: "1 < length ?rs
      \<and> served ?tr () (?pre submission @ map ?R (take (Suc 1) ?rs))
          = map (\<lambda>c. (c, None)) (?pre submission @ map ?R (take 1 ?rs))
            @ [(Rcpt (attr_String plain_table (?rs ! 1)), Some ''550 refused'')]"
    by (simp add: facts del: attr_String.simps)
  note EU = mp [OF conjunct2 [OF conjunct2 [OF TU]] hu1]
  note DU = mp [OF conjunct1 [OF conjunct2 [OF EU]] hu2]
  have ru: "map (\<lambda>c. (c, None)) (?pre submission @ map ?R (take 1 ?rs))
            @ [(Rcpt (attr_String plain_table (?rs ! 1)), Some ''550 refused'')]
      = [(Dial ''smtp.example.com:587'', None),
         (StartTLS \<lparr>ServerName = ''smtp.example.com:587'', InsecureSkipVerify = True\<rparr>, None),
         (Auth (PlainAuth [] ''test'' ''test123'' ''smtp.example.com''), None),
         (Mail ''me@x'', None),
         (Rcpt ([DQ] @ ''a@x'' @ [DQ]), None),
         (Rcpt ([DQ] @ ''b@x'' @ [DQ]), Some ''550 refused'')]"
    by (simp add: facts del: attr_String.simps)
  from DU have "calls ?U = map (\<lambda>c. (c, None)) (?pre submission @ map ?R (take 1 ?rs))
            @ [(Rcpt (attr_String plain_table (?rs ! 1)), Some ''550 refused'')]"
    by (rule conjunct1)
  then have u1: "calls ?U = [(Dial ''smtp.example.com:587'', None),
         (StartTLS \<lparr>ServerName = ''smtp.example.com:587'', InsecureSkipVerify = True\<rparr>, None),
         (Auth (PlainAuth [] ''test'' ''test123'' ''smtp.example.com''), None),
         (Mail ''me@x'', None),
         (Rcpt ([DQ] @ ''a@x'' @ [DQ]), None),
         (Rcpt ([DQ] @ ''b@x'' @ [DQ]), Some ''550 refused'')]"
    by (simp only: ru)
  from DU have u2: "State ?U = None"
    by blast
  from DU have "Diagnostics ?U
      = [] @ [Diagnostic SeverityError ''Error setting recipient address:'' ''550 refused'']"
    by blast
  then have u3: "Diagnostics ?U
      = [Diagnostic SeverityError ''Error setting recipient address:'' ''550 refused'']"
    by (simp only: append_Nil)
  (* Create, every recipient accepted *)
  note TA = rcpt_first_failure_aborts [OF c, of "\<lparr>client = Some open_relay\<rparr>" accept "()" "[]"
      three_plan "[]" "[]" open_relay 0 "[]"]
  have ha: "served accept () (?pre open_relay @ map ?R ?rs)
      = map (\<lambda>c. (c, None)) (?pre open_relay @ map ?R ?rs)"
    by (rule served_accept)
  note EA = mp [OF conjunct2 [OF conjunct2 [OF TA]] hc1]
  note DA = mp [OF conjunct2 [OF conjunct2 [OF EA]] ha]
  have ra: "map ?R ?rs
      = [Rcpt ([DQ] @ ''a@x'' @ [DQ]), Rcpt ([DQ] @ ''b@x'' @ [DQ]), Rcpt ([DQ] @ ''c@x'' @ [DQ])]"
    by (simp add: facts del: attr_String.simps)
  from DA have "map fst (filter (\<lambda>e. is_Rcpt (fst e)) (calls ?A)) = map ?R ?rs"
    by (rule conjunct1)
  then have a1: "map fst (filter (\<lambda>e. is_Rcpt (fst e)) (calls ?A))
      = [Rcpt ([DQ] @ ''a@x'' @ [DQ]), Rcpt ([DQ] @ ''b@x'' @ [DQ]), Rcpt ([DQ] @ ''c@x'' @ [DQ])]"
    by (simp only: ra)
  show ?thesis
    by (intro conjI) (rule c1 c2 c3 c4 c5 u1 u2 u3 a1)+
qed

section \<open>The digest\<close>

lemma length_md5_Sum: "length (md5_Sum data) = 16"
  by (simp add: md5_Sum_def put_uint32_def Let_def split: prod.splits)

lemma length_Sprintf_x: "length (Sprintf_x bs) = 2 * length bs"
  by (induction bs) (simp_all add: Sprintf_x_def)

lemma hex_digit: "n < 16 \<Longrightarrow> lowerhex ! n \<in> set lowerhex"
  by (rule nth_mem) (simp add: lowerhex_def)

lemma set_Sprintf_x: "set (Sprintf_x bs) \<subseteq> set lowerhex"
proof -
  have "unat b div 16 < 16 \<and> unat b mod 16 < 16" for b :: byte
  proof -
    have "unat b < 2 ^ 8"
      using unsigned_less [of b, where ?'a = nat] by simp
    then show ?thesis
      by simp
  qed
  then show ?thesis
    by (auto simp: Sprintf_x_def intro: hex_digit)
qed

text \<open>The first digests of the test suite of RFC 1321.\<close>

lemma md5_test_suite:
  "Sprintf_x (md5_Sum (bytes_of_string [])) = ''d41d8cd98f00b204e9800998ecf8427e''"
  "Sprintf_x (md5_Sum (bytes_of_string ''abc'')) = ''900150983cd24fb0d6963f7d28e17f72''"
  by code_simp+

lemma example_message:
  "plan_msg tab example_plan
     = ''To: '' @ [DQ] @ ''a@x'' @ [DQ] @ [CR, LF] @ ''Cc: '' @ [CR, LF]
       @ ''Subject: Hi'' @ [CR, LF] @ [CR, LF] @ ''Hello'' @ [CR, LF]"
  by (simp add: plan_msg_def plan_header_def plan_mime_def example_plan_def asStringList_map
        quoted_addresses del: attr_String.simps)

lemma other_message:
  "plan_msg tab (example_plan\<lparr>Body := StringValue ''Hello!''\<rparr>)
     = ''To: '' @ [DQ] @ ''a@x'' @ [DQ] @ [CR, LF] @ ''Cc: '' @ [CR, LF]
       @ ''Subject: Hi'' @ [CR, LF] @ [CR, LF] @ ''Hello!'' @ [CR, LF]"
  by (simp add: plan_msg_def plan_header_def plan_mime_def example_plan_def asStringList_map
        quoted_addresses del: attr_String.simps)

lemma example_digest:
  "Sprintf_x (md5_Sum (bytes_of_string (plan_msg tab example_plan)))
     = ''1d14662d559e8469508ff1cc3ed2c512''"
  unfolding example_message by code_simp

lemma other_digest:
  "Sprintf_x (md5_Sum (bytes_of_string (plan_msg tab (example_plan\<lparr>Body := StringValue ''Hello!''\<rparr>))))
     = ''39ef699ea229ab01d80846a3c251275a''"
  unfolding other_message by code_simp

section \<open>A failed step leaves no state\<close>

text \<open>
  C10. In Create and in Update, when any call on the connection is refused (the dial,
  STARTTLS, the authentication, MAIL, a RCPT, DATA, the write or the close), it is the
  last call, the one diagnostic added is its error, no state is written and the method
  returns. The state is written only when every call was accepted up to the close of the
  data writer, and then it is the plan with the identifier of the message. An invocation
  that panics writes no state and adds no diagnostic either.

  With a client and no earlier error, the calls of Create and of Update are exactly the
  answers of the server to the calls of the method up to its first refusal; if there is a
  refusal, there is no state and the diagnostic is that of the refused call; if there is
  none, Create stores the plan with the identifier, and so does Update with an
  authentication, while Update without one panics after the upgrade to TLS.
\<close>

theorem failed_step_sets_no_state:
  assumes op: "op = Create tab \<or> op = Update tab"
  shows "((c, Some err) \<in> set (calls (op r tr s0 (diags, plan))) \<longrightarrow>
           State (op r tr s0 (diags, plan)) = None
         \<and> Diagnostics (op r tr s0 (diags, plan))
             = diags @ [Diagnostic SeverityError (summary_of c) err]
         \<and> last (calls (op r tr s0 (diags, plan))) = (c, Some err)
         \<and> exit (op r tr s0 (diags, plan)) = Returned)
       \<and> (State (op r tr s0 (diags, plan)) \<noteq> None \<longrightarrow>
           list_all (\<lambda>e. snd e = None) (calls (op r tr s0 (diags, plan)))
         \<and> last (calls (op r tr s0 (diags, plan))) = (Close, None)
         \<and> Diagnostics (op r tr s0 (diags, plan)) = diags
         \<and> State (op r tr s0 (diags, plan))
             = Some (plan\<lparr>ID := StringValue (Sprintf_x (md5_Sum (bytes_of_string (plan_msg tab plan))))\<rparr>))
       \<and> (exit (op r tr s0 (diags, plan)) = Panicked \<longrightarrow>
           State (op r tr s0 (diags, plan)) = None
         \<and> Diagnostics (op r tr s0 (diags, plan)) = diags
         \<and> list_all (\<lambda>e. snd e = None) (calls (op r tr s0 (diags, plan))))
       \<and> (client r = Some cl \<and> \<not> HasError diags \<longrightarrow>
           calls (Create tab r tr s0 (diags, plan)) = served tr s0 (Create_script tab cl plan)
         \<and> calls (Update tab r tr s0 (diags, plan)) = served tr s0 (Update_script tab cl plan)
         \<and> State (Create tab r tr s0 (diags, plan))
             = (case refusal (served tr s0 (Create_script tab cl plan)) of
                  None \<Rightarrow>
                    Some (plan\<lparr>ID := StringValue (Sprintf_x (md5_Sum (bytes_of_string (plan_msg tab plan))))\<rparr>)
                | Some x \<Rightarrow> None)
         \<and> State (Update tab r tr s0 (diags, plan))
             = (case refusal (served tr s0 (Update_script tab cl plan)) of
                  None \<Rightarrow>
                    (case auth cl of
                       None \<Rightarrow> None
                     | Some a \<Rightarrow>
                         Some (plan\<lparr>ID := StringValue (Sprintf_x (md5_Sum (bytes_of_string (plan_msg tab plan))))\<rparr>))
                | Some x \<Rightarrow> None)
         \<and> Diagnostics (Create tab r tr s0 (diags, plan))
             = diags @ (case refusal (served tr s0 (Create_script tab cl plan)) of
                          None \<Rightarrow> []
                        | Some (c, err) \<Rightarrow> [Diagnostic SeverityError (summary_of c) err])
         \<and> Diagnostics (Update tab r tr s0 (diags, plan))
             = diags @ (case refusal (served tr s0 (Update_script tab cl plan)) of
                          None \<Rightarrow> []
                        | Some (c, err) \<Rightarrow> [Diagnostic SeverityError (summary_of c) err])
         \<and> exit (Create tab r tr s0 (diags, plan)) = Returned
         \<and> exit (Update tab r tr s0 (diags, plan))
             = (case refusal (served tr s0 (Update_script tab cl plan)) of
                  None \<Rightarrow> (case auth cl of None \<Rightarrow> Panicked | Some a \<Rightarrow> Returned)
                | Some x \<Rightarrow> Returned))"
proof -
  note g = run_general [OF op, of c err r tr s0 diags plan]
  have e: "client r = Some cl \<and> \<not> HasError diags \<longrightarrow>
           calls (Create tab r tr s0 (diags, plan)) = served tr s0 (Create_script tab cl plan)
         \<and> calls (Update tab r tr s0 (diags, plan)) = served tr s0 (Update_script tab cl plan)
         \<and> State (Create tab r tr s0 (diags, plan))
             = (case refusal (served tr s0 (Create_script tab cl plan)) of
                  None \<Rightarrow>
                    Some (plan\<lparr>ID := StringValue (Sprintf_x (md5_Sum (bytes_of_string (plan_msg tab plan))))\<rparr>)
                | Some x \<Rightarrow> None)
         \<and> State (Update tab r tr s0 (diags, plan))
             = (case refusal (served tr s0 (Update_script tab cl plan)) of
                  None \<Rightarrow>
                    (case auth cl of
                       None \<Rightarrow> None
                     | Some a \<Rightarrow>
                         Some (plan\<lparr>ID := StringValue (Sprintf_x (md5_Sum (bytes_of_string (plan_msg tab plan))))\<rparr>))
                | Some x \<Rightarrow> None)
         \<and> Diagnostics (Create tab r tr s0 (diags, plan))
             = diags @ (case refusal (served tr s0 (Create_script tab cl plan)) of
                          None \<Rightarrow> []
                        | Some (c, err) \<Rightarrow> [Diagnostic SeverityError (summary_of c) err])
         \<and> Diagnostics (Update tab r tr s0 (diags, plan))
             = diags @ (case refusal (served tr s0 (Update_script tab cl plan)) of
                          None \<Rightarrow> []
                        | Some (c, err) \<Rightarrow> [Diagnostic SeverityError (summary_of c) err])
         \<and> exit (Create tab r tr s0 (diags, plan)) = Returned
         \<and> exit (Update tab r tr s0 (diags, plan))
             = (case refusal (served tr s0 (Update_script tab cl plan)) of
                  None \<Rightarrow> (case auth cl of None \<Rightarrow> Panicked | Some a \<Rightarrow> Returned)
                | Some x \<Rightarrow> Returned)"
  proof (intro impI)
    assume "client r = Some cl \<and> \<not> HasError diags"
    then have "client r = Some cl" and "\<not> HasError diags"
      by simp_all
    then show "calls (Create tab r tr s0 (diags, plan)) = served tr s0 (Create_script tab cl plan)
         \<and> calls (Update tab r tr s0 (diags, plan)) = served tr s0 (Update_script tab cl plan)
         \<and> State (Create tab r tr s0 (diags, plan))
             = (case refusal (served tr s0 (Create_script tab cl plan)) of
                  None \<Rightarrow>
                    Some (plan\<lparr>ID := StringValue (Sprintf_x (md5_Sum (bytes_of_string (plan_msg tab plan))))\<rparr>)
                | Some x \<Rightarrow> None)
         \<and> State (Update tab r tr s0 (diags, plan))
             = (case refusal (served tr s0 (Update_script tab cl plan)) of
                  None \<Rightarrow>
                    (case auth cl of
                       None \<Rightarrow> None
                     | Some a \<Rightarrow>
                         Some (plan\<lparr>ID := StringValue (Sprintf_x (md5_Sum (bytes_of_string (plan_msg tab plan))))\<rparr>))
                | Some x \<Rightarrow> None)
         \<and> Diagnostics (Create tab r tr s0 (diags, plan))
             = diags @ (case refusal (served tr s0 (Create_script tab cl plan)) of
                          None \<Rightarrow> []
                        | Some (c, err) \<Rightarrow> [Diagnostic SeverityError (summary_of c) err])
         \<and> Diagnostics (Update tab r tr s0 (diags, plan))
             = diags @ (case refusal (served tr s0 (Update_script tab cl plan)) of
                          None \<Rightarrow> []
                        | Some (c, err) \<Rightarrow> [Diagnostic SeverityError (summary_of c) err])
         \<and> exit (Create tab r tr s0 (diags, plan)) = Returned
         \<and> exit (Update tab r tr s0 (diags, plan))
             = (case refusal (served tr s0 (Update_script tab cl plan)) of
                  None \<Rightarrow> (case auth cl of None \<Rightarrow> Panicked | Some a \<Rightarrow> Returned)
                | Some x \<Rightarrow> Returned)"
      by (rule run_exact)
  qed
  show ?thesis
    by (intro conjI) (rule conjunct1 [OF g], rule conjunct1 [OF conjunct2 [OF g]],
      rule conjunct2 [OF conjunct2 [OF g]], rule e)
qed

theorem failed_step_sets_no_state_witness:
  "State (Create plain_table \<lparr>client = Some open_relay\<rparr> (refuse Data) () ([], three_plan)) = None
   \<and> Diagnostics (Create plain_table \<lparr>client = Some open_relay\<rparr> (refuse Data) () ([], three_plan))
       = [Diagnostic SeverityError ''Error setting email message:'' ''550 refused'']
   \<and> last (calls (Create plain_table \<lparr>client = Some open_relay\<rparr> (refuse Data) () ([], three_plan)))
       = (Data, Some ''550 refused'')
   \<and> State (Update plain_table \<lparr>client = Some submission\<rparr> (refuse Close) () ([], three_plan)) = None
   \<and> Diagnostics (Update plain_table \<lparr>client = Some submission\<rparr> (refuse Close) () ([], three_plan))
       = [Diagnostic SeverityError ''Error sending email:'' ''550 refused'']
   \<and> last (calls (Update plain_table \<lparr>client = Some submission\<rparr> (refuse Close) () ([], three_plan)))
       = (Close, Some ''550 refused'')
   \<and> exit (Update plain_table \<lparr>client = Some open_relay\<rparr> accept () ([], example_plan)) = Panicked
   \<and> State (Update plain_table \<lparr>client = Some open_relay\<rparr> accept () ([], example_plan)) = None
   \<and> Diagnostics (Update plain_table \<lparr>client = Some open_relay\<rparr> accept () ([], example_plan)) = []
   \<and> State (Create plain_table \<lparr>client = Some open_relay\<rparr> accept () ([], example_plan))
       = Some (example_plan\<lparr>ID := StringValue ''1d14662d559e8469508ff1cc3ed2c512''\<rparr>)
   \<and> last (calls (Create plain_table \<lparr>client = Some open_relay\<rparr> accept () ([], example_plan)))
       = (Close, None)
   \<and> State (Update plain_table \<lparr>client = Some submission\<rparr> accept () ([], example_plan))
       = Some (example_plan\<lparr>ID := StringValue ''1d14662d559e8469508ff1cc3ed2c512''\<rparr>)"
proof -
  let ?C = "Create plain_table \<lparr>client = Some open_relay\<rparr> (refuse Data) () ([], three_plan)"
  let ?U = "Update plain_table \<lparr>client = Some submission\<rparr> (refuse Close) () ([], three_plan)"
  let ?P = "Update plain_table \<lparr>client = Some open_relay\<rparr> accept () ([], example_plan)"
  let ?A = "Create plain_table \<lparr>client = Some open_relay\<rparr> accept () ([], example_plan)"
  let ?B = "Update plain_table \<lparr>client = Some submission\<rparr> accept () ([], example_plan)"
  have c: "Create plain_table = Create plain_table \<or> Create plain_table = Update plain_table"
    by simp
  have u: "Update plain_table = Create plain_table \<or> Update plain_table = Update plain_table"
    by simp
  have ho: "client \<lparr>client = Some open_relay\<rparr> = Some open_relay \<and> \<not> HasError []"
    by (simp add: no_diagnostics)
  have hs: "client \<lparr>client = Some submission\<rparr> = Some submission \<and> \<not> HasError []"
    by (simp add: no_diagnostics)
  (* Create, DATA refused *)
  note TC = failed_step_sets_no_state [OF c, of Data "''550 refused''"
      "\<lparr>client = Some open_relay\<rparr>" "refuse Data" "()" "[]" three_plan open_relay]
  note EC = mp [OF conjunct2 [OF conjunct2 [OF conjunct2 [OF TC]]] ho]
  have sc: "served (refuse Data) () (Create_script plain_table open_relay three_plan)
      = [(Dial ''smtp.example.com:25'', None), (Mail ''me@x'', None),
         (Rcpt ([DQ] @ ''a@x'' @ [DQ]), None), (Rcpt ([DQ] @ ''b@x'' @ [DQ]), None),
         (Rcpt ([DQ] @ ''c@x'' @ [DQ]), None), (Data, Some ''550 refused'')]"
    by (simp add: scripts refuse_def)
  from EC have "calls ?C = served (refuse Data) () (Create_script plain_table open_relay three_plan)"
    by (rule conjunct1)
  then have "(Data, Some ''550 refused'') \<in> set (calls ?C)"
    unfolding sc by simp
  note FC = mp [OF conjunct1 [OF TC] this]
  from FC have c1: "State ?C = None"
    by (rule conjunct1)
  from FC have "Diagnostics ?C = [] @ [Diagnostic SeverityError (summary_of Data) ''550 refused'']"
    by blast
  then have c2: "Diagnostics ?C
      = [Diagnostic SeverityError ''Error setting email message:'' ''550 refused'']"
    by simp
  from FC have c3: "last (calls ?C) = (Data, Some ''550 refused'')"
    by blast
  (* Update, the close of the data writer refused *)
  note TU = failed_step_sets_no_state [OF u, of Close "''550 refused''"
      "\<lparr>client = Some submission\<rparr>" "refuse Close" "()" "[]" three_plan submission]
  note EU = mp [OF conjunct2 [OF conjunct2 [OF conjunct2 [OF TU]]] hs]
  have su: "served (refuse Close) () (Update_script plain_table submission three_plan)
      = [(Dial ''smtp.example.com:587'', None),
         (StartTLS \<lparr>ServerName = ''smtp.example.com:587'', InsecureSkipVerify = True\<rparr>, None),
         (Auth (PlainAuth [] ''test'' ''test123'' ''smtp.example.com''), None),
         (Mail ''me@x'', None),
         (Rcpt ([DQ] @ ''a@x'' @ [DQ]), None), (Rcpt ([DQ] @ ''b@x'' @ [DQ]), None),
         (Rcpt ([DQ] @ ''c@x'' @ [DQ]), None), (Data, None),
         (Write (plan_msg plain_table three_plan), None), (Close, Some ''550 refused'')]"
    by (simp add: scripts refuse_def)
  from EU have "calls ?U = served (refuse Close) () (Update_script plain_table submission three_plan)"
    by blast
  then have "(Close, Some ''550 refused'') \<in> set (calls ?U)"
    unfolding su by simp
  note FU = mp [OF conjunct1 [OF TU] this]
  from FU have u1: "State ?U = None"
    by (rule conjunct1)
  from FU have "Diagnostics ?U = [] @ [Diagnostic SeverityError (summary_of Close) ''550 refused'']"
    by blast
  then have u2: "Diagnostics ?U = [Diagnostic SeverityError ''Error sending email:'' ''550 refused'']"
    by simp
  from FU have u3: "last (calls ?U) = (Close, Some ''550 refused'')"
    by blast
  (* Update without an authentication, every call accepted *)
  note TP = failed_step_sets_no_state [OF u, of Close "[]"
      "\<lparr>client = Some open_relay\<rparr>" accept "()" "[]" example_plan open_relay]
  note EP = mp [OF conjunct2 [OF conjunct2 [OF conjunct2 [OF TP]]] ho]
  have rp: "refusal (served accept () (Update_script plain_table open_relay example_plan)) = None"
    by (simp only: served_accept refusal_accepted)
  from EP have "exit ?P
      = (case refusal (served accept () (Update_script plain_table open_relay example_plan)) of
           None \<Rightarrow> (case auth open_relay of None \<Rightarrow> Panicked | Some a \<Rightarrow> Returned)
         | Some x \<Rightarrow> Returned)"
    by blast
  then have p1: "exit ?P = Panicked"
    unfolding rp by (simp add: clients)
  note FP = mp [OF conjunct1 [OF conjunct2 [OF conjunct2 [OF TP]]] p1]
  from FP have p2: "State ?P = None" and p3: "Diagnostics ?P = []"
    by blast+
  (* Create, every call accepted *)
  note TA = failed_step_sets_no_state [OF c, of Close "[]"
      "\<lparr>client = Some open_relay\<rparr>" accept "()" "[]" example_plan open_relay]
  note EA = mp [OF conjunct2 [OF conjunct2 [OF conjunct2 [OF TA]]] ho]
  have ra: "refusal (served accept () (Create_script plain_table open_relay example_plan)) = None"
    by (simp only: served_accept refusal_accepted)
  from EA have "State ?A
      = (case refusal (served accept () (Create_script plain_table open_relay example_plan)) of
           None \<Rightarrow>
             Some (example_plan\<lparr>ID := StringValue (Sprintf_x (md5_Sum (bytes_of_string
               (plan_msg plain_table example_plan))))\<rparr>)
         | Some x \<Rightarrow> None)"
    by blast
  then have a1: "State ?A
      = Some (example_plan\<lparr>ID := StringValue ''1d14662d559e8469508ff1cc3ed2c512''\<rparr>)"
    unfolding ra example_digest by simp
  then have "State ?A \<noteq> None"
    by simp
  note FA = mp [OF conjunct1 [OF conjunct2 [OF TA]] this]
  from FA have a2: "last (calls ?A) = (Close, None)"
    by blast
  (* Update with an authentication, every call accepted *)
  note TB = failed_step_sets_no_state [OF u, of Close "[]"
      "\<lparr>client = Some submission\<rparr>" accept "()" "[]" example_plan submission]
  note EB = mp [OF conjunct2 [OF conjunct2 [OF conjunct2 [OF TB]]] hs]
  have rb: "refusal (served accept () (Update_script plain_table submission example_plan)) = None"
    by (simp only: served_accept refusal_accepted)
  from EB have "State ?B
      = (case refusal (served accept () (Update_script plain_table submission example_plan)) of
           None \<Rightarrow>
             (case auth submission of
                None \<Rightarrow> None
              | Some a \<Rightarrow>
                  Some (example_plan\<lparr>ID := StringValue (Sprintf_x (md5_Sum (bytes_of_string
                    (plan_msg plain_table example_plan))))\<rparr>))
         | Some x \<Rightarrow> None)"
    by blast
  then have b1: "State ?B
      = Some (example_plan\<lparr>ID := StringValue ''1d14662d559e8469508ff1cc3ed2c512''\<rparr>)"
    unfolding rb example_digest by (simp add: clients)
  show ?thesis
    by (intro conjI) (rule c1 c2 c3 u1 u2 u3 p1 p2 p3 a1 a2 b1)+
qed

section \<open>The sender\<close>

lemma accept_run:
  assumes "\<not> HasError diags"
  shows "calls (Create tab \<lparr>client = Some cl\<rparr> accept s0 (diags, plan))
       = map (\<lambda>c. (c, None)) (Create_script tab cl plan)"
    and "calls (Update tab \<lparr>client = Some cl\<rparr> accept s0 (diags, plan))
       = map (\<lambda>c. (c, None)) (Update_script tab cl plan)"
  by (simp_all only: Create_served [OF assms] Update_served [OF assms] served_accept)

text \<open>
  C9. In Create and in Update every MAIL call carries the plan's from when that is not
  empty, and the client's user name otherwise. And the call is made: with no earlier
  error and, for Update, an authentication, on a server that accepts the dial (and the
  upgrade and the authentication where there is one) the next call is MAIL with that
  sender, and it is the only MAIL call of the invocation.
\<close>

theorem mail_from_is_from_or_username:
  assumes op: "op = Create tab \<or> op = Update tab"
  shows "((Mail f, res) \<in> set (calls (op \<lparr>client = Some cl\<rparr> tr s0 (diags, plan))) \<longrightarrow>
           f = (if ValueString (From plan) = [] then username cl else ValueString (From plan)))
       \<and> (\<not> HasError diags \<and> (op = Create tab \<or> auth cl \<noteq> None)
          \<and> served tr s0
               (Dial (host cl @ '':'' @ port cl)
                # (case auth cl of
                     None \<Rightarrow> []
                   | Some au \<Rightarrow>
                       [StartTLS \<lparr>ServerName = host cl @ '':'' @ port cl, InsecureSkipVerify = True\<rparr>,
                        Auth au]))
             = map (\<lambda>c. (c, None))
                 (Dial (host cl @ '':'' @ port cl)
                  # (case auth cl of
                       None \<Rightarrow> []
                     | Some au \<Rightarrow>
                         [StartTLS \<lparr>ServerName = host cl @ '':'' @ port cl, InsecureSkipVerify = True\<rparr>,
                          Auth au]))
          \<longrightarrow>
            take (Suc (length
                 (Dial (host cl @ '':'' @ port cl)
                  # (case auth cl of
                       None \<Rightarrow> []
                     | Some au \<Rightarrow>
                         [StartTLS \<lparr>ServerName = host cl @ '':'' @ port cl, InsecureSkipVerify = True\<rparr>,
                          Auth au]))))
              (map fst (calls (op \<lparr>client = Some cl\<rparr> tr s0 (diags, plan))))
              = (Dial (host cl @ '':'' @ port cl)
                  # (case auth cl of
                       None \<Rightarrow> []
                     | Some au \<Rightarrow>
                         [StartTLS \<lparr>ServerName = host cl @ '':'' @ port cl, InsecureSkipVerify = True\<rparr>,
                          Auth au]))
                @ [Mail (if ValueString (From plan) = [] then username cl
                         else ValueString (From plan))]
          \<and> filter is_Mail (map fst (calls (op \<lparr>client = Some cl\<rparr> tr s0 (diags, plan))))
              = [Mail (if ValueString (From plan) = [] then username cl
                       else ValueString (From plan))])"
proof -
  define out where "out = op \<lparr>client = Some cl\<rparr> tr s0 (diags, plan)"
  define sender where
    "sender = (if ValueString (From plan) = [] then username cl else ValueString (From plan))"
  define pre where "pre = Dial (host cl @ '':'' @ port cl)
                # (case auth cl of
                     None \<Rightarrow> []
                   | Some au \<Rightarrow>
                       [StartTLS \<lparr>ServerName = host cl @ '':'' @ port cl, InsecureSkipVerify = True\<rparr>,
                        Auth au])"
  define rest where "rest = map (\<lambda>x. Rcpt (attr_String tab x)) (plan_receivers plan)
      @ [Data, Write (plan_msg tab plan), Close]"
  have sender: "plan_from cl plan = sender"
    by (simp add: plan_from_def sender_def)
  have only: "f = sender" if mail: "(Mail f, res) \<in> set (calls out)"
    using op_outcome [OF op, of "\<lparr>client = Some cl\<rparr>" tr s0 diags plan, folded out_def]
  proof (elim disjE)
    assume "calls out = [] \<and> State out = None \<and> Diagnostics out = diags"
    with mail show ?thesis
      by simp
  next
    assume "\<exists>cl'. client \<lparr>client = Some cl\<rparr> = Some cl' \<and> \<not> HasError diags
           \<and> (completed tab (Create_script tab cl' plan) diags plan out
               \<or> (\<exists>m err. aborted_at m err (Create_script tab cl' plan) diags out))"
    then have "completed tab (Create_script tab cl plan) diags plan out
               \<or> (\<exists>m err. aborted_at m err (Create_script tab cl plan) diags out)"
      by simp
    then have run: "calls out = map (\<lambda>c. (c, None)) (Create_script tab cl plan)
               \<or> (\<exists>m err. aborted_at m err (Create_script tab cl plan) diags out)"
      by (auto simp: completed_def)
    from Create_script_shape [of tab cl plan] obtain pre' where
      shape: "Create_script tab cl plan
         = pre' @ map (\<lambda>x. Rcpt (attr_String tab x)) (plan_receivers plan)
             @ [Data, Write (plan_msg tab plan), Close]"
      and pre': "\<forall>c\<in>set pre'. \<forall>f. c = Mail f \<longrightarrow> f = plan_from cl plan"
      by blast
    from outcome_calls_in_script [OF run mail] have "Mail f \<in> set (Create_script tab cl plan)" .
    then have "Mail f \<in> set pre'"
      unfolding shape by auto
    with pre' have "f = plan_from cl plan"
      by blast
    then show ?thesis
      by (simp only: sender)
  next
    assume "\<exists>cl'. client \<lparr>client = Some cl\<rparr> = Some cl' \<and> \<not> HasError diags \<and> auth cl' = None
           \<and> op = Update tab
           \<and> (panicked
                 [Dial (host cl' @ '':'' @ port cl'),
                  StartTLS \<lparr>ServerName = host cl' @ '':'' @ port cl', InsecureSkipVerify = True\<rparr>]
                 diags out
               \<or> (\<exists>m err. aborted_at m err
                     [Dial (host cl' @ '':'' @ port cl'),
                      StartTLS \<lparr>ServerName = host cl' @ '':'' @ port cl', InsecureSkipVerify = True\<rparr>]
                     diags out))"
    then have run: "panicked
                 [Dial (host cl @ '':'' @ port cl),
                  StartTLS \<lparr>ServerName = host cl @ '':'' @ port cl, InsecureSkipVerify = True\<rparr>]
                 diags out
               \<or> (\<exists>m err. aborted_at m err
                     [Dial (host cl @ '':'' @ port cl),
                      StartTLS \<lparr>ServerName = host cl @ '':'' @ port cl, InsecureSkipVerify = True\<rparr>]
                     diags out)"
      by simp
    from short_run(2) [OF run mail] show ?thesis
      by simp
  qed
  have issued: "take (Suc (length pre)) (map fst (calls out)) = pre @ [Mail sender]
      \<and> filter is_Mail (map fst (calls out)) = [Mail sender]"
    if ok: "\<not> HasError diags" and sends: "op = Create tab \<or> auth cl \<noteq> None"
      and sv: "served tr s0 pre = map (\<lambda>c. (c, None)) pre"
  proof -
    have r: "client \<lparr>client = Some cl\<rparr> = Some cl"
      by simp
    note s = op_served(1) [OF op r ok sends, of tr s0 plan, folded out_def]
    have sc: "Create_script tab cl plan = pre @ Mail sender # rest"
      by (simp add: Create_script_parts pre_def rest_def sender)
    from served_Cons_first [of tr "final tr s0 pre" "Mail sender" rest]
    obtain e evs where d: "served tr (final tr s0 pre) (Mail sender # rest) = (Mail sender, e) # evs"
      by blast
    have c: "calls out = map (\<lambda>c. (c, None)) pre @ (Mail sender, e) # evs"
      unfolding s sc served_accepted_append [OF sv] d ..
    from served_calls_take [of tr "final tr s0 pre" "Mail sender # rest"]
    have "Mail sender # map fst evs = take (Suc (length evs)) (Mail sender # rest)"
      unfolding d by simp
    then have "map fst evs = take (length evs) rest"
      by simp
    then have "set (map fst evs) \<subseteq> set rest"
      by (metis set_take_subset)
    then have "\<forall>x\<in>set (map fst evs). \<not> is_Mail x"
      unfolding rest_def by auto
    then have evs: "filter is_Mail (map fst evs) = []"
      by (simp only: filter_empty_conv)
    have p: "filter is_Mail pre = []"
      by (cases "auth cl") (simp_all add: pre_def)
    have m: "map fst (calls out) = pre @ Mail sender # map fst evs"
      unfolding c by (simp add: o_def)
    have "take (Suc (length pre)) (map fst (calls out)) = pre @ [Mail sender]"
      unfolding m by simp
    moreover have "filter is_Mail (map fst (calls out)) = [Mail sender]"
      unfolding m by (simp add: p evs)
    ultimately show ?thesis ..
  qed
  have 1: "(Mail f, res) \<in> set (calls out) \<longrightarrow> f = sender"
    using only by (intro impI)
  have 2: "\<not> HasError diags \<and> (op = Create tab \<or> auth cl \<noteq> None)
          \<and> served tr s0 pre = map (\<lambda>c. (c, None)) pre
          \<longrightarrow> take (Suc (length pre)) (map fst (calls out)) = pre @ [Mail sender]
            \<and> filter is_Mail (map fst (calls out)) = [Mail sender]"
    using issued by (intro impI) (elim conjE)
  have "((Mail f, res) \<in> set (calls out) \<longrightarrow> f = sender)
       \<and> (\<not> HasError diags \<and> (op = Create tab \<or> auth cl \<noteq> None)
          \<and> served tr s0 pre = map (\<lambda>c. (c, None)) pre
          \<longrightarrow> take (Suc (length pre)) (map fst (calls out)) = pre @ [Mail sender]
            \<and> filter is_Mail (map fst (calls out)) = [Mail sender])"
    by (intro conjI) (rule 1, rule 2)
  then show ?thesis
    unfolding out_def sender_def pre_def .
qed

theorem mail_from_is_from_or_username_witness:
  "take 2 (map fst (calls (Create plain_table \<lparr>client = Some open_relay\<rparr> accept ()
       ([], three_plan))))
     = [Dial ''smtp.example.com:25'', Mail ''me@x'']
   \<and> filter is_Mail (map fst (calls (Create plain_table \<lparr>client = Some open_relay\<rparr> accept ()
       ([], three_plan))))
     = [Mail ''me@x'']
   \<and> take 4 (map fst (calls (Update plain_table \<lparr>client = Some submission\<rparr> accept ()
       ([], example_plan))))
     = [Dial ''smtp.example.com:587'',
        StartTLS \<lparr>ServerName = ''smtp.example.com:587'', InsecureSkipVerify = True\<rparr>,
        Auth (PlainAuth [] ''test'' ''test123'' ''smtp.example.com''),
        Mail ''test'']
   \<and> filter is_Mail (map fst (calls (Update plain_table \<lparr>client = Some submission\<rparr> accept ()
       ([], example_plan))))
     = [Mail ''test'']
   \<and> (Mail ''test'', None)
       \<in> set (calls (Update plain_table \<lparr>client = Some submission\<rparr> accept () ([], example_plan)))
   \<and> ''test'' = (if ValueString (From example_plan) = [] then username submission
                 else ValueString (From example_plan))"
proof -
  let ?C = "Create plain_table \<lparr>client = Some open_relay\<rparr> accept () ([], three_plan)"
  let ?U = "Update plain_table \<lparr>client = Some submission\<rparr> accept () ([], example_plan)"
  let ?pre = "\<lambda>cl. Dial (host cl @ '':'' @ port cl)
                # (case auth cl of
                     None \<Rightarrow> []
                   | Some au \<Rightarrow>
                       [StartTLS \<lparr>ServerName = host cl @ '':'' @ port cl, InsecureSkipVerify = True\<rparr>,
                        Auth au])"
  have c: "Create plain_table = Create plain_table \<or> Create plain_table = Update plain_table"
    by simp
  have u: "Update plain_table = Create plain_table \<or> Update plain_table = Update plain_table"
    by simp
  (* Create: the plan's from *)
  note TC = mail_from_is_from_or_username [OF c, of "''me@x''" None open_relay accept "()" "[]"
      three_plan]
  have hc: "\<not> HasError [] \<and> (Create plain_table = Create plain_table \<or> auth open_relay \<noteq> None)
      \<and> served accept () (?pre open_relay) = map (\<lambda>c. (c, None)) (?pre open_relay)"
    by (intro conjI disjI1 refl no_diagnostics served_accept)
  note IC = mp [OF conjunct2 [OF TC] hc]
  have vc: "Suc (length (?pre open_relay)) = 2"
    by (simp add: clients)
  from IC [unfolded vc]
  have c1: "take 2 (map fst (calls ?C)) = [Dial ''smtp.example.com:25'', Mail ''me@x'']"
    and c2: "filter is_Mail (map fst (calls ?C)) = [Mail ''me@x'']"
    by (simp_all add: clients three_plan_def)
  (* Update: the user name of the client *)
  note TU = mail_from_is_from_or_username [OF u, of "''test''" None submission accept "()" "[]"
      example_plan]
  have au: "auth submission \<noteq> None"
    by (simp add: clients)
  have hu: "\<not> HasError [] \<and> (Update plain_table = Create plain_table \<or> auth submission \<noteq> None)
      \<and> served accept () (?pre submission) = map (\<lambda>c. (c, None)) (?pre submission)"
    by (intro conjI disjI2 au no_diagnostics served_accept)
  note IU = mp [OF conjunct2 [OF TU] hu]
  have vu: "Suc (length (?pre submission)) = 4"
    by (simp add: clients)
  from IU [unfolded vu]
  have u1: "take 4 (map fst (calls ?U))
     = [Dial ''smtp.example.com:587'',
        StartTLS \<lparr>ServerName = ''smtp.example.com:587'', InsecureSkipVerify = True\<rparr>,
        Auth (PlainAuth [] ''test'' ''test123'' ''smtp.example.com''),
        Mail ''test'']"
    and u2: "filter is_Mail (map fst (calls ?U)) = [Mail ''test'']"
    by (simp_all add: clients example_plan_def submission_def)
  have u3: "(Mail ''test'', None) \<in> set (calls ?U)"
    by (simp add: accept_run [OF no_diagnostics] scripts)
  note u4 = mp [OF conjunct1 [OF TU] u3]
  show ?thesis
    by (intro conjI) (rule c1 c2 u1 u2 u3 u4)+
qed

section \<open>The identifier\<close>

lemma served_all_accepted:
  "\<forall>c s. fst (tr c s) = None \<Longrightarrow> served tr s cs = map (\<lambda>c. (c, None)) cs"
proof (induction cs arbitrary: s)
  case Nil
  show ?case by simp
next
  case (Cons c cs)
  obtain e s' where t: "tr c s = (e, s')"
    by (cases "tr c s")
  with Cons.prems have "e = None"
    by (metis fst_conv)
  with t Cons show ?case
    by simp
qed

lemma stored_id:
  assumes op: "op = Create tab \<or> op = Update tab"
    and st: "State (op r tr s0 (diags, plan)) = Some st"
  shows "st = plan\<lparr>ID := StringValue (Sprintf_x (md5_Sum (bytes_of_string (plan_msg tab plan))))\<rparr>"
    and "(Write (plan_msg tab plan), None) \<in> set (calls (op r tr s0 (diags, plan)))"
proof -
  from st have ne: "State (op r tr s0 (diags, plan)) \<noteq> None"
    by simp
  note g = run_general [OF op, of Close "[]" r tr s0 diags plan]
  note s = mp [OF conjunct1 [OF conjunct2 [OF g]] ne]
  from s st show "st = plan\<lparr>ID := StringValue (Sprintf_x (md5_Sum (bytes_of_string (plan_msg tab plan))))\<rparr>"
    by simp
  define out where "out = op r tr s0 (diags, plan)"
  have ne': "State out \<noteq> None"
    unfolding out_def by (rule ne)
  have "(Write (plan_msg tab plan), None) \<in> set (calls out)"
    using op_outcome [OF op, of r tr s0 diags plan, folded out_def]
  proof (elim disjE)
    assume "calls out = [] \<and> State out = None \<and> Diagnostics out = diags"
    with ne' show ?thesis
      by simp
  next
    assume "\<exists>cl. client r = Some cl \<and> \<not> HasError diags
           \<and> (completed tab (Create_script tab cl plan) diags plan out
               \<or> (\<exists>m err. aborted_at m err (Create_script tab cl plan) diags out))"
    then obtain cl where "completed tab (Create_script tab cl plan) diags plan out
               \<or> (\<exists>m err. aborted_at m err (Create_script tab cl plan) diags out)"
      by blast
    with ne' have co: "completed tab (Create_script tab cl plan) diags plan out"
      by (auto simp: aborted_at_def)
    have "Write (plan_msg tab plan) \<in> set (Create_script tab cl plan)"
      by (simp add: Create_script_parts)
    with co show ?thesis
      by (auto simp: completed_def)
  next
    assume "\<exists>cl. client r = Some cl \<and> \<not> HasError diags \<and> auth cl = None \<and> op = Update tab
           \<and> (panicked
                 [Dial (host cl @ '':'' @ port cl),
                  StartTLS \<lparr>ServerName = host cl @ '':'' @ port cl, InsecureSkipVerify = True\<rparr>]
                 diags out
               \<or> (\<exists>m err. aborted_at m err
                     [Dial (host cl @ '':'' @ port cl),
                      StartTLS \<lparr>ServerName = host cl @ '':'' @ port cl, InsecureSkipVerify = True\<rparr>]
                     diags out))"
    then obtain cl where "client r = Some cl \<and> \<not> HasError diags \<and> auth cl = None \<and> op = Update tab
           \<and> (panicked
                 [Dial (host cl @ '':'' @ port cl),
                  StartTLS \<lparr>ServerName = host cl @ '':'' @ port cl, InsecureSkipVerify = True\<rparr>]
                 diags out
               \<or> (\<exists>m err. aborted_at m err
                     [Dial (host cl @ '':'' @ port cl),
                      StartTLS \<lparr>ServerName = host cl @ '':'' @ port cl, InsecureSkipVerify = True\<rparr>]
                     diags out))"
      ..
    then have run: "panicked
                 [Dial (host cl @ '':'' @ port cl),
                  StartTLS \<lparr>ServerName = host cl @ '':'' @ port cl, InsecureSkipVerify = True\<rparr>]
                 diags out
               \<or> (\<exists>m err. aborted_at m err
                     [Dial (host cl @ '':'' @ port cl),
                      StartTLS \<lparr>ServerName = host cl @ '':'' @ port cl, InsecureSkipVerify = True\<rparr>]
                     diags out)"
      by simp
    from short_run(1) [OF run] ne' show ?thesis
      by simp
  qed
  then show "(Write (plan_msg tab plan), None) \<in> set (calls (op r tr s0 (diags, plan)))"
    unfolding out_def .
qed

text \<open>
  C4. When Create or Update writes the state, the identifier it stores is the
  hexadecimal form of the MD5 digest of the message it wrote to the connection. They do
  write it: with a client, no earlier error and, for Update, an authentication, on a
  server that accepts every call the state is the plan with that identifier. The digest
  has sixteen bytes, printed as 32 characters out of \<open>0123456789abcdef\<close>. The identifier
  depends on the message only: any other invocation that stores a state for the same
  message text stores the same identifier, whatever the server, the client or the other
  fields of the plan. And it does depend on the message: for the message of the example
  it is \<open>1d14662d559e8469508ff1cc3ed2c512\<close>, and with the body \<open>Hello!\<close> in the place of
  \<open>Hello\<close> it is \<open>39ef699ea229ab01d80846a3c251275a\<close>.
\<close>

theorem id_is_hex_md5_of_message:
  assumes op: "op = Create tab \<or> op = Update tab"
  shows "(State (op r tr s0 (diags, plan)) = Some st \<longrightarrow>
           ID st = StringValue (Sprintf_x (md5_Sum (bytes_of_string (plan_msg tab plan))))
         \<and> (Write (plan_msg tab plan), None) \<in> set (calls (op r tr s0 (diags, plan))))
       \<and> (client r = Some cl \<and> \<not> HasError diags \<and> (op = Create tab \<or> auth cl \<noteq> None)
          \<and> (\<forall>c s. fst (tr c s) = None) \<longrightarrow>
           State (op r tr s0 (diags, plan))
             = Some (plan\<lparr>ID := StringValue (Sprintf_x (md5_Sum (bytes_of_string (plan_msg tab plan))))\<rparr>))
       \<and> length (md5_Sum (bytes_of_string (plan_msg tab plan))) = 16
       \<and> length (Sprintf_x (md5_Sum (bytes_of_string (plan_msg tab plan)))) = 32
       \<and> set (Sprintf_x (md5_Sum (bytes_of_string (plan_msg tab plan)))) \<subseteq> set ''0123456789abcdef''
       \<and> (\<forall>op' r' tr' s0' diags' plan' st'.
             (op' = Create tab \<or> op' = Update tab)
             \<and> State (op' r' (tr' :: 't transport) s0' (diags', plan')) = Some st'
             \<and> plan_msg tab plan' = plan_msg tab plan
             \<longrightarrow> ID st' = StringValue (Sprintf_x (md5_Sum (bytes_of_string (plan_msg tab plan)))))
       \<and> Sprintf_x (md5_Sum (bytes_of_string (plan_msg tab example_plan)))
           = ''1d14662d559e8469508ff1cc3ed2c512''
       \<and> Sprintf_x (md5_Sum (bytes_of_string
             (plan_msg tab (example_plan\<lparr>Body := StringValue ''Hello!''\<rparr>))))
           = ''39ef699ea229ab01d80846a3c251275a''"
proof -
  have 1: "State (op r tr s0 (diags, plan)) = Some st \<longrightarrow>
           ID st = StringValue (Sprintf_x (md5_Sum (bytes_of_string (plan_msg tab plan))))
         \<and> (Write (plan_msg tab plan), None) \<in> set (calls (op r tr s0 (diags, plan)))"
  proof (intro impI conjI)
    assume st: "State (op r tr s0 (diags, plan)) = Some st"
    from stored_id(1) [OF op st]
    show "ID st = StringValue (Sprintf_x (md5_Sum (bytes_of_string (plan_msg tab plan))))"
      by simp
    from stored_id(2) [OF op st]
    show "(Write (plan_msg tab plan), None) \<in> set (calls (op r tr s0 (diags, plan)))" .
  qed
  have 2: "client r = Some cl \<and> \<not> HasError diags \<and> (op = Create tab \<or> auth cl \<noteq> None)
          \<and> (\<forall>c s. fst (tr c s) = None) \<longrightarrow>
           State (op r tr s0 (diags, plan))
             = Some (plan\<lparr>ID := StringValue (Sprintf_x (md5_Sum (bytes_of_string (plan_msg tab plan))))\<rparr>)"
  proof (intro impI)
    assume "client r = Some cl \<and> \<not> HasError diags \<and> (op = Create tab \<or> auth cl \<noteq> None)
          \<and> (\<forall>c s. fst (tr c s) = None)"
    then have r: "client r = Some cl" and ok: "\<not> HasError diags"
      and sends: "op = Create tab \<or> auth cl \<noteq> None" and acc: "\<forall>c s. fst (tr c s) = None"
      by simp_all
    have "refusal (served tr s0 (Create_script tab cl plan)) = None"
      by (simp only: served_all_accepted [OF acc] refusal_accepted)
    with op_served(2) [OF op r ok sends, of tr s0 plan]
    show "State (op r tr s0 (diags, plan))
             = Some (plan\<lparr>ID := StringValue (Sprintf_x (md5_Sum (bytes_of_string (plan_msg tab plan))))\<rparr>)"
      by (simp add: message_id_def)
  qed
  have 4: "length (Sprintf_x (md5_Sum (bytes_of_string (plan_msg tab plan)))) = 32"
    by (simp add: length_Sprintf_x length_md5_Sum)
  have 5: "set (Sprintf_x (md5_Sum (bytes_of_string (plan_msg tab plan)))) \<subseteq> set ''0123456789abcdef''"
    using set_Sprintf_x [of "md5_Sum (bytes_of_string (plan_msg tab plan))"]
    by (simp only: lowerhex_def)
  have same: "ID st' = StringValue (Sprintf_x (md5_Sum (bytes_of_string (plan_msg tab plan))))"
    if "op' = Create tab \<or> op' = Update tab"
      and "State (op' r' tr' s0' (diags', plan')) = Some st'"
      and "plan_msg tab plan' = plan_msg tab plan"
    for op' r' and tr' :: "'t transport" and s0' diags' plan' st'
    using stored_id(1) [OF that(1) that(2)] that(3) by simp
  then have 6: "\<forall>op' r' tr' s0' diags' plan' st'.
             (op' = Create tab \<or> op' = Update tab)
             \<and> State (op' r' (tr' :: 't transport) s0' (diags', plan')) = Some st'
             \<and> plan_msg tab plan' = plan_msg tab plan
             \<longrightarrow> ID st' = StringValue (Sprintf_x (md5_Sum (bytes_of_string (plan_msg tab plan))))"
    by blast
  show ?thesis
    by (intro conjI) (rule 1, rule 2, rule length_md5_Sum, rule 4, rule 5, rule 6,
      rule example_digest, rule other_digest)
qed

theorem id_is_hex_md5_of_message_witness:
  "State (Create plain_table \<lparr>client = Some open_relay\<rparr> accept () ([], example_plan))
     = Some (example_plan\<lparr>ID := StringValue ''1d14662d559e8469508ff1cc3ed2c512''\<rparr>)
   \<and> State (Update plain_table \<lparr>client = Some submission\<rparr> accept () ([], example_plan))
     = Some (example_plan\<lparr>ID := StringValue ''1d14662d559e8469508ff1cc3ed2c512''\<rparr>)
   \<and> State (Update plain_table \<lparr>client = Some submission\<rparr> accept ()
        ([], example_plan\<lparr>Body := StringValue ''Hello!''\<rparr>))
     = Some (example_plan\<lparr>Body := StringValue ''Hello!'',
          ID := StringValue ''39ef699ea229ab01d80846a3c251275a''\<rparr>)
   \<and> (Write (plan_msg plain_table example_plan), None)
       \<in> set (calls (Create plain_table \<lparr>client = Some open_relay\<rparr> accept () ([], example_plan)))
   \<and> (Write (plan_msg plain_table example_plan), None)
       \<in> set (calls (Update plain_table \<lparr>client = Some submission\<rparr> accept () ([], example_plan)))"
proof -
  let ?C = "Create plain_table \<lparr>client = Some open_relay\<rparr> accept () ([], example_plan)"
  let ?U = "Update plain_table \<lparr>client = Some submission\<rparr> accept () ([], example_plan)"
  let ?V = "Update plain_table \<lparr>client = Some submission\<rparr> accept ()
        ([], example_plan\<lparr>Body := StringValue ''Hello!''\<rparr>)"
  have c: "Create plain_table = Create plain_table \<or> Create plain_table = Update plain_table"
    by simp
  have u: "Update plain_table = Create plain_table \<or> Update plain_table = Update plain_table"
    by simp
  have acc: "\<forall>c s. fst (accept c s) = None"
    by (simp add: accept_def)
  have au: "auth submission \<noteq> None"
    by (simp add: clients)
  have r: "client \<lparr>client = Some cl\<rparr> = Some cl" for cl
    by simp
  have hc: "client \<lparr>client = Some open_relay\<rparr> = Some open_relay \<and> \<not> HasError []
      \<and> (Create plain_table = Create plain_table \<or> auth open_relay \<noteq> None)
      \<and> (\<forall>c s. fst (accept c s) = None)"
    by (intro conjI disjI1 refl r no_diagnostics acc)
  have hu: "client \<lparr>client = Some submission\<rparr> = Some submission \<and> \<not> HasError []
      \<and> (Update plain_table = Create plain_table \<or> auth submission \<noteq> None)
      \<and> (\<forall>c s. fst (accept c s) = None)"
    by (intro conjI disjI2 au r no_diagnostics acc)
  (* Create *)
  note TC = id_is_hex_md5_of_message [OF c, of "\<lparr>client = Some open_relay\<rparr>" accept "()" "[]"
      example_plan "example_plan\<lparr>ID := StringValue ''1d14662d559e8469508ff1cc3ed2c512''\<rparr>"
      open_relay]
  note SC = mp [OF conjunct1 [OF conjunct2 [OF TC]] hc]
  have c1: "State ?C = Some (example_plan\<lparr>ID := StringValue ''1d14662d559e8469508ff1cc3ed2c512''\<rparr>)"
    using SC unfolding example_digest .
  note c2 = conjunct2 [OF mp [OF conjunct1 [OF TC] c1]]
  (* Update *)
  note TU = id_is_hex_md5_of_message [OF u, of "\<lparr>client = Some submission\<rparr>" accept "()" "[]"
      example_plan "example_plan\<lparr>ID := StringValue ''1d14662d559e8469508ff1cc3ed2c512''\<rparr>"
      submission]
  note SU = mp [OF conjunct1 [OF conjunct2 [OF TU]] hu]
  have u1: "State ?U = Some (example_plan\<lparr>ID := StringValue ''1d14662d559e8469508ff1cc3ed2c512''\<rparr>)"
    using SU unfolding example_digest .
  note u2 = conjunct2 [OF mp [OF conjunct1 [OF TU] u1]]
  (* Update, another body *)
  note TV = id_is_hex_md5_of_message [OF u, of "\<lparr>client = Some submission\<rparr>" accept "()" "[]"
      "example_plan\<lparr>Body := StringValue ''Hello!''\<rparr>" example_plan submission]
  note SV = mp [OF conjunct1 [OF conjunct2 [OF TV]] hu]
  have v1: "State ?V = Some (example_plan\<lparr>Body := StringValue ''Hello!'',
          ID := StringValue ''39ef699ea229ab01d80846a3c251275a''\<rparr>)"
    using SV unfolding other_digest .
  show ?thesis
    by (intro conjI) (rule c1 u1 v1 c2 u2)+
qed

section \<open>The message text\<close>

lemma plan_header_layout:
  "plan_header tab plan
     = ''To: '' @ strings_Join (map (attr_String tab) (Elements (To plan))) '', '' @ [CR, LF]
       @ ''Cc: '' @ strings_Join (map (attr_String tab) (Elements (Cc plan))) '', '' @ [CR, LF]
       @ ''Subject: '' @ ValueString (Subject plan) @ [CR, LF]"
  by (simp add: plan_header_def asStringList_map)

text \<open>
  C8. The message is the header lines, the MIME block, an empty line, the body and a
  final CRLF. The MIME block is the only part that depends on the flag: it is
  \<open>MIME-version: 1.0;\<close> LF \<open>Content-Type: text/html; charset="UTF-8";\<close> LF LF when the
  flag is true and empty otherwise; the To, Cc and Subject lines and the body are the
  same for both values of the flag.
\<close>

theorem render_html_changes_only_mime:
  "plan_msg tab plan
     = plan_header tab plan @ plan_mime plan @ [CR, LF] @ ValueString (Body plan) @ [CR, LF]
   \<and> plan_mime plan
     = (if ValueBool (RenderHtml plan)
        then ''MIME-version: 1.0;'' @ [LF] @ ''Content-Type: text/html; charset='' @ [DQ]
             @ ''UTF-8'' @ [DQ] @ '';'' @ [LF, LF]
        else [])
   \<and> plan_msg tab (plan\<lparr>RenderHtml := BoolValue True\<rparr>)
     = plan_header tab plan
       @ (''MIME-version: 1.0;'' @ [LF] @ ''Content-Type: text/html; charset='' @ [DQ]
          @ ''UTF-8'' @ [DQ] @ '';'' @ [LF, LF])
       @ [CR, LF] @ ValueString (Body plan) @ [CR, LF]
   \<and> plan_msg tab (plan\<lparr>RenderHtml := BoolValue False\<rparr>)
     = plan_header tab plan @ [] @ [CR, LF] @ ValueString (Body plan) @ [CR, LF]
   \<and> plan_header tab (plan\<lparr>RenderHtml := flag\<rparr>) = plan_header tab plan
   \<and> Body (plan\<lparr>RenderHtml := flag\<rparr>) = Body plan
   \<and> plan_header tab plan
     = ''To: '' @ strings_Join (map (attr_String tab) (Elements (To plan))) '', '' @ [CR, LF]
       @ ''Cc: '' @ strings_Join (map (attr_String tab) (Elements (Cc plan))) '', '' @ [CR, LF]
       @ ''Subject: '' @ ValueString (Subject plan) @ [CR, LF]"
proof (intro conjI)
  show "plan_msg tab plan
      = plan_header tab plan @ plan_mime plan @ [CR, LF] @ ValueString (Body plan) @ [CR, LF]"
    by (simp add: plan_msg_def)
  show "plan_mime plan
     = (if ValueBool (RenderHtml plan)
        then ''MIME-version: 1.0;'' @ [LF] @ ''Content-Type: text/html; charset='' @ [DQ]
             @ ''UTF-8'' @ [DQ] @ '';'' @ [LF, LF]
        else [])"
    by (simp add: plan_mime_def)
  show "plan_msg tab (plan\<lparr>RenderHtml := BoolValue True\<rparr>)
     = plan_header tab plan
       @ (''MIME-version: 1.0;'' @ [LF] @ ''Content-Type: text/html; charset='' @ [DQ]
          @ ''UTF-8'' @ [DQ] @ '';'' @ [LF, LF])
       @ [CR, LF] @ ValueString (Body plan) @ [CR, LF]"
    by (simp add: plan_msg_def plan_mime_def plan_header_def)
  show "plan_msg tab (plan\<lparr>RenderHtml := BoolValue False\<rparr>)
     = plan_header tab plan @ [] @ [CR, LF] @ ValueString (Body plan) @ [CR, LF]"
    by (simp add: plan_msg_def plan_mime_def plan_header_def)
  show "plan_header tab (plan\<lparr>RenderHtml := flag\<rparr>) = plan_header tab plan"
    by (simp add: plan_header_def)
  show "Body (plan\<lparr>RenderHtml := flag\<rparr>) = Body plan"
    by simp
  show "plan_header tab plan
     = ''To: '' @ strings_Join (map (attr_String tab) (Elements (To plan))) '', '' @ [CR, LF]
       @ ''Cc: '' @ strings_Join (map (attr_String tab) (Elements (Cc plan))) '', '' @ [CR, LF]
       @ ''Subject: '' @ ValueString (Subject plan) @ [CR, LF]"
    by (rule plan_header_layout)
qed

text \<open>
  C1, at the request of the specification's example. The message the code composes has
  the address between double quotes, because \<open>asStringList\<close> renders the elements
  with \<open>String()\<close>; it is not the text the specification gives.
\<close>

theorem example_message_quotes_address:
  "plan_msg tab example_plan
     = ''To: '' @ [DQ] @ ''a@x'' @ [DQ] @ [CR, LF] @ ''Cc: '' @ [CR, LF]
       @ ''Subject: Hi'' @ [CR, LF] @ [CR, LF] @ ''Hello'' @ [CR, LF]
   \<and> plan_msg tab example_plan
     \<noteq> ''To: a@x'' @ [CR, LF] @ ''Cc: '' @ [CR, LF]
       @ ''Subject: Hi'' @ [CR, LF] @ [CR, LF] @ ''Hello'' @ [CR, LF]"
  by (simp add: example_message)

section \<open>Update without credentials\<close>

lemma Create_without_auth:
  assumes "auth cl = None"
    and "(c, res) \<in> set (calls (Create tab \<lparr>client = Some cl\<rparr> tr s0 (diags, plan)))"
  shows "c \<noteq> StartTLS cfg \<and> c \<noteq> Auth a"
proof -
  from assms(2) have ok: "\<not> HasError diags"
    using no_send [of diags "\<lparr>client = Some cl\<rparr>" tab tr s0 plan] by auto
  from assms(2) have "c \<in> set (map fst (served tr s0 (Create_script tab cl plan)))"
    unfolding Create_served(1) [OF ok] by force
  then have "c \<in> set (Create_script tab cl plan)"
    unfolding served_calls_take by (rule in_set_takeD)
  with assms(1) show ?thesis
    by (auto simp: Create_script_def envelope_script_def)
qed

lemma Update_like_Create_with_auth:
  assumes "auth cl \<noteq> None"
  shows "Update tab \<lparr>client = Some cl\<rparr> tr s0 req = Create tab \<lparr>client = Some cl\<rparr> tr s0 req"
proof -
  from assms obtain a where a: "auth cl = Some a"
    by auto
  show ?thesis
    by (cases req) (simp add: Update_def Create_def Let_def a)
qed

lemma Read_Delete_no_send:
  "calls (Read r tr s0) = [] \<and> State (Read r tr s0) = None \<and> remote (Read r tr s0) = s0
   \<and> calls (Delete r tr s0) = [] \<and> State (Delete r tr s0) = None \<and> remote (Delete r tr s0) = s0"
  by (simp add: Read_def Delete_def)

lemma served_no_starttls:
  "served no_starttls ()
     [Dial ''smtp.example.com:25'',
      StartTLS \<lparr>ServerName = ''smtp.example.com:25'', InsecureSkipVerify = True\<rparr>]
   = [(Dial ''smtp.example.com:25'', None),
      (StartTLS \<lparr>ServerName = ''smtp.example.com:25'', InsecureSkipVerify = True\<rparr>,
       Some ''smtp: server does not support STARTTLS'')]"
  "served no_starttls ()
     [Dial ''smtp.example.com:25'', Mail [], Rcpt ([DQ] @ ''a@x'' @ [DQ]), Data, Write msg, Close]
   = [(Dial ''smtp.example.com:25'', None), (Mail [], None),
      (Rcpt ([DQ] @ ''a@x'' @ [DQ]), None), (Data, None), (Write msg, None), (Close, None)]"
  by (simp_all add: no_starttls_def)

lemma update_no_starttls:
  "calls (Update tab \<lparr>client = Some open_relay\<rparr> no_starttls () ([], example_plan))
     = [(Dial ''smtp.example.com:25'', None),
        (StartTLS \<lparr>ServerName = ''smtp.example.com:25'', InsecureSkipVerify = True\<rparr>,
         Some ''smtp: server does not support STARTTLS'')]"
  "State (Update tab \<lparr>client = Some open_relay\<rparr> no_starttls () ([], example_plan)) = None"
  "Diagnostics (Update tab \<lparr>client = Some open_relay\<rparr> no_starttls () ([], example_plan))
     = [Diagnostic SeverityError ''Error upgrading connection to TLS:''
          ''smtp: server does not support STARTTLS'']"
  "exit (Update tab \<lparr>client = Some open_relay\<rparr> no_starttls () ([], example_plan)) = Returned"
  unfolding Update_served [OF no_diagnostics] scripts served_no_starttls
  by (simp_all add: clients)

lemma update_accept:
  "calls (Update tab \<lparr>client = Some open_relay\<rparr> accept () ([], example_plan))
     = [(Dial ''smtp.example.com:25'', None),
        (StartTLS \<lparr>ServerName = ''smtp.example.com:25'', InsecureSkipVerify = True\<rparr>, None)]"
  "State (Update tab \<lparr>client = Some open_relay\<rparr> accept () ([], example_plan)) = None"
  "Diagnostics (Update tab \<lparr>client = Some open_relay\<rparr> accept () ([], example_plan)) = []"
  "exit (Update tab \<lparr>client = Some open_relay\<rparr> accept () ([], example_plan)) = Panicked"
  unfolding Update_served [OF no_diagnostics] scripts served_accept
  by (simp_all add: clients)

lemma create_runs:
  "calls (Create tab \<lparr>client = Some open_relay\<rparr> no_starttls () ([], example_plan))
     = [(Dial ''smtp.example.com:25'', None), (Mail [], None),
        (Rcpt ([DQ] @ ''a@x'' @ [DQ]), None), (Data, None),
        (Write (plan_msg tab example_plan), None), (Close, None)]"
  "State (Create tab \<lparr>client = Some open_relay\<rparr> no_starttls () ([], example_plan))
     = Some (example_plan\<lparr>ID := StringValue ''1d14662d559e8469508ff1cc3ed2c512''\<rparr>)"
  "calls (Create tab \<lparr>client = Some open_relay\<rparr> accept () ([], example_plan))
     = [(Dial ''smtp.example.com:25'', None), (Mail [], None),
        (Rcpt ([DQ] @ ''a@x'' @ [DQ]), None), (Data, None),
        (Write (plan_msg tab example_plan), None), (Close, None)]"
  "State (Create tab \<lparr>client = Some open_relay\<rparr> accept () ([], example_plan))
     = Some (example_plan\<lparr>ID := StringValue ''1d14662d559e8469508ff1cc3ed2c512''\<rparr>)"
  unfolding Create_served [OF no_diagnostics] scripts served_no_starttls served_accept
    message_id_def example_digest
  by simp_all

text \<open>
  C3, at a client without credentials. Create makes no STARTTLS and no authentication
  call there (\<open>Create_without_auth\<close>). Update does attempt STARTTLS: against a server
  that does not offer STARTTLS its calls are the dial and a refused STARTTLS, and it
  ends with the TLS error and no state; against a server that accepts every call it
  dials, upgrades to TLS and then panics in \<open>conn.Auth\<close>, called on the nil
  authentication, with no state and no diagnostic. Create against the same server makes
  neither call and sends the message.
\<close>

theorem update_starttls_without_credentials:
  "auth open_relay = None
   \<and> calls (Update tab \<lparr>client = Some open_relay\<rparr> no_starttls () ([], example_plan))
     = [(Dial ''smtp.example.com:25'', None),
        (StartTLS \<lparr>ServerName = ''smtp.example.com:25'', InsecureSkipVerify = True\<rparr>,
         Some ''smtp: server does not support STARTTLS'')]
   \<and> Diagnostics (Update tab \<lparr>client = Some open_relay\<rparr> no_starttls () ([], example_plan))
     = [Diagnostic SeverityError ''Error upgrading connection to TLS:''
          ''smtp: server does not support STARTTLS'']
   \<and> State (Update tab \<lparr>client = Some open_relay\<rparr> no_starttls () ([], example_plan)) = None
   \<and> calls (Update tab \<lparr>client = Some open_relay\<rparr> accept () ([], example_plan))
     = [(Dial ''smtp.example.com:25'', None),
        (StartTLS \<lparr>ServerName = ''smtp.example.com:25'', InsecureSkipVerify = True\<rparr>, None)]
   \<and> exit (Update tab \<lparr>client = Some open_relay\<rparr> accept () ([], example_plan)) = Panicked
   \<and> State (Update tab \<lparr>client = Some open_relay\<rparr> accept () ([], example_plan)) = None
   \<and> Diagnostics (Update tab \<lparr>client = Some open_relay\<rparr> accept () ([], example_plan)) = []
   \<and> calls (Create tab \<lparr>client = Some open_relay\<rparr> accept () ([], example_plan))
     = [(Dial ''smtp.example.com:25'', None), (Mail [], None),
        (Rcpt ([DQ] @ ''a@x'' @ [DQ]), None), (Data, None),
        (Write (plan_msg tab example_plan), None), (Close, None)]"
  by (intro conjI)
     (rule clients update_no_starttls update_accept create_runs)+

text \<open>
  C7, at the same client. With credentials Update is Create
  (\<open>Update_like_Create_with_auth\<close>), and Read and Delete make no call
  (\<open>Read_Delete_no_send\<close>). Without credentials the two differ. Where the server does
  not offer STARTTLS, Create sends the message and stores the identifier, and Update
  ends after the dial and the refused STARTTLS with the TLS error and no state. Where
  the server accepts every call, Create sends the message and stores the identifier,
  and Update dials, upgrades to TLS and panics: no MAIL, no RCPT, no message, no state.
\<close>

theorem update_is_not_create_without_credentials:
  "State (Create tab \<lparr>client = Some open_relay\<rparr> no_starttls () ([], example_plan))
     = Some (example_plan\<lparr>ID := StringValue ''1d14662d559e8469508ff1cc3ed2c512''\<rparr>)
   \<and> map fst (calls (Create tab \<lparr>client = Some open_relay\<rparr> no_starttls () ([], example_plan)))
     = [Dial ''smtp.example.com:25'', Mail [], Rcpt ([DQ] @ ''a@x'' @ [DQ]), Data,
        Write (plan_msg tab example_plan), Close]
   \<and> State (Update tab \<lparr>client = Some open_relay\<rparr> no_starttls () ([], example_plan)) = None
   \<and> Diagnostics (Update tab \<lparr>client = Some open_relay\<rparr> no_starttls () ([], example_plan))
     = [Diagnostic SeverityError ''Error upgrading connection to TLS:''
          ''smtp: server does not support STARTTLS'']
   \<and> map fst (calls (Update tab \<lparr>client = Some open_relay\<rparr> no_starttls () ([], example_plan)))
     = [Dial ''smtp.example.com:25'',
        StartTLS \<lparr>ServerName = ''smtp.example.com:25'', InsecureSkipVerify = True\<rparr>]
   \<and> State (Create tab \<lparr>client = Some open_relay\<rparr> accept () ([], example_plan))
     = Some (example_plan\<lparr>ID := StringValue ''1d14662d559e8469508ff1cc3ed2c512''\<rparr>)
   \<and> map fst (calls (Create tab \<lparr>client = Some open_relay\<rparr> accept () ([], example_plan)))
     = [Dial ''smtp.example.com:25'', Mail [], Rcpt ([DQ] @ ''a@x'' @ [DQ]), Data,
        Write (plan_msg tab example_plan), Close]
   \<and> State (Update tab \<lparr>client = Some open_relay\<rparr> accept () ([], example_plan)) = None
   \<and> exit (Update tab \<lparr>client = Some open_relay\<rparr> accept () ([], example_plan)) = Panicked
   \<and> map fst (calls (Update tab \<lparr>client = Some open_relay\<rparr> accept () ([], example_plan)))
     = [Dial ''smtp.example.com:25'',
        StartTLS \<lparr>ServerName = ''smtp.example.com:25'', InsecureSkipVerify = True\<rparr>]"
proof (intro conjI)
  show "State (Create tab \<lparr>client = Some open_relay\<rparr> no_starttls () ([], example_plan))
     = Some (example_plan\<lparr>ID := StringValue ''1d14662d559e8469508ff1cc3ed2c512''\<rparr>)"
    by (rule create_runs)
  show "map fst (calls (Create tab \<lparr>client = Some open_relay\<rparr> no_starttls () ([], example_plan)))
     = [Dial ''smtp.example.com:25'', Mail [], Rcpt ([DQ] @ ''a@x'' @ [DQ]), Data,
        Write (plan_msg tab example_plan), Close]"
    unfolding create_runs by simp
  show "State (Update tab \<lparr>client = Some open_relay\<rparr> no_starttls () ([], example_plan)) = None"
    by (rule update_no_starttls)
  show "Diagnostics (Update tab \<lparr>client = Some open_relay\<rparr> no_starttls () ([], example_plan))
     = [Diagnostic SeverityError ''Error upgrading connection to TLS:''
          ''smtp: server does not support STARTTLS'']"
    by (rule update_no_starttls)
  show "map fst (calls (Update tab \<lparr>client = Some open_relay\<rparr> no_starttls () ([], example_plan)))
     = [Dial ''smtp.example.com:25'',
        StartTLS \<lparr>ServerName = ''smtp.example.com:25'', InsecureSkipVerify = True\<rparr>]"
    unfolding update_no_starttls by simp
  show "State (Create tab \<lparr>client = Some open_relay\<rparr> accept () ([], example_plan))
     = Some (example_plan\<lparr>ID := StringValue ''1d14662d559e8469508ff1cc3ed2c512''\<rparr>)"
    by (rule create_runs)
  show "map fst (calls (Create tab \<lparr>client = Some open_relay\<rparr> accept () ([], example_plan)))
     = [Dial ''smtp.example.com:25'', Mail [], Rcpt ([DQ] @ ''a@x'' @ [DQ]), Data,
        Write (plan_msg tab example_plan), Close]"
    unfolding create_runs by simp
  show "State (Update tab \<lparr>client = Some open_relay\<rparr> accept () ([], example_plan)) = None"
    by (rule update_accept)
  show "exit (Update tab \<lparr>client = Some open_relay\<rparr> accept () ([], example_plan)) = Panicked"
    by (rule update_accept)
  show "map fst (calls (Update tab \<lparr>client = Some open_relay\<rparr> accept () ([], example_plan)))
     = [Dial ''smtp.example.com:25'',
        StartTLS \<lparr>ServerName = ''smtp.example.com:25'', InsecureSkipVerify = True\<rparr>]"
    unfolding update_accept by simp
qed

section \<open>Blind copies\<close>

lemma blind_header:
  "plan_header tab blind_plan
     = ''To: '' @ [DQ] @ ''a@x'' @ [DQ] @ [CR, LF] @ ''Cc: '' @ [CR, LF] @ ''Subject: Hi'' @ [CR, LF]"
  by (simp add: plan_header_def blind_plan_def asStringList_map quoted_addresses
        del: attr_String.simps)

lemma blind_run:
  "calls (Create tab \<lparr>client = Some open_relay\<rparr> accept () ([], blind_plan))
     = [(Dial ''smtp.example.com:25'', None), (Mail [], None),
        (Rcpt ([DQ] @ ''a@x'' @ [DQ]), None), (Rcpt ([DQ] @ ''d@x'' @ [DQ]), None),
        (Data, None), (Write (plan_msg tab blind_plan), None), (Close, None)]"
  unfolding Create_served [OF no_diagnostics] scripts served_accept
  by simp

text \<open>
  C5, at a request with blind copies. The header lines are computed from to, cc and
  subject alone: they, and the whole message, are the same whatever the bcc list is; and
  every element of the bcc list is among the deduplicated receivers. But what a RCPT
  call receives for a receiver is its \<open>String()\<close> rendering, the address between double
  quotes: with the blind copies \<open>a@x\<close> and \<open>d@x\<close> the RCPT calls of Create carry
  \<open>"a@x"\<close> and \<open>"d@x"\<close>, and no RCPT call carries the address \<open>d@x\<close>.
\<close>

theorem bcc_rcpt_gets_quoted_text:
  "plan_header tab (plan\<lparr>Bcc := bcc\<rparr>) = plan_header tab plan
   \<and> plan_msg tab (plan\<lparr>Bcc := bcc\<rparr>) = plan_msg tab plan
   \<and> set (Elements (Bcc plan)) \<subseteq> set (plan_receivers plan)
   \<and> Elements (Bcc blind_plan) = [StringValue ''a@x'', StringValue ''d@x'']
   \<and> ValueString (StringValue ''d@x'') = ''d@x''
   \<and> plan_header tab blind_plan
     = ''To: '' @ [DQ] @ ''a@x'' @ [DQ] @ [CR, LF] @ ''Cc: '' @ [CR, LF] @ ''Subject: Hi'' @ [CR, LF]
   \<and> filter (\<lambda>e. is_Rcpt (fst e))
       (calls (Create tab \<lparr>client = Some open_relay\<rparr> accept () ([], blind_plan)))
     = [(Rcpt ([DQ] @ ''a@x'' @ [DQ]), None), (Rcpt ([DQ] @ ''d@x'' @ [DQ]), None)]
   \<and> (Rcpt ''d@x'', res)
       \<notin> set (calls (Create tab \<lparr>client = Some open_relay\<rparr> accept () ([], blind_plan)))"
proof (intro conjI)
  show "plan_header tab (plan\<lparr>Bcc := bcc\<rparr>) = plan_header tab plan"
    by (simp add: plan_header_def)
  show "plan_msg tab (plan\<lparr>Bcc := bcc\<rparr>) = plan_msg tab plan"
    by (simp add: plan_msg_def plan_header_def plan_mime_def)
  show "set (Elements (Bcc plan)) \<subseteq> set (plan_receivers plan)"
    by (auto simp: plan_receivers_def uniqueAttrValue_unseen set_unseen)
  show "Elements (Bcc blind_plan) = [StringValue ''a@x'', StringValue ''d@x'']"
    by (simp add: blind_plan_def)
  show "ValueString (StringValue ''d@x'') = ''d@x''"
    by simp
  show "plan_header tab blind_plan
     = ''To: '' @ [DQ] @ ''a@x'' @ [DQ] @ [CR, LF] @ ''Cc: '' @ [CR, LF] @ ''Subject: Hi'' @ [CR, LF]"
    by (rule blind_header)
  show "filter (\<lambda>e. is_Rcpt (fst e))
       (calls (Create tab \<lparr>client = Some open_relay\<rparr> accept () ([], blind_plan)))
     = [(Rcpt ([DQ] @ ''a@x'' @ [DQ]), None), (Rcpt ([DQ] @ ''d@x'' @ [DQ]), None)]"
    unfolding blind_run by simp
  show "(Rcpt ''d@x'', res)
       \<notin> set (calls (Create tab \<lparr>client = Some open_relay\<rparr> accept () ([], blind_plan)))"
    unfolding blind_run by simp
qed

end
